theory Spec2Isabelle
  imports Main "HOL-Library.Word"
begin

unbundle bit_operations_syntax

section \<open>Go strings and their UTF-16 encoding\<close>

text \<open>
  A Go \<^verbatim>\<open>string\<close> is a sequence of bytes, which is what \<^typ>\<open>string\<close> is here.
  A panic of the source is a value of \<open>panic\<close>; a function that may panic returns
  \<open>panic + 'a\<close>.
\<close>

type_synonym u16 = "16 word"
type_synonym u32 = "32 word"

datatype panic =
    EINVAL            \<comment> \<open>\<^verbatim>\<open>panic(err)\<close> in \<^verbatim>\<open>mustUTF16FromString\<close> and \<^verbatim>\<open>mustUTF16PtrFromString\<close>\<close>
  | IndexOutOfRange   \<comment> \<open>\<^verbatim>\<open>reflect.Value.Index\<close> outside the array\<close>
  | TypeAssertion     \<comment> \<open>\<^verbatim>\<open>m.Data.(T)\<close> on a value of another dynamic type\<close>

text \<open>
  \<^verbatim>\<open>syscall.UTF16FromString\<close> belongs to Go's standard library, not to this
  repository. It is modelled as the library documents and implements it (Go 1.21 and
  later): the result is \<^verbatim>\<open>EINVAL\<close> when the string holds a NUL byte, and otherwise
  the UTF-16 encoding of the string followed by one terminating NUL. The encoding
  decodes the bytes rune by rune (\<^verbatim>\<open>utf8.DecodeRuneInString\<close>: an invalid byte is
  the rune U+FFFD of width 1), passes a WTF-8 encoded surrogate through as one code
  unit, and appends each rune with \<^verbatim>\<open>utf16.AppendRune\<close>.
\<close>

definition RuneError :: nat where
  "RuneError = 0xFFFD"

text \<open>
  The table \<^verbatim>\<open>first\<close> of the package \<^verbatim>\<open>utf8\<close> gives, for a leading byte of a
  multi-byte sequence (\<open>0xC2\<close> to \<open>0xF4\<close>), the length of the sequence and the range
  that its second byte must lie in.
\<close>

definition first_size :: "nat \<Rightarrow> nat" where
  "first_size s0 = (if s0 < 0xE0 then 2 else if s0 < 0xF0 then 3 else 4)"

definition accept_lo :: "nat \<Rightarrow> nat" where
  "accept_lo s0 = (if s0 = 0xE0 then 0xA0 else if s0 = 0xF0 then 0x90 else 0x80)"

definition accept_hi :: "nat \<Rightarrow> nat" where
  "accept_hi s0 = (if s0 = 0xED then 0x9F else if s0 = 0xF4 then 0x8F else 0xBF)"

definition DecodeRuneInString :: "string \<Rightarrow> nat \<times> nat" where
  "DecodeRuneInString s =
     (let n = length s in
      if n < 1 then (RuneError, 0)
      else
        let s0 = (of_char (s ! 0) :: nat) in
        if s0 < 0x80 then (s0, 1)
        else if s0 < 0xC2 \<or> 0xF4 < s0 then (RuneError, 1)
        else
          let sz = first_size s0 in
          if n < sz then (RuneError, 1)
          else
            let s1 = (of_char (s ! 1) :: nat) in
            if s1 < accept_lo s0 \<or> accept_hi s0 < s1 then (RuneError, 1)
            else if sz \<le> 2 then ((s0 mod 32) * 64 + s1 mod 64, 2)
            else
              let s2 = (of_char (s ! 2) :: nat) in
              if s2 < 0x80 \<or> 0xBF < s2 then (RuneError, 1)
              else if sz \<le> 3 then ((s0 mod 16) * 4096 + (s1 mod 64) * 64 + s2 mod 64, 3)
              else
                let s3 = (of_char (s ! 3) :: nat) in
                if s3 < 0x80 \<or> 0xBF < s3 then (RuneError, 1)
                else ((s0 mod 8) * 262144 + (s1 mod 64) * 4096 + (s2 mod 64) * 64
                        + s3 mod 64, 4))"

definition AppendRune :: "nat \<Rightarrow> u16 list" where
  "AppendRune r =
     (if r < 0xD800 \<or> (0xE000 \<le> r \<and> r < 0x10000) then [of_nat r]
      else if 0x10000 \<le> r \<and> r \<le> 0x10FFFF then
        [of_nat (0xD800 + ((r - 0x10000) div 1024) mod 1024),
         of_nat (0xDC00 + (r - 0x10000) mod 1024)]
      else [0xFFFD])"

definition wtf8_surrogate :: "string \<Rightarrow> bool" where
  "wtf8_surrogate sc \<longleftrightarrow>
     3 \<le> length sc \<and> (of_char (sc ! 0) :: nat) = 0xED
     \<and> 0xA0 \<le> (of_char (sc ! 1) :: nat) \<and> (of_char (sc ! 1) :: nat) \<le> 0xBF
     \<and> 0x80 \<le> (of_char (sc ! 2) :: nat) \<and> (of_char (sc ! 2) :: nat) \<le> 0xBF"

function encodeWTF16 :: "string \<Rightarrow> u16 list" where
  "encodeWTF16 s =
     (if s = [] then []
      else if fst (DecodeRuneInString s) = RuneError \<and> wtf8_surrogate s then
        of_nat ((of_char (s ! 0) mod 16) * 4096 + (of_char (s ! 1) mod 64) * 64
                  + of_char (s ! 2) mod 64)
          # encodeWTF16 (drop 3 s)
      else AppendRune (fst (DecodeRuneInString s))
             @ encodeWTF16 (drop (snd (DecodeRuneInString s)) s))"
  by pat_completeness auto
termination
proof (relation "measure length")
  show "wf (measure length)" by simp
next
  fix s :: string
  assume "s \<noteq> []"
  then show "(drop 3 s, s) \<in> measure length" by simp
next
  fix s :: string
  assume "s \<noteq> []"
  then have "\<not> length s < 1" by simp
  then have "0 < snd (DecodeRuneInString s)"
    by (simp add: DecodeRuneInString_def Let_def)
  with \<open>s \<noteq> []\<close> show "(drop (snd (DecodeRuneInString s)) s, s) \<in> measure length"
    by simp
qed

declare encodeWTF16.simps [simp del]

definition UTF16FromString :: "string \<Rightarrow> panic + u16 list" where
  \<comment> \<open>\<open>Inl EINVAL\<close> stands for the error return \<^verbatim>\<open>(nil, EINVAL)\<close>.\<close>
  "UTF16FromString s =
     (if CHR 0x00 \<in> set s then Inl EINVAL else Inr (encodeWTF16 s @ [0]))"

definition mustUTF16FromString :: "string \<Rightarrow> panic + u16 list" where
  "mustUTF16FromString v =
     (case UTF16FromString v of Inl err \<Rightarrow> Inl err | Inr p \<Rightarrow> Inr p)"

section \<open>Copying into a fixed-capacity native text field\<close>

text \<open>
  \<^verbatim>\<open>copyToUint16Buffer(buff, text)\<close> receives a pointer to an array
  \<^verbatim>\<open>[N]uint16\<close>; the array is a list of length \<open>N\<close>. \<^verbatim>\<open>vBuff.Index(i).Set(v)\<close>
  panics when \<open>i\<close> is outside the array, so the index is an \<^typ>\<open>int\<close> and the
  write is checked.
\<close>

definition Index_Set :: "u16 list \<Rightarrow> int \<Rightarrow> u16 \<Rightarrow> panic + u16 list" where
  "Index_Set vBuff i v =
     (if 0 \<le> i \<and> i < int (length vBuff) then Inr (vBuff[nat i := v])
      else Inl IndexOutOfRange)"

fun copy_range :: "nat \<Rightarrow> u16 list \<Rightarrow> u16 list \<Rightarrow> panic + u16 list" where
  "copy_range i [] vBuff = Inr vBuff"
| "copy_range i (v # vs) vBuff =
     (if i = length vBuff then Index_Set vBuff (int i - 1) 0
      else case Index_Set vBuff (int i) v of
             Inl p \<Rightarrow> Inl p
           | Inr vBuff' \<Rightarrow> copy_range (Suc i) vs vBuff')"

definition copyToUint16Buffer :: "u16 list \<Rightarrow> string \<Rightarrow> panic + u16 list" where
  "copyToUint16Buffer buff text =
     (case mustUTF16FromString text of
        Inl p \<Rightarrow> Inl p
      | Inr units \<Rightarrow> copy_range 0 units buff)"

text \<open>The NUL-terminated string a native field holds, as the platform reads it.\<close>

definition cstring :: "u16 list \<Rightarrow> u16 list" where
  "cstring buff = takeWhile (\<lambda>u. u \<noteq> 0) buff"

section \<open>The platform: shell, menus and files\<close>

text \<open>
  The Win32 and operating-system services are external to the repository. They are
  modelled here by what they do to a small \<open>world\<close> (the tray icons the shell
  shows, the popup menus, the files) and every answer that the platform alone
  decides is read from an \<open>env\<close>, over which the theorems quantify. Handles
  (\<^verbatim>\<open>HWND\<close>, \<^verbatim>\<open>HMENU\<close>, \<^verbatim>\<open>HICON\<close>) are numbers, \<open>0\<close> the null handle.
  Every call is appended to the \<open>trace\<close> of the world, in program order.
\<close>

type_synonym handle = nat
type_synonym uintptr = "64 word"

datatype err =
    ErrorString string   \<comment> \<open>\<^verbatim>\<open>errors.New(s)\<close>\<close>
  | Errno nat            \<comment> \<open>the \<^verbatim>\<open>syscall.Errno\<close> that \<^verbatim>\<open>Proc.Call\<close> returns\<close>
  | PathError            \<comment> \<open>the error of \<^verbatim>\<open>os.CreateTemp\<close>\<close>

text \<open>
  \<^verbatim>\<open>win.NOTIFYICONDATA\<close> is declared in the package \<^verbatim>\<open>lxn/win\<close>; its text fields
  are \<^verbatim>\<open>SzTip [128]uint16\<close>, \<^verbatim>\<open>SzInfo [256]uint16\<close> and
  \<^verbatim>\<open>SzInfoTitle [64]uint16\<close>. A struct literal starts from the zero value.
\<close>

record NOTIFYICONDATA =
  CbSize :: u32
  HWnd :: handle
  UID :: u32
  UFlags :: u32
  UCallbackMessage :: u32
  HIcon :: handle
  SzTip :: "u16 list"
  DwState :: u32
  DwStateMask :: u32
  SzInfo :: "u16 list"
  UVersion :: u32
  SzInfoTitle :: "u16 list"
  DwInfoFlags :: u32
  GuidItem :: "8 word list"
  HBalloonIcon :: handle

definition zero_NOTIFYICONDATA :: NOTIFYICONDATA where
  "zero_NOTIFYICONDATA =
     \<lparr>CbSize = 0, HWnd = 0, UID = 0, UFlags = 0, UCallbackMessage = 0, HIcon = 0,
      SzTip = replicate 128 0, DwState = 0, DwStateMask = 0, SzInfo = replicate 256 0,
      UVersion = 0, SzInfoTitle = replicate 64 0, DwInfoFlags = 0,
      GuidItem = replicate 16 0, HBalloonIcon = 0\<rparr>"

definition sizeof_NOTIFYICONDATA :: u32 where
  \<comment> \<open>\<^verbatim>\<open>unsafe.Sizeof(win.NOTIFYICONDATA{})\<close> on a 64-bit target\<close>
  "sizeof_NOTIFYICONDATA = 976"

definition NIM_ADD :: u32 where "NIM_ADD = 0"
definition NIM_MODIFY :: u32 where "NIM_MODIFY = 1"
definition NIM_DELETE :: u32 where "NIM_DELETE = 2"
definition NIM_SETVERSION :: u32 where "NIM_SETVERSION = 4"

definition NIF_MESSAGE :: u32 where "NIF_MESSAGE = 0x01"
definition NIF_ICON :: u32 where "NIF_ICON = 0x02"
definition NIF_TIP :: u32 where "NIF_TIP = 0x04"
definition NIF_INFO :: u32 where "NIF_INFO = 0x10"
definition NIF_SHOWTIP :: u32 where "NIF_SHOWTIP = 0x80"

definition NOTIFYICON_VERSION_4 :: u32 where "NOTIFYICON_VERSION_4 = 4"
definition MF_SEPARATOR :: u32 where "MF_SEPARATOR = 0x800"
definition TPM_LEFTALIGN :: u32 where "TPM_LEFTALIGN = 0x0"
definition TPM_RIGHTALIGN :: u32 where "TPM_RIGHTALIGN = 0x8"
definition TPM_RETURNCMD :: u32 where "TPM_RETURNCMD = 0x100"

definition WM_CREATE :: u32 where "WM_CREATE = 0x0001"
definition WM_QUIT :: u32 where "WM_QUIT = 0x0012"
definition WM_CONTEXTMENU :: u32 where "WM_CONTEXTMENU = 0x007B"
definition WM_RBUTTONUP :: u32 where "WM_RBUTTONUP = 0x0205"
definition WM_APP :: u32 where "WM_APP = 0x8000"

text \<open>
  A callback is a Go \<^verbatim>\<open>func()\<close>. What the model keeps of it is which one it is and
  whether a call of it returns (a callback may block for ever).
\<close>

datatype fn = Fn (fn_label: nat) (fn_returns: bool)

text \<open>
  \<^verbatim>\<open>pMessage\<close> has a \<^verbatim>\<open>Type int\<close> and a \<^verbatim>\<open>Data any\<close>; \<open>data\<close> lists the dynamic
  types the package stores there (\<^verbatim>\<open>[]byte\<close>, \<^verbatim>\<open>string\<close>,
  \<^verbatim>\<open>*pDataAddMenuItem\<close>, \<^verbatim>\<open>*pDataShowNotification\<close>, \<^verbatim>\<open>nil\<close>).
\<close>

datatype data =
    Bytes string
  | String string
  | pDataAddMenuItem (Text: string) (Fn_of: fn)
  | pDataShowNotification (Info: string) (InfoTitle: string)
  | Nil

record pMessage =
  Type :: int
  Data :: data

datatype menu_entry = MenuItem u32 "u16 list" | MenuSeparator

datatype event =
    Ev_Shell_NotifyIcon u32 NOTIFYICONDATA bool
  | Ev_AppendMenuW handle u32 u32 "u16 list option" bool
  | Ev_CreateTemp "err + string"
  | Ev_Copy string string
  | Ev_Remove string
  | Ev_LoadImage string handle
  | Ev_TrackPopupMenu handle u32 u32
  | Ev_DefWindowProc u32
  | Ev_Recv_messageChan pMessage
  | Ev_Send_returnChan "err option"
  | Ev_Go fn
  | Ev_Call fn
  | Ev_Send_hwndChan handle
  | Ev_Close_hwndChan
  | Ev_Close_closedChan

record tray_icon =
  ti_callback :: u32
  ti_icon :: handle
  ti_tip :: "u16 list"
  ti_version :: u32

text \<open>
  The world holds what outlives one call: the package's counter \<^verbatim>\<open>newIconId\<close>, the
  window class \<^verbatim>\<open>"WndClass"\<close> of the process (\<open>wndclass\<close>: not registered, or
  registered with the window procedure of the tray whose icon identifier is given),
  the icons of the shell, the notifications shown, the menus, the files, and the
  trace of the events so far.
\<close>

record world =
  newIconId :: u32
  wndclass :: "u32 option"
  tray :: "handle \<times> u32 \<rightharpoonup> tray_icon"
  balloons :: "(u16 list \<times> u16 list) list"
  menus :: "handle \<rightharpoonup> menu_entry list"
  files :: "string \<rightharpoonup> string"
  trace :: "event list"

record env =
  notify_ok :: "u32 \<Rightarrow> bool"
  append_ok :: bool
  last_error :: nat
  temp_name :: "err + string"
  image_of :: "string \<Rightarrow> handle"
  drop_alignment :: int
  popup_cmd :: u32
  def_result :: uintptr

definition log :: "event \<Rightarrow> world \<Rightarrow> world" where
  "log e w = w\<lparr>trace := trace w @ [e]\<rparr>"

text \<open>
  \<^verbatim>\<open>Shell_NotifyIcon(dwMessage, nid)\<close>: the icon is named by \<open>(HWnd, UID)\<close>.
  The shell rejects the call when the platform says so (\<open>notify_ok\<close>), when an icon
  to add exists already and when an icon to change or delete does not exist; a
  rejected call changes nothing. An accepted \<^verbatim>\<open>NIM_MODIFY\<close> takes the members that
  \<open>UFlags\<close> selects.
\<close>

definition apply_flags :: "NOTIFYICONDATA \<Rightarrow> tray_icon \<Rightarrow> tray_icon" where
  "apply_flags nid ti =
     ti\<lparr>ti_callback := (if UFlags nid AND NIF_MESSAGE \<noteq> 0 then UCallbackMessage nid
                          else ti_callback ti),
        ti_icon := (if UFlags nid AND NIF_ICON \<noteq> 0 then HIcon nid else ti_icon ti),
        ti_tip := (if UFlags nid AND NIF_TIP \<noteq> 0 then cstring (SzTip nid) else ti_tip ti)\<rparr>"

definition Shell_NotifyIcon ::
  "env \<Rightarrow> u32 \<Rightarrow> NOTIFYICONDATA \<Rightarrow> world \<Rightarrow> bool \<times> world" where
  "Shell_NotifyIcon env dwMessage nid w =
     (let k = (HWnd nid, UID nid);
          ok = (notify_ok env dwMessage
                \<and> (if dwMessage = NIM_ADD then tray w k = None else tray w k \<noteq> None));
          w' = (if \<not> ok then w
                else if dwMessage = NIM_ADD then
                  w\<lparr>tray := (tray w)(k \<mapsto> apply_flags nid
                         \<lparr>ti_callback = 0, ti_icon = 0, ti_tip = [], ti_version = 0\<rparr>)\<rparr>
                else if dwMessage = NIM_DELETE then w\<lparr>tray := (tray w)(k := None)\<rparr>
                else if dwMessage = NIM_MODIFY then
                  w\<lparr>tray := (tray w)(k \<mapsto> apply_flags nid (the (tray w k))),
                    balloons := (if UFlags nid AND NIF_INFO \<noteq> 0
                                 then balloons w @ [(cstring (SzInfo nid), cstring (SzInfoTitle nid))]
                                 else balloons w)\<rparr>
                else if dwMessage = NIM_SETVERSION then
                  w\<lparr>tray := (tray w)(k \<mapsto> (the (tray w k))\<lparr>ti_version := UVersion nid\<rparr>)\<rparr>
                else w)
      in (ok, log (Ev_Shell_NotifyIcon dwMessage nid ok) w'))"

text \<open>
  \<^verbatim>\<open>AppendMenuW(hMenu, uFlags, uIDNewItem, lpNewItem)\<close> through \<^verbatim>\<open>Proc.Call\<close>,
  which returns the result and the last error: the result is 0 when the platform
  refuses or the menu does not exist; otherwise the entry is added after the last
  one.
\<close>

definition AppendMenuW ::
  "env \<Rightarrow> handle \<Rightarrow> u32 \<Rightarrow> u32 \<Rightarrow> u16 list option \<Rightarrow> world \<Rightarrow> (nat \<times> err) \<times> world" where
  "AppendMenuW env hMenu uFlags uIDNewItem lpNewItem w =
     (let ok = (append_ok env \<and> menus w hMenu \<noteq> None);
          entry = (if uFlags AND MF_SEPARATOR \<noteq> 0 then MenuSeparator
                   else MenuItem uIDNewItem (case lpNewItem of None \<Rightarrow> [] | Some p \<Rightarrow> cstring p));
          w' = (if ok then w\<lparr>menus := (menus w)(hMenu \<mapsto> the (menus w hMenu) @ [entry])\<rparr>
                else w)
      in (((if ok then 1 else 0), Errno (last_error env)),
          log (Ev_AppendMenuW hMenu uFlags uIDNewItem lpNewItem ok) w'))"

text \<open>
  \<^verbatim>\<open>os.CreateTemp("", "*.ico")\<close> creates a file that did not exist, under a name
  the platform chooses (a name cannot hold a NUL byte), or fails.
  \<^verbatim>\<open>io.Copy\<close> writes the bytes, \<^verbatim>\<open>os.Remove\<close> deletes the file; the source
  drops the results of both. \<^verbatim>\<open>win.LoadImage\<close> with \<^verbatim>\<open>LR_LOADFROMFILE\<close> reads
  the named file and answers an icon handle, 0 when the image cannot be loaded.
\<close>

definition CreateTemp :: "env \<Rightarrow> world \<Rightarrow> (err + string) \<times> world" where
  "CreateTemp env w =
     (case temp_name env of
        Inl e \<Rightarrow> (Inl e, log (Ev_CreateTemp (Inl e)) w)
      | Inr name \<Rightarrow>
          if files w name \<noteq> None \<or> CHR 0x00 \<in> set name
          then (Inl PathError, log (Ev_CreateTemp (Inl PathError)) w)
          else (Inr name, log (Ev_CreateTemp (Inr name)) (w\<lparr>files := (files w)(name \<mapsto> [])\<rparr>)))"

definition Copy :: "string \<Rightarrow> string \<Rightarrow> world \<Rightarrow> world" where
  "Copy name b w = log (Ev_Copy name b) (w\<lparr>files := (files w)(name \<mapsto> b)\<rparr>)"

definition Remove :: "string \<Rightarrow> world \<Rightarrow> world" where
  "Remove name w = log (Ev_Remove name) (w\<lparr>files := (files w)(name := None)\<rparr>)"

definition LoadImage :: "env \<Rightarrow> string \<Rightarrow> world \<Rightarrow> handle \<times> world" where
  "LoadImage env name w =
     (let h = (case files w name of None \<Rightarrow> 0 | Some content \<Rightarrow> image_of env content)
      in (h, log (Ev_LoadImage name h) w))"

definition mustUTF16PtrFromString :: "string \<Rightarrow> panic + u16 list" where
  \<comment> \<open>the pointer is to the first unit of the NUL-terminated encoding\<close>
  "mustUTF16PtrFromString v =
     (case UTF16FromString v of Inl err \<Rightarrow> Inl err | Inr p \<Rightarrow> Inr p)"

text \<open>
  \<^verbatim>\<open>RegisterClassEx\<close> with the fixed class name \<^verbatim>\<open>"WndClass"\<close>: the first
  registration of the process succeeds and binds the class to the window procedure
  given; every later one fails and leaves the class as it is. \<^verbatim>\<open>run\<close> drops the
  result. The answer here is whose procedure the class holds after the call: \<open>None\<close>
  for the procedure given, or the tray that had registered before.
\<close>

definition RegisterClassEx :: "u32 \<Rightarrow> world \<Rightarrow> u32 option \<times> world" where
  "RegisterClassEx iconId w =
     (case wndclass w of
        None \<Rightarrow> (None, w\<lparr>wndclass := Some iconId\<rparr>)
      | Some owner \<Rightarrow> (Some owner, w))"

section \<open>The tray: the native calls of each operation\<close>

text \<open>
  The constants of the \<^verbatim>\<open>const\<close> block, whose \<^verbatim>\<open>iota\<close> counts every line of
  the block: \<^verbatim>\<open>pWMAPP_NOTIFYCALLBACK\<close> stands on line 1 and
  \<^verbatim>\<open>pMESSAGE_SET_ICON_FROM_BYTES\<close> on line 3.
\<close>

definition pWMAPP_NOTIFYCALLBACK :: u32 where "pWMAPP_NOTIFYCALLBACK = 1 + WM_APP + 1"
definition pWMAPP_MESSAGE :: u32 where "pWMAPP_MESSAGE = 2 + WM_APP + 1"

definition pMESSAGE_SET_ICON_FROM_BYTES :: int where "pMESSAGE_SET_ICON_FROM_BYTES = 3"
definition pMESSAGE_SET_TIP :: int where "pMESSAGE_SET_TIP = 4"
definition pMESSAGE_ADD_MENU_ITEM :: int where "pMESSAGE_ADD_MENU_ITEM = 5"
definition pMESSAGE_ADD_MENU_SEPARATOR :: int where "pMESSAGE_ADD_MENU_SEPARATOR = 6"
definition pMESSAGE_SHOW_NOTIFICATION :: int where "pMESSAGE_SHOW_NOTIFICATION = 7"

text \<open>
  A method that returns \<^verbatim>\<open>error\<close> returns \<open>err option\<close>, \<open>None\<close> for \<^verbatim>\<open>nil\<close>;
  where it may panic the result is \<open>panic + err option\<close>, always together with the
  world it leaves.
\<close>

definition createTrayIcon :: "env \<Rightarrow> handle \<Rightarrow> u32 \<Rightarrow> world \<Rightarrow> world" where
  "createTrayIcon env hwnd iconId w =
     snd (Shell_NotifyIcon env NIM_ADD
            (zero_NOTIFYICONDATA\<lparr>HWnd := hwnd, UID := iconId, UFlags := NIF_MESSAGE,
                                  UCallbackMessage := pWMAPP_NOTIFYCALLBACK\<rparr>) w)"

definition destroyTrayIcon :: "env \<Rightarrow> handle \<Rightarrow> u32 \<Rightarrow> world \<Rightarrow> world" where
  "destroyTrayIcon env hwnd iconId w =
     snd (Shell_NotifyIcon env NIM_DELETE
            (zero_NOTIFYICONDATA\<lparr>HWnd := hwnd, UID := iconId\<rparr>) w)"

definition setVersion :: "env \<Rightarrow> handle \<Rightarrow> u32 \<Rightarrow> world \<Rightarrow> world" where
  "setVersion env hwnd iconId w =
     snd (Shell_NotifyIcon env NIM_SETVERSION
            (zero_NOTIFYICONDATA\<lparr>HWnd := hwnd, UID := iconId,
                                  UVersion := NOTIFYICON_VERSION_4\<rparr>) w)"

text \<open>
  In \<^verbatim>\<open>setIcon\<close> the deferred \<^verbatim>\<open>os.Remove(f.Name())\<close> runs on every way out of
  the function once the temporary file exists: after each \<^verbatim>\<open>return\<close> and after a
  panic. It is the last step of the model on each of these paths.
\<close>

definition setIcon ::
  "env \<Rightarrow> handle \<Rightarrow> u32 \<Rightarrow> string \<Rightarrow> world \<Rightarrow> (panic + err option) \<times> world" where
  "setIcon env hwnd iconId b w =
     (case CreateTemp env w of
        (Inl err, w1) \<Rightarrow> (Inr (Some err), w1)
      | (Inr f_Name, w1) \<Rightarrow>
          let w2 = Copy f_Name b w1;
              (r, w5) =
                (case mustUTF16PtrFromString f_Name of
                   Inl p \<Rightarrow> (Inl p, w2)
                 | Inr lpszName \<Rightarrow>
                     let (h, w3) = LoadImage env f_Name w2 in
                     if h = 0 then (Inr (Some (ErrorString ''unable to load icon'')), w3)
                     else
                       let nid = zero_NOTIFYICONDATA\<lparr>HWnd := hwnd, UID := iconId,
                                   UFlags := NIF_ICON, HIcon := h\<rparr>;
                           (ok, w4) = Shell_NotifyIcon env NIM_MODIFY nid w3
                       in if \<not> ok then (Inr (Some (ErrorString ''unable to change icon'')), w4)
                          else (Inr None, w4))
          in (r, Remove f_Name w5))"

definition setTip ::
  "env \<Rightarrow> handle \<Rightarrow> u32 \<Rightarrow> string \<Rightarrow> world \<Rightarrow> (panic + err option) \<times> world" where
  "setTip env hwnd iconId text w =
     (let nid = zero_NOTIFYICONDATA\<lparr>CbSize := sizeof_NOTIFYICONDATA, HWnd := hwnd,
                  UID := iconId, UFlags := NIF_TIP OR NIF_SHOWTIP\<rparr>
      in case copyToUint16Buffer (SzTip nid) text of
           Inl p \<Rightarrow> (Inl p, w)
         | Inr tip \<Rightarrow>
             let (ok, w') = Shell_NotifyIcon env NIM_MODIFY (nid\<lparr>SzTip := tip\<rparr>) w
             in if \<not> ok then (Inr (Some (ErrorString ''unable to change tooltip'')), w')
                else (Inr None, w'))"

definition addMenuItem ::
  "env \<Rightarrow> handle \<Rightarrow> u32 \<Rightarrow> string \<Rightarrow> world \<Rightarrow> (panic + err option) \<times> world" where
  "addMenuItem env hmenu id' text w =
     (case mustUTF16PtrFromString text of
        Inl p \<Rightarrow> (Inl p, w)
      | Inr lpNewItem \<Rightarrow>
          let ((ret, err), w') = AppendMenuW env hmenu 0 id' (Some lpNewItem) w
          in if ret = 0 then (Inr (Some err), w') else (Inr None, w'))"

definition addMenuSeparator :: "env \<Rightarrow> handle \<Rightarrow> world \<Rightarrow> (panic + err option) \<times> world" where
  "addMenuSeparator env hmenu w =
     (let ((ret, err), w') = AppendMenuW env hmenu MF_SEPARATOR 0 None w
      in if ret = 0 then (Inr (Some err), w') else (Inr None, w'))"

definition showNotification ::
  "env \<Rightarrow> handle \<Rightarrow> u32 \<Rightarrow> string \<Rightarrow> string \<Rightarrow> world \<Rightarrow> (panic + err option) \<times> world" where
  "showNotification env hwnd iconId info infoTitle w =
     (let nid = zero_NOTIFYICONDATA\<lparr>CbSize := sizeof_NOTIFYICONDATA, HWnd := hwnd,
                  UID := iconId, UFlags := NIF_INFO\<rparr>
      in case copyToUint16Buffer (SzInfo nid) info of
           Inl p \<Rightarrow> (Inl p, w)
         | Inr szInfo \<Rightarrow>
             (case copyToUint16Buffer (SzInfoTitle nid) infoTitle of
                Inl p \<Rightarrow> (Inl p, w)
              | Inr szInfoTitle \<Rightarrow>
                  let (ok, w') = Shell_NotifyIcon env NIM_MODIFY
                                   (nid\<lparr>SzInfo := szInfo, SzInfoTitle := szInfoTitle\<rparr>) w
                  in if \<not> ok then (Inr (Some (ErrorString ''unable to display notification'')), w')
                     else (Inr None, w')))"

text \<open>
  \<^verbatim>\<open>showMenu\<close>: \<^verbatim>\<open>TrackPopupMenu\<close> with \<^verbatim>\<open>TPM_RETURNCMD\<close> answers the
  identifier of the chosen entry, 0 when the menu is dismissed (\<open>popup_cmd\<close>). The
  position of the menu plays no part in what follows and is left out.
\<close>

definition showMenu :: "env \<Rightarrow> handle \<Rightarrow> handle \<Rightarrow> world \<Rightarrow> u32 \<times> world" where
  "showMenu env hwnd hmenu w =
     (let extraFlags = (if drop_alignment env = 0 then TPM_LEFTALIGN else TPM_RIGHTALIGN)
      in (popup_cmd env,
          log (Ev_TrackPopupMenu hmenu (TPM_RETURNCMD OR extraFlags) (popup_cmd env)) w))"

section \<open>The tray actor: window procedure, message pump and \<^verbatim>\<open>run\<close>\<close>

text \<open>
  The local variables of \<^verbatim>\<open>run\<close> that the closures \<^verbatim>\<open>newMenuId\<close> and
  \<^verbatim>\<open>wndProc\<close> capture.
\<close>

record actor =
  iconId :: u32
  hmenu :: handle
  menuIds :: u32
  menuFns :: "u32 \<rightharpoonup> fn"

definition newMenuId :: "actor \<Rightarrow> u32 \<times> actor" where
  "newMenuId a = (menuIds a, a\<lparr>menuIds := menuIds a + 1\<rparr>)"

text \<open>
  One call of \<^verbatim>\<open>wndProc\<close> returns a value, panics, or blocks for ever. The
  receive \<^verbatim>\<open>m := <-w.messageChan\<close> takes the message that a caller offers on
  the unbuffered channel (\<open>mailbox\<close>) and blocks when there is none. A send
  \<^verbatim>\<open>w.returnChan <- x\<close> evaluates \<open>x\<close>, which may panic, and then hands the
  value over; the event \<open>Ev_Send_returnChan\<close> records it.
\<close>

datatype outcome = Returns uintptr actor world | Panics panic world | Blocks

definition send_returnChan :: "actor \<Rightarrow> (panic + err option) \<times> world \<Rightarrow> outcome" where
  "send_returnChan a rw =
     (case rw of
        (Inl p, w') \<Rightarrow> Panics p w'
      | (Inr e, w') \<Rightarrow> Returns 0 a (log (Ev_Send_returnChan e) w'))"

definition LOWORD :: "u32 \<Rightarrow> u16" where
  "LOWORD v = ucast v"

definition DefWindowProc :: "env \<Rightarrow> u32 \<Rightarrow> actor \<Rightarrow> world \<Rightarrow> outcome" where
  "DefWindowProc env msg a w = Returns (def_result env) a (log (Ev_DefWindowProc msg) w)"

definition wndProc ::
  "env \<Rightarrow> pMessage option \<Rightarrow> handle \<Rightarrow> u32 \<Rightarrow> uintptr \<Rightarrow> uintptr \<Rightarrow> actor \<Rightarrow> world
     \<Rightarrow> outcome" where
  "wndProc env mailbox hwnd msg wparam lparam a w =
     (if msg = WM_CREATE then
        Returns 0 a (setVersion env hwnd (iconId a) (createTrayIcon env hwnd (iconId a) w))
      else if msg = WM_QUIT then
        Returns 0 a (destroyTrayIcon env hwnd (iconId a) w)
      else if msg = pWMAPP_NOTIFYCALLBACK then
        (if ucast (LOWORD (ucast lparam)) = WM_RBUTTONUP then
           let (id', w') = showMenu env hwnd (hmenu a) w
           in case menuFns a id' of
                Some fn \<Rightarrow> Returns 0 a (log (Ev_Go fn) w')
              | None \<Rightarrow> Returns 0 a w'
         else DefWindowProc env msg a w)
      else if msg = pWMAPP_MESSAGE then
        (case mailbox of
           None \<Rightarrow> Blocks
         | Some m \<Rightarrow>
             let w1 = log (Ev_Recv_messageChan m) w in
             if Type m = pMESSAGE_SET_ICON_FROM_BYTES then
               (case Data m of
                  Bytes b \<Rightarrow> send_returnChan a (setIcon env hwnd (iconId a) b w1)
                | _ \<Rightarrow> Panics TypeAssertion w1)
             else if Type m = pMESSAGE_SET_TIP then
               (case Data m of
                  String text \<Rightarrow> send_returnChan a (setTip env hwnd (iconId a) text w1)
                | _ \<Rightarrow> Panics TypeAssertion w1)
             else if Type m = pMESSAGE_ADD_MENU_ITEM then
               (case Data m of
                  pDataAddMenuItem d_Text d_Fn \<Rightarrow>
                    let (id', a') = newMenuId a;
                        a'' = a'\<lparr>menuFns := (menuFns a')(id' \<mapsto> d_Fn)\<rparr>
                    in send_returnChan a'' (addMenuItem env (hmenu a'') id' d_Text w1)
                | _ \<Rightarrow> Panics TypeAssertion w1)
             else if Type m = pMESSAGE_ADD_MENU_SEPARATOR then
               send_returnChan a (addMenuSeparator env (hmenu a) w1)
             else if Type m = pMESSAGE_SHOW_NOTIFICATION then
               (case Data m of
                  pDataShowNotification d_Info d_InfoTitle \<Rightarrow>
                    send_returnChan a (showNotification env hwnd (iconId a) d_Info d_InfoTitle w1)
                | _ \<Rightarrow> Panics TypeAssertion w1)
             else Returns 0 a w1)
      else DefWindowProc env msg a w)"

text \<open>
  The message loop of \<^verbatim>\<open>run\<close>. \<^verbatim>\<open>GetMessage\<close> waits for the next message of
  the thread's queue; by the Win32 contract its result is 0 when the message
  retrieved is \<^verbatim>\<open>WM_QUIT\<close> and nonzero (\<^verbatim>\<open>TRUE\<close>) for every other message.
  \<^verbatim>\<open>DispatchMessage\<close> calls the window procedure of the window the message is
  for; a message with no window (handle 0) or for another window does not reach
  \<^verbatim>\<open>wndProc\<close>. The queue is the list of the messages the loop retrieves, each
  with the platform's answers during its dispatch and with what a caller offers on
  \<^verbatim>\<open>messageChan\<close> at that time.
\<close>

record MSG =
  Hwnd :: handle
  message :: u32
  wParam :: uintptr
  lParam :: uintptr

definition TRUE :: int where
  "TRUE = 1"

definition GetMessage :: "MSG \<Rightarrow> int" where
  "GetMessage msg = (if message msg = WM_QUIT then 0 else 1)"

definition DispatchMessage ::
  "env \<Rightarrow> pMessage option \<Rightarrow> handle \<Rightarrow> MSG \<Rightarrow> actor \<Rightarrow> world \<Rightarrow> outcome" where
  "DispatchMessage env mailbox hwnd msg a w =
     (if Hwnd msg \<noteq> 0 \<and> Hwnd msg = hwnd
      then wndProc env mailbox hwnd (message msg) (wParam msg) (lParam msg) a w
      else Returns 0 a w)"

datatype pump_result =
    LoopExit actor world     \<comment> \<open>\<^verbatim>\<open>GetMessage\<close> did not answer \<^verbatim>\<open>TRUE\<close>: the loop is left\<close>
  | Waiting actor world      \<comment> \<open>the queue is empty: blocked in \<^verbatim>\<open>GetMessage\<close>\<close>
  | Stuck actor world        \<comment> \<open>the window procedure blocks\<close>
  | Crashed panic world      \<comment> \<open>the window procedure panics\<close>
  | Foreign actor world      \<comment> \<open>the message went to the window procedure of another tray\<close>

fun pump ::
  "handle \<Rightarrow> (MSG \<times> env \<times> pMessage option) list \<Rightarrow> actor \<Rightarrow> world \<Rightarrow> pump_result" where
  "pump hwnd [] a w = Waiting a w"
| "pump hwnd ((msg, env, mailbox) # queue) a w =
     (if GetMessage msg = TRUE then
        (case DispatchMessage env mailbox hwnd msg a w of
           Returns _ a' w' \<Rightarrow> pump hwnd queue a' w'
         | Panics p w' \<Rightarrow> Crashed p w'
         | Blocks \<Rightarrow> Stuck a w)
      else LoopExit a w)"

text \<open>
  The same loop when the class \<^verbatim>\<open>"WndClass"\<close> holds the window procedure of
  another tray: a message for the window is dispatched to that procedure, a closure
  over the variables and the channels of the other tray. It never receives from the
  \<^verbatim>\<open>messageChan\<close> of this tray; what it does is not followed further.
\<close>

fun pump_foreign ::
  "handle \<Rightarrow> (MSG \<times> env \<times> pMessage option) list \<Rightarrow> actor \<Rightarrow> world \<Rightarrow> pump_result" where
  "pump_foreign hwnd [] a w = Waiting a w"
| "pump_foreign hwnd ((msg, env, mailbox) # queue) a w =
     (if GetMessage msg = TRUE then
        (if Hwnd msg \<noteq> 0 \<and> Hwnd msg = hwnd then Foreign a w
         else pump_foreign hwnd queue a w)
      else LoopExit a w)"

text \<open>
  \<^verbatim>\<open>run\<close>: \<^verbatim>\<open>newIconId.Add(1)\<close> answers the new value of the package's counter;
  \<^verbatim>\<open>CreatePopupMenu\<close> and \<^verbatim>\<open>CreateWindowEx\<close> answer the handles of
  \<open>startup\<close>, 0 when they fail. \<open>run_head\<close> is \<^verbatim>\<open>run\<close> up to the registration of
  the class. While a window is created the platform sends it \<^verbatim>\<open>WM_CREATE\<close>, a
  direct call of the window procedure of its class before \<^verbatim>\<open>CreateWindowEx\<close>
  returns: \<^verbatim>\<open>wndProc\<close> of this tray when this tray registered the class, and
  otherwise the procedure of the tray that did, which adds an icon under its own
  identifier. No window, no message. The handle is then sent on \<^verbatim>\<open>hwndChan\<close>, the
  channel is closed and the loop starts. The deferred \<^verbatim>\<open>close(w.closedChan)\<close> runs
  when the loop is left.
\<close>

record startup =
  su_hmenu :: handle
  su_hwnd :: handle
  su_env :: env

definition run_head :: "startup \<Rightarrow> world \<Rightarrow> actor \<times> u32 option \<times> world" where
  "run_head su w0 =
     (let iconId' = newIconId w0 + 1;
          w1 = w0\<lparr>newIconId := iconId'\<rparr>;
          hmenu' = su_hmenu su;
          w2 = (if hmenu' \<noteq> 0 then w1\<lparr>menus := (menus w1)(hmenu' \<mapsto> [])\<rparr> else w1);
          a = \<lparr>iconId = iconId', hmenu = hmenu', menuIds = 100, menuFns = Map.empty\<rparr>;
          (foreign, w3) = RegisterClassEx iconId' w2
      in (a, foreign, w3))"

definition CreateWindowEx ::
  "env \<Rightarrow> handle \<Rightarrow> u32 option \<Rightarrow> actor \<Rightarrow> world \<Rightarrow> outcome" where
  "CreateWindowEx env hwnd foreign a w =
     (if hwnd = 0 then Returns 0 a w
      else case foreign of
             None \<Rightarrow> wndProc env None hwnd WM_CREATE 0 0 a w
           | Some owner \<Rightarrow>
               Returns 0 a (setVersion env hwnd owner (createTrayIcon env hwnd owner w)))"

definition message_loop ::
  "handle \<Rightarrow> u32 option \<Rightarrow> (MSG \<times> env \<times> pMessage option) list \<Rightarrow> actor \<Rightarrow> world
     \<Rightarrow> pump_result" where
  "message_loop hwnd foreign queue a w =
     (case foreign of
        None \<Rightarrow> pump hwnd queue a w
      | Some owner \<Rightarrow> pump_foreign hwnd queue a w)"

definition run ::
  "startup \<Rightarrow> (MSG \<times> env \<times> pMessage option) list \<Rightarrow> world \<Rightarrow> pump_result" where
  "run su queue w0 =
     (let (a, foreign, w3) = run_head su w0;
          hwnd = su_hwnd su
      in case CreateWindowEx (su_env su) hwnd foreign a w3 of
           Returns _ a' w4 \<Rightarrow>
             (case message_loop hwnd foreign queue a'
                     (log Ev_Close_hwndChan (log (Ev_Send_hwndChan hwnd) w4)) of
                LoopExit a'' w5 \<Rightarrow> LoopExit a'' (log Ev_Close_closedChan w5)
              | r \<Rightarrow> r)
         | Panics p w' \<Rightarrow> Crashed p w'
         | Blocks \<Rightarrow> Stuck a w3)"

section \<open>The window procedure of \<^verbatim>\<open>wintray.go\<close>\<close>

text \<open>
  The file \<^verbatim>\<open>wintray.go\<close> holds the package without a reply channel. Its constants
  differ (\<^verbatim>\<open>iota\<close> starts at 0 there), its methods return nothing, its
  \<^verbatim>\<open>setTip\<close> copies the tooltip with a loop of its own, and its window procedure
  calls the callback of a chosen menu entry itself. A call of a callback that does
  not return blocks the caller. The names of this file carry the suffix
  \<open>_wintray\<close>.
\<close>

definition pWMAPP_NOTIFYCALLBACK_wintray :: u32 where
  "pWMAPP_NOTIFYCALLBACK_wintray = 0 + WM_APP + 1"

definition pWMAPP_MESSAGE_wintray :: u32 where
  "pWMAPP_MESSAGE_wintray = 1 + WM_APP + 1"

definition pMESSAGE_SET_ICON_wintray :: int where "pMESSAGE_SET_ICON_wintray = 2"
definition pMESSAGE_SET_TIP_wintray :: int where "pMESSAGE_SET_TIP_wintray = 3"
definition pMESSAGE_ADD_MENU_ITEM_wintray :: int where "pMESSAGE_ADD_MENU_ITEM_wintray = 4"

definition createTrayIcon_wintray :: "env \<Rightarrow> handle \<Rightarrow> u32 \<Rightarrow> world \<Rightarrow> world" where
  "createTrayIcon_wintray env hwnd iconId' w =
     snd (Shell_NotifyIcon env NIM_ADD
            (zero_NOTIFYICONDATA\<lparr>HWnd := hwnd, UID := iconId', UFlags := NIF_MESSAGE,
                                  UCallbackMessage := pWMAPP_NOTIFYCALLBACK_wintray\<rparr>) w)"

fun copy_tip_wintray :: "nat \<Rightarrow> u16 list \<Rightarrow> u16 list \<Rightarrow> u16 list" where
  "copy_tip_wintray i [] szTip = szTip"
| "copy_tip_wintray i (v # vs) szTip =
     (if i = length szTip then szTip else copy_tip_wintray (Suc i) vs (szTip[i := v]))"

definition setTip_wintray :: "env \<Rightarrow> handle \<Rightarrow> u32 \<Rightarrow> string \<Rightarrow> world \<Rightarrow> panic + world" where
  "setTip_wintray env hwnd iconId' text w =
     (let nid = zero_NOTIFYICONDATA\<lparr>HWnd := hwnd, UID := iconId', UFlags := NIF_TIP\<rparr>
      in case mustUTF16FromString text of
           Inl p \<Rightarrow> Inl p
         | Inr units \<Rightarrow>
             Inr (snd (Shell_NotifyIcon env NIM_MODIFY
                         (nid\<lparr>SzTip := copy_tip_wintray 0 units (SzTip nid)\<rparr>) w)))"

definition addMenuItem_wintray :: "env \<Rightarrow> handle \<Rightarrow> u32 \<Rightarrow> string \<Rightarrow> world \<Rightarrow> panic + world" where
  "addMenuItem_wintray env hmenu' id' text w =
     (case mustUTF16PtrFromString text of
        Inl p \<Rightarrow> Inl p
      | Inr lpNewItem \<Rightarrow> Inr (snd (AppendMenuW env hmenu' 0 id' (Some lpNewItem) w)))"

text \<open>
  \<^verbatim>\<open>showMenu\<close> of \<^verbatim>\<open>wintray.go\<close> scales the position by the DPI of the shell
  window before it calls \<^verbatim>\<open>TrackPopupMenu\<close>; the position is left out here as
  well, which leaves the same model as \<open>showMenu\<close>.
\<close>

definition showMenu_wintray :: "env \<Rightarrow> handle \<Rightarrow> handle \<Rightarrow> world \<Rightarrow> u32 \<times> world" where
  "showMenu_wintray env hwnd hmenu' w =
     (let extraFlags = (if drop_alignment env = 0 then TPM_LEFTALIGN else TPM_RIGHTALIGN)
      in (popup_cmd env,
          log (Ev_TrackPopupMenu hmenu' (TPM_RETURNCMD OR extraFlags) (popup_cmd env)) w))"

definition wndProc_wintray ::
  "env \<Rightarrow> pMessage option \<Rightarrow> handle \<Rightarrow> u32 \<Rightarrow> uintptr \<Rightarrow> uintptr \<Rightarrow> actor \<Rightarrow> world
     \<Rightarrow> outcome" where
  "wndProc_wintray env mailbox hwnd msg wparam lparam a w =
     (if msg = WM_CREATE then
        Returns 0 a (setVersion env hwnd (iconId a) (createTrayIcon_wintray env hwnd (iconId a) w))
      else if msg = pWMAPP_NOTIFYCALLBACK_wintray then
        (if ucast (LOWORD (ucast lparam)) = WM_CONTEXTMENU then
           let (id', w') = showMenu_wintray env hwnd (hmenu a) w
           in case menuFns a id' of
                Some fn \<Rightarrow> if fn_returns fn then Returns 0 a (log (Ev_Call fn) w') else Blocks
              | None \<Rightarrow> Returns 0 a w'
         else Returns 0 a w)
      else if msg = pWMAPP_MESSAGE_wintray then
        (case mailbox of
           None \<Rightarrow> Blocks
         | Some m \<Rightarrow>
             let w1 = log (Ev_Recv_messageChan m) w in
             if Type m = pMESSAGE_SET_TIP_wintray then
               (case Data m of
                  String text \<Rightarrow>
                    (case setTip_wintray env hwnd (iconId a) text w1 of
                       Inl p \<Rightarrow> Panics p w1
                     | Inr w' \<Rightarrow> Returns 0 a w')
                | _ \<Rightarrow> Panics TypeAssertion w1)
             else if Type m = pMESSAGE_ADD_MENU_ITEM_wintray then
               (case Data m of
                  pDataAddMenuItem d_Text d_Fn \<Rightarrow>
                    let (id', a') = newMenuId a;
                        a'' = a'\<lparr>menuFns := (menuFns a')(id' \<mapsto> d_Fn)\<rparr>
                    in (case addMenuItem_wintray env (hmenu a'') id' d_Text w1 of
                          Inl p \<Rightarrow> Panics p w1
                        | Inr w' \<Rightarrow> Returns 0 a'' w')
                | _ \<Rightarrow> Panics TypeAssertion w1)
             else Returns 0 a w1)
      else DefWindowProc env msg a w)"

text \<open>The message loop of \<^verbatim>\<open>wintray.go\<close> is the loop of \<open>pump\<close> around this window procedure.\<close>

definition DispatchMessage_wintray ::
  "env \<Rightarrow> pMessage option \<Rightarrow> handle \<Rightarrow> MSG \<Rightarrow> actor \<Rightarrow> world \<Rightarrow> outcome" where
  "DispatchMessage_wintray env mailbox hwnd msg a w =
     (if Hwnd msg \<noteq> 0 \<and> Hwnd msg = hwnd
      then wndProc_wintray env mailbox hwnd (message msg) (wParam msg) (lParam msg) a w
      else Returns 0 a w)"

fun pump_wintray ::
  "handle \<Rightarrow> (MSG \<times> env \<times> pMessage option) list \<Rightarrow> actor \<Rightarrow> world \<Rightarrow> pump_result" where
  "pump_wintray hwnd [] a w = Waiting a w"
| "pump_wintray hwnd ((msg, env, mailbox) # queue) a w =
     (if GetMessage msg = TRUE then
        (case DispatchMessage_wintray env mailbox hwnd msg a w of
           Returns _ a' w' \<Rightarrow> pump_wintray hwnd queue a' w'
         | Panics p w' \<Rightarrow> Crashed p w'
         | Blocks \<Rightarrow> Stuck a w)
      else LoopExit a w)"

section \<open>The public operations\<close>

text \<open>
  A public method is run by the goroutine of its caller. What it does to the actor
  is a fixed sequence of actions on the native message queue and on the channels of
  the \<^verbatim>\<open>WinTray\<close>; \<open>hwnd\<close> is the field \<^verbatim>\<open>w.hwnd\<close>. The value a method returns
  is the value its last receive gets.
\<close>

datatype action =
    Go_run                                \<comment> \<open>\<^verbatim>\<open>go w.run(hwndChan)\<close>\<close>
  | Recv_hwndChan                         \<comment> \<open>\<^verbatim>\<open>w.hwnd = <-hwndChan\<close>\<close>
  | PostMessage handle u32 uintptr uintptr
  | Send_messageChan pMessage             \<comment> \<open>\<^verbatim>\<open>w.messageChan <- m\<close>\<close>
  | Recv_returnChan                       \<comment> \<open>\<^verbatim>\<open><-w.returnChan\<close>\<close>
  | Recv_closedChan                       \<comment> \<open>\<^verbatim>\<open><-w.closedChan\<close>\<close>
  | Go "action list"                      \<comment> \<open>a caller starts a goroutine of its own\<close>


definition SetIconFromBytes :: "handle \<Rightarrow> string \<Rightarrow> action list" where
  "SetIconFromBytes hwnd b =
     [PostMessage hwnd pWMAPP_MESSAGE 0 0,
      Send_messageChan \<lparr>Type = pMESSAGE_SET_ICON_FROM_BYTES, Data = Bytes b\<rparr>,
      Recv_returnChan]"

definition SetTip :: "handle \<Rightarrow> string \<Rightarrow> action list" where
  "SetTip hwnd text =
     [PostMessage hwnd pWMAPP_MESSAGE 0 0,
      Send_messageChan \<lparr>Type = pMESSAGE_SET_TIP, Data = String text\<rparr>,
      Recv_returnChan]"

definition AddMenuItem :: "handle \<Rightarrow> string \<Rightarrow> fn \<Rightarrow> action list" where
  "AddMenuItem hwnd text fn =
     [PostMessage hwnd pWMAPP_MESSAGE 0 0,
      Send_messageChan \<lparr>Type = pMESSAGE_ADD_MENU_ITEM, Data = pDataAddMenuItem text fn\<rparr>,
      Recv_returnChan]"

definition AddMenuSeparator :: "handle \<Rightarrow> action list" where
  "AddMenuSeparator hwnd =
     [PostMessage hwnd pWMAPP_MESSAGE 0 0,
      Send_messageChan \<lparr>Type = pMESSAGE_ADD_MENU_SEPARATOR, Data = Nil\<rparr>,
      Recv_returnChan]"

definition ShowNotification :: "handle \<Rightarrow> string \<Rightarrow> string \<Rightarrow> action list" where
  "ShowNotification hwnd info infoTitle =
     [PostMessage hwnd pWMAPP_MESSAGE 0 0,
      Send_messageChan \<lparr>Type = pMESSAGE_SHOW_NOTIFICATION,
                         Data = pDataShowNotification info infoTitle\<rparr>,
      Recv_returnChan]"

definition Close :: "handle \<Rightarrow> action list" where
  "Close hwnd = [PostMessage hwnd WM_QUIT 0 0, Recv_closedChan]"

text \<open>
  The methods of \<^verbatim>\<open>wintray.go\<close> wait for no reply.
\<close>

definition AddMenuItem_wintray :: "handle \<Rightarrow> string \<Rightarrow> fn \<Rightarrow> action list" where
  "AddMenuItem_wintray hwnd text fn =
     [PostMessage hwnd pWMAPP_MESSAGE_wintray 0 0,
      Send_messageChan \<lparr>Type = pMESSAGE_ADD_MENU_ITEM_wintray, Data = pDataAddMenuItem text fn\<rparr>]"

definition SetTip_wintray :: "handle \<Rightarrow> string \<Rightarrow> action list" where
  "SetTip_wintray hwnd text =
     [PostMessage hwnd pWMAPP_MESSAGE_wintray 0 0,
      Send_messageChan \<lparr>Type = pMESSAGE_SET_TIP_wintray, Data = String text\<rparr>]"

text \<open>
  The message a method puts on \<^verbatim>\<open>messageChan\<close>, and the message the pump
  retrieves for the wake-up it posts.
\<close>

fun request_of :: "action list \<Rightarrow> pMessage option" where
  "request_of [] = None"
| "request_of (Send_messageChan m # _) = Some m"
| "request_of (_ # as) = request_of as"

fun posted_of :: "action list \<Rightarrow> MSG list" where
  "posted_of [] = []"
| "posted_of (PostMessage h msg wp lp # as) =
     \<lparr>Hwnd = h, message = msg, wParam = wp, lParam = lp\<rparr> # posted_of as"
| "posted_of (_ # as) = posted_of as"

section \<open>Reading a trace\<close>

definition new_events :: "world \<Rightarrow> world \<Rightarrow> event list" where
  "new_events w w' = drop (length (trace w)) (trace w')"

fun temp_created :: "event list \<Rightarrow> string list" where
  "temp_created [] = []"
| "temp_created (Ev_CreateTemp (Inr name) # evs) = name # temp_created evs"
| "temp_created (_ # evs) = temp_created evs"

fun temp_removed :: "event list \<Rightarrow> string list" where
  "temp_removed [] = []"
| "temp_removed (Ev_Remove name # evs) = name # temp_removed evs"
| "temp_removed (_ # evs) = temp_removed evs"

fun shell_calls :: "event list \<Rightarrow> (u32 \<times> NOTIFYICONDATA \<times> bool) list" where
  "shell_calls [] = []"
| "shell_calls (Ev_Shell_NotifyIcon m nid ok # evs) = (m, nid, ok) # shell_calls evs"
| "shell_calls (_ # evs) = shell_calls evs"

fun received :: "event list \<Rightarrow> pMessage list" where
  "received [] = []"
| "received (Ev_Recv_messageChan m # evs) = m # received evs"
| "received (_ # evs) = received evs"

fun replies :: "event list \<Rightarrow> err option list" where
  "replies [] = []"
| "replies (Ev_Send_returnChan e # evs) = e # replies evs"
| "replies (_ # evs) = replies evs"

fun spawned :: "event list \<Rightarrow> fn list" where
  "spawned [] = []"
| "spawned (Ev_Go f # evs) = f # spawned evs"
| "spawned (_ # evs) = spawned evs"

fun appended_ids :: "event list \<Rightarrow> u32 list" where
  "appended_ids [] = []"
| "appended_ids (Ev_AppendMenuW h fl i (Some p) ok # evs) = i # appended_ids evs"
| "appended_ids (_ # evs) = appended_ids evs"

text \<open>A platform on which every call succeeds, and an empty world, for examples.\<close>

definition platform_ok :: env where
  "platform_ok =
     \<lparr>notify_ok = (\<lambda>_. True), append_ok = True, last_error = 0,
      temp_name = Inr ''tmp1.ico'', image_of = (\<lambda>content. if content = [] then 0 else 7),
      drop_alignment = 0, popup_cmd = 0, def_result = 0\<rparr>"

definition world0 :: world where
  "world0 = \<lparr>newIconId = 0, wndclass = None, tray = Map.empty, balloons = [], menus = Map.empty,
             files = Map.empty, trace = []\<rparr>"

text \<open>A platform on which the user picks the entry 100 of the popup menu.\<close>

definition platform_pick_100 :: env where
  "platform_pick_100 = platform_ok\<lparr>popup_cmd := 100\<rparr>"

definition actor0 :: actor where
  "actor0 = \<lparr>iconId = 1, hmenu = 2, menuIds = 100, menuFns = Map.empty\<rparr>"

definition world_with_menu :: world where
  "world_with_menu = world0\<lparr>menus := [2 \<mapsto> []]\<rparr>"

text \<open>
  A stretch of a trace holds no removal of an icon; a world extends another by such
  a stretch.
\<close>

definition no_delete :: "event list \<Rightarrow> bool" where
  "no_delete evs \<longleftrightarrow> NIM_DELETE \<notin> fst ` set (shell_calls evs)"

definition extends :: "world \<Rightarrow> world \<Rightarrow> bool" where
  "extends w w' \<longleftrightarrow> (\<exists>evs. trace w' = trace w @ evs \<and> no_delete evs)"

fun outcome_extends :: "world \<Rightarrow> outcome \<Rightarrow> bool" where
  "outcome_extends w (Returns r a w') = extends w w'"
| "outcome_extends w (Panics p w') = extends w w'"
| "outcome_extends w Blocks = True"

section \<open>Calls made one after the other\<close>

text \<open>
  A caller that makes its calls one after the other, each returning before the next
  starts, presents the pump with this queue: for each call the wake-up message the
  call posts, together with the platform's answers while the call is served and the
  request the call offers on \<^verbatim>\<open>messageChan\<close>.
\<close>

fun served :: "(env \<times> action list) list \<Rightarrow> (MSG \<times> env \<times> pMessage option) list" where
  "served [] = []"
| "served ((env, prog) # calls) =
     map (\<lambda>msg. (msg, env, request_of prog)) (posted_of prog) @ served calls"

datatype tray_call =
    Item string fn                        \<comment> \<open>\<^verbatim>\<open>AddMenuItem(text, fn)\<close>\<close>
  | Separator                             \<comment> \<open>\<^verbatim>\<open>AddMenuSeparator()\<close>\<close>
  | Icon string                           \<comment> \<open>\<^verbatim>\<open>SetIconFromBytes(b)\<close>\<close>
  | Tip string                            \<comment> \<open>\<^verbatim>\<open>SetTip(text)\<close>\<close>
  | Balloon string string                 \<comment> \<open>\<^verbatim>\<open>ShowNotification(info, infoTitle)\<close>\<close>
  | Platform MSG                          \<comment> \<open>no call: a message from the platform\<close>

fun call_of :: "handle \<Rightarrow> env \<times> tray_call \<Rightarrow> env \<times> action list" where
  "call_of hwnd (env, Item text f) = (env, AddMenuItem hwnd text f)"
| "call_of hwnd (env, Separator) = (env, AddMenuSeparator hwnd)"
| "call_of hwnd (env, Icon b) = (env, SetIconFromBytes hwnd b)"
| "call_of hwnd (env, Tip text) = (env, SetTip hwnd text)"
| "call_of hwnd (env, Balloon info infoTitle) = (env, ShowNotification hwnd info infoTitle)"
| "call_of hwnd (env, Platform msg) = (env, [])"

text \<open>
  The queue of a session: the calls are made one after the other, and between them
  the platform queues messages of its own (the notifications of the icon, among
  others).
\<close>

fun queue_of ::
  "handle \<Rightarrow> (env \<times> tray_call) list \<Rightarrow> (MSG \<times> env \<times> pMessage option) list" where
  "queue_of hwnd [] = []"
| "queue_of hwnd ((env, Platform msg) # calls) = (msg, env, None) # queue_of hwnd calls"
| "queue_of hwnd (c # calls) = served [call_of hwnd c] @ queue_of hwnd calls"

text \<open>
  What the specification says of the menu after such a session: the entries stand in
  call order, the entry of an \<^verbatim>\<open>AddMenuItem\<close> carries the next identifier, counted
  from a base, and a separator takes no identifier. An entry is there when the
  platform accepted it (\<open>append_ok\<close>). The other calls and the messages of the
  platform add no entry and take no identifier.
\<close>

fun menu_in_call_order :: "nat \<Rightarrow> (env \<times> tray_call) list \<Rightarrow> menu_entry list" where
  "menu_in_call_order k [] = []"
| "menu_in_call_order k ((env, Item text f) # calls) =
     (if append_ok env then [MenuItem (of_nat k) (encodeWTF16 text)] else [])
       @ menu_in_call_order (Suc k) calls"
| "menu_in_call_order k ((env, Separator) # calls) =
     (if append_ok env then [MenuSeparator] else []) @ menu_in_call_order k calls"
| "menu_in_call_order k (_ # calls) = menu_in_call_order k calls"

fun items :: "(env \<times> tray_call) list \<Rightarrow> nat" where
  "items [] = 0"
| "items ((env, Item text f) # calls) = Suc (items calls)"
| "items (_ # calls) = items calls"

fun requests :: "(env \<times> tray_call) list \<Rightarrow> nat" where
  "requests [] = 0"
| "requests ((env, Platform msg) # calls) = requests calls"
| "requests (_ # calls) = Suc (requests calls)"

text \<open>
  The sessions in which every call is answered: no text holds a NUL byte, and the
  platform queues neither \<^verbatim>\<open>WM_QUIT\<close> nor a wake-up of its own for the window.
\<close>

fun NUL_free :: "(env \<times> tray_call) list \<Rightarrow> bool" where
  "NUL_free [] = True"
| "NUL_free ((env, Item text f) # calls) = (CHR 0x00 \<notin> set text \<and> NUL_free calls)"
| "NUL_free ((env, Tip text) # calls) = (CHR 0x00 \<notin> set text \<and> NUL_free calls)"
| "NUL_free ((env, Balloon info infoTitle) # calls) =
     (CHR 0x00 \<notin> set info \<and> CHR 0x00 \<notin> set infoTitle \<and> NUL_free calls)"
| "NUL_free (_ # calls) = NUL_free calls"

fun no_messages :: "(env \<times> tray_call) list \<Rightarrow> bool" where
  "no_messages [] = True"
| "no_messages ((env, Platform msg) # calls) = False"
| "no_messages (_ # calls) = no_messages calls"

fun not_ended :: "handle \<Rightarrow> (env \<times> tray_call) list \<Rightarrow> bool" where
  "not_ended hwnd [] = True"
| "not_ended hwnd ((env, Platform msg) # calls) =
     (message msg \<noteq> WM_QUIT \<and> (message msg = pWMAPP_MESSAGE \<longrightarrow> Hwnd msg \<noteq> hwnd)
      \<and> not_ended hwnd calls)"
| "not_ended hwnd (_ # calls) = not_ended hwnd calls"

fun final_world :: "pump_result \<Rightarrow> world" where
  "final_world (LoopExit a w) = w"
| "final_world (Waiting a w) = w"
| "final_world (Stuck a w) = w"
| "final_world (Crashed p w) = w"
| "final_world (Foreign a w) = w"

definition startup_ok :: startup where
  "startup_ok = \<lparr>su_hmenu = 2, su_hwnd = 1, su_env = platform_ok\<rparr>"

text \<open>
  A second tray of the same process: the world in which it starts is the one the
  first tray has left, and its handles are its own.
\<close>

definition after_first_tray :: world where
  "after_first_tray = final_world (run startup_ok [] world0)"

definition startup_second :: startup where
  "startup_second = \<lparr>su_hmenu = 4, su_hwnd = 3, su_env = platform_ok\<rparr>"

text \<open>Call sequences long enough to reach the end of the 32-bit identifiers.\<close>

definition platform_refuses :: env where
  "platform_refuses = platform_ok\<lparr>append_ok := False, last_error := 8\<rparr>"

definition calls_up_to_the_last_id :: "(env \<times> tray_call) list" where
  "calls_up_to_the_last_id =
     replicate (2 ^ 32 - 101) (platform_ok, Item ''x'' (Fn 0 True))
       @ [(platform_refuses, Item ''y'' (Fn 1 True)), (platform_ok, Item ''z'' (Fn 2 True))]"

definition many_items :: "(env \<times> tray_call) list" where
  "many_items = replicate (2 ^ 32 + 1) (platform_ok, Item ''x'' (Fn 0 True))"

section \<open>The callers and the actor together\<close>

text \<open>
  The goroutines of the callers and the goroutine of \<^verbatim>\<open>run\<close> take turns. A step
  is one statement of one goroutine: a caller executes the next action of its
  method, the actor moves from one blocking point of \<^verbatim>\<open>run\<close> to the next. A send
  and the matching receive on an unbuffered channel are one step of both.
\<close>

text \<open>
  Where the actor stands, with the captured variables and the world it has made so
  far. At \<open>AtReply\<close> the value to send has been computed (the world records the
  send) and the actor waits for the caller to take it; the number is the caller whose
  request it received. \<open>Died\<close> names the caller whose request was being served, if
  any.
\<close>

datatype actor_at =
    NotStarted                            \<comment> \<open>\<^verbatim>\<open>go w.run(hwndChan)\<close> has not been executed\<close>
  | Creating                              \<comment> \<open>in \<^verbatim>\<open>run\<close>, up to the return of \<^verbatim>\<open>CreateWindowEx\<close>\<close>
  | SendingHwnd actor world               \<comment> \<open>at \<^verbatim>\<open>hwndChan <- hwnd\<close>\<close>
  | AtGetMessage actor world              \<comment> \<open>in the loop, at \<^verbatim>\<open>GetMessage\<close>\<close>
  | AtReceive MSG actor world             \<comment> \<open>in \<^verbatim>\<open>wndProc\<close>, at \<^verbatim>\<open>m := <-w.messageChan\<close>\<close>
  | AtReply nat "err option" actor world  \<comment> \<open>in \<^verbatim>\<open>wndProc\<close>, at \<^verbatim>\<open>w.returnChan <- x\<close>\<close>
  | Elsewhere actor world                 \<comment> \<open>in the window procedure of another tray\<close>
  | Returned world                        \<comment> \<open>\<^verbatim>\<open>run\<close> has returned, \<^verbatim>\<open>closedChan\<close> is closed\<close>
  | Died panic "nat option"               \<comment> \<open>a panic on the actor's goroutine ended the program\<close>

text \<open>
  The whole system: the remaining actions of every caller goroutine, the field
  \<^verbatim>\<open>w.hwnd\<close> (unset before \<^verbatim>\<open>New\<close> assigns it), the message queue of the actor's
  thread and the place of the actor.
\<close>

record sys =
  callers :: "action list list"
  w_hwnd :: "handle option"
  msgq :: "MSG list"
  actor_at :: actor_at

fun alive :: "actor_at \<Rightarrow> bool" where
  "alive (Died p k) = False"
| "alive _ = True"


fun past_CreateWindowEx :: "actor_at \<Rightarrow> bool" where
  "past_CreateWindowEx NotStarted = False"
| "past_CreateWindowEx Creating = False"
| "past_CreateWindowEx _ = True"


definition window_exists :: "startup \<Rightarrow> actor_at \<Rightarrow> bool" where
  "window_exists su at \<longleftrightarrow> su_hwnd su \<noteq> 0 \<and> past_CreateWindowEx at"

definition for_window :: "startup \<Rightarrow> MSG \<Rightarrow> bool" where
  "for_window su m \<longleftrightarrow> Hwnd m \<noteq> 0 \<and> Hwnd m = su_hwnd su"

definition own_class :: "startup \<Rightarrow> world \<Rightarrow> bool" where
  "own_class su w0 \<longleftrightarrow> fst (snd (run_head su w0)) = None"

text \<open>
  The steps. \<open>go_run\<close>, \<open>hwnd\<close>, \<open>post\<close>, \<open>receive\<close>, \<open>reply\<close> and \<open>closed\<close> are the
  statements of \<^verbatim>\<open>New\<close> and of the public methods; \<open>spawn\<close> is a caller starting
  another caller. \<^verbatim>\<open>PostMessage\<close> queues the message when the window it names
  exists, and is a step of the caller alone. \<open>created\<close> is \<^verbatim>\<open>run\<close> up to the return
  of \<^verbatim>\<open>CreateWindowEx\<close>. \<open>shell\<close> is a message that the platform or another
  program queues for the actor's thread; any message may arrive. \<open>quit\<close>, \<open>wake\<close>
  and \<open>dispatch\<close> are one turn of the loop of \<^verbatim>\<open>run\<close>: the message at the head of
  the queue is retrieved and, unless it is \<^verbatim>\<open>WM_QUIT\<close>, dispatched. When the class
  holds this tray's procedure (\<open>own_class\<close>), a message other than
  \<^verbatim>\<open>pWMAPP_MESSAGE\<close> for the window is handled by \<open>wndProc\<close> without the mailbox;
  for \<^verbatim>\<open>pWMAPP_MESSAGE\<close> the actor waits at the receive (\<open>wake\<close>) until a caller
  offers a request (\<open>receive\<close>), runs the rest of \<open>wndProc\<close> and, if a value is to
  be sent on \<^verbatim>\<open>returnChan\<close>, waits for a caller to take it (\<open>reply\<close>). The
  platform's answers (\<open>env\<close>) are arbitrary at each dispatch. When the class holds
  the procedure of another tray, a message for the window goes to that procedure
  (\<open>elsewhere\<close>), which may return after any effect on the world (\<open>came_back\<close>), panic,
  or block for ever; it touches no channel of this tray. A panic on the actor's
  goroutine ends the program: no step follows it.
\<close>

inductive step :: "startup \<Rightarrow> world \<Rightarrow> sys \<Rightarrow> sys \<Rightarrow> bool"
  for su :: startup and w0 :: world where
  go_run:
    "\<lbrakk>i < length (callers s); callers s ! i = Go_run # rest; actor_at s = NotStarted\<rbrakk>
     \<Longrightarrow> step su w0 s (s\<lparr>callers := (callers s)[i := rest], actor_at := Creating\<rparr>)"
| created:
    "\<lbrakk>actor_at s = Creating; run_head su w0 = (a0, foreign, w3);
      CreateWindowEx (su_env su) (su_hwnd su) foreign a0 w3 = Returns r a w\<rbrakk>
     \<Longrightarrow> step su w0 s (s\<lparr>actor_at := SendingHwnd a w\<rparr>)"
| created_panic:
    "\<lbrakk>actor_at s = Creating; run_head su w0 = (a0, foreign, w3);
      CreateWindowEx (su_env su) (su_hwnd su) foreign a0 w3 = Panics p w\<rbrakk>
     \<Longrightarrow> step su w0 s (s\<lparr>actor_at := Died p None\<rparr>)"
| hwnd:
    "\<lbrakk>actor_at s = SendingHwnd a w; i < length (callers s);
      callers s ! i = Recv_hwndChan # rest\<rbrakk>
     \<Longrightarrow> step su w0 s
           (s\<lparr>callers := (callers s)[i := rest], w_hwnd := Some (su_hwnd su),
              actor_at := AtGetMessage a
                (log Ev_Close_hwndChan (log (Ev_Send_hwndChan (su_hwnd su)) w))\<rparr>)"
| spawn:
    "\<lbrakk>alive (actor_at s); i < length (callers s); callers s ! i = Go q # rest\<rbrakk>
     \<Longrightarrow> step su w0 s (s\<lparr>callers := (callers s)[i := rest] @ [q]\<rparr>)"
| post:
    "\<lbrakk>alive (actor_at s); i < length (callers s);
      callers s ! i = PostMessage h m wp lp # rest\<rbrakk>
     \<Longrightarrow> step su w0 s
           (s\<lparr>callers := (callers s)[i := rest],
              msgq := (if window_exists su (actor_at s) \<and> h = su_hwnd su
                       then msgq s @ [\<lparr>Hwnd = h, message = m, wParam = wp, lParam = lp\<rparr>]
                       else msgq s)\<rparr>)"
| shell:
    "\<lbrakk>alive (actor_at s); actor_at s \<noteq> NotStarted\<rbrakk>
     \<Longrightarrow> step su w0 s (s\<lparr>msgq := msgq s @ [m]\<rparr>)"
| quit:
    "\<lbrakk>actor_at s = AtGetMessage a w; msgq s = m # q; GetMessage m \<noteq> TRUE\<rbrakk>
     \<Longrightarrow> step su w0 s (s\<lparr>msgq := q, actor_at := Returned (log Ev_Close_closedChan w)\<rparr>)"
| wake:
    "\<lbrakk>actor_at s = AtGetMessage a w; msgq s = m # q; GetMessage m = TRUE;
      own_class su w0; for_window su m; message m = pWMAPP_MESSAGE\<rbrakk>
     \<Longrightarrow> step su w0 s (s\<lparr>msgq := q, actor_at := AtReceive m a w\<rparr>)"
| dispatch:
    "\<lbrakk>actor_at s = AtGetMessage a w; msgq s = m # q; GetMessage m = TRUE;
      own_class su w0; \<not> (for_window su m \<and> message m = pWMAPP_MESSAGE);
      DispatchMessage env None (su_hwnd su) m a w = Returns r a' w'\<rbrakk>
     \<Longrightarrow> step su w0 s (s\<lparr>msgq := q, actor_at := AtGetMessage a' w'\<rparr>)"
| dispatch_panic:
    "\<lbrakk>actor_at s = AtGetMessage a w; msgq s = m # q; GetMessage m = TRUE;
      own_class su w0; \<not> (for_window su m \<and> message m = pWMAPP_MESSAGE);
      DispatchMessage env None (su_hwnd su) m a w = Panics p w'\<rbrakk>
     \<Longrightarrow> step su w0 s (s\<lparr>msgq := q, actor_at := Died p None\<rparr>)"
| pass:
    "\<lbrakk>actor_at s = AtGetMessage a w; msgq s = m # q; GetMessage m = TRUE;
      \<not> own_class su w0; \<not> for_window su m\<rbrakk>
     \<Longrightarrow> step su w0 s (s\<lparr>msgq := q\<rparr>)"
| elsewhere:
    "\<lbrakk>actor_at s = AtGetMessage a w; msgq s = m # q; GetMessage m = TRUE;
      \<not> own_class su w0; for_window su m\<rbrakk>
     \<Longrightarrow> step su w0 s (s\<lparr>msgq := q, actor_at := Elsewhere a w\<rparr>)"
| came_back:
    "actor_at s = Elsewhere a w \<Longrightarrow> step su w0 s (s\<lparr>actor_at := AtGetMessage a w'\<rparr>)"
| elsewhere_panic:
    "actor_at s = Elsewhere a w \<Longrightarrow> step su w0 s (s\<lparr>actor_at := Died p None\<rparr>)"
| receive:
    "\<lbrakk>actor_at s = AtReceive m a w; i < length (callers s);
      callers s ! i = Send_messageChan pm # rest;
      wndProc env (Some pm) (su_hwnd su) (message m) (wParam m) (lParam m) a w
        = Returns r a' w';
      replies (new_events w w') = [e]\<rbrakk>
     \<Longrightarrow> step su w0 s (s\<lparr>callers := (callers s)[i := rest], actor_at := AtReply i e a' w'\<rparr>)"
| receive_silent:
    "\<lbrakk>actor_at s = AtReceive m a w; i < length (callers s);
      callers s ! i = Send_messageChan pm # rest;
      wndProc env (Some pm) (su_hwnd su) (message m) (wParam m) (lParam m) a w
        = Returns r a' w';
      replies (new_events w w') = []\<rbrakk>
     \<Longrightarrow> step su w0 s (s\<lparr>callers := (callers s)[i := rest], actor_at := AtGetMessage a' w'\<rparr>)"
| receive_panic:
    "\<lbrakk>actor_at s = AtReceive m a w; i < length (callers s);
      callers s ! i = Send_messageChan pm # rest;
      wndProc env (Some pm) (su_hwnd su) (message m) (wParam m) (lParam m) a w
        = Panics p w'\<rbrakk>
     \<Longrightarrow> step su w0 s (s\<lparr>callers := (callers s)[i := rest], actor_at := Died p (Some i)\<rparr>)"
| reply:
    "\<lbrakk>actor_at s = AtReply i e a w; j < length (callers s);
      callers s ! j = Recv_returnChan # rest\<rbrakk>
     \<Longrightarrow> step su w0 s (s\<lparr>callers := (callers s)[j := rest], actor_at := AtGetMessage a w\<rparr>)"
| closed:
    "\<lbrakk>actor_at s = Returned w; i < length (callers s);
      callers s ! i = Recv_closedChan # rest\<rbrakk>
     \<Longrightarrow> step su w0 s (s\<lparr>callers := (callers s)[i := rest]\<rparr>)"

inductive reaches :: "startup \<Rightarrow> world \<Rightarrow> sys \<Rightarrow> sys \<Rightarrow> bool"
  for su :: startup and w0 :: world where
  here: "reaches su w0 s s"
| after: "reaches su w0 s s' \<Longrightarrow> step su w0 s' s'' \<Longrightarrow> reaches su w0 s s''"

text \<open>
  The programs of the callers. A public operation is one of the five methods that
  hand a request to the actor; a client makes such calls, calls \<^verbatim>\<open>Close\<close> and
  starts goroutines that are clients again, all with the handle \<open>h\<close> that
  \<^verbatim>\<open>New\<close> left in \<^verbatim>\<open>w.hwnd\<close>. The program starts with one goroutine that calls
  \<^verbatim>\<open>New\<close> and goes on as a client: nothing else can hold the \<^verbatim>\<open>*WinTray\<close>
  before \<^verbatim>\<open>New\<close> has returned it.
\<close>

definition public_request :: "pMessage \<Rightarrow> bool" where
  "public_request m \<longleftrightarrow>
     (\<exists>b. m = \<lparr>Type = pMESSAGE_SET_ICON_FROM_BYTES, Data = Bytes b\<rparr>)
     \<or> (\<exists>text. m = \<lparr>Type = pMESSAGE_SET_TIP, Data = String text\<rparr>)
     \<or> (\<exists>text f. m = \<lparr>Type = pMESSAGE_ADD_MENU_ITEM, Data = pDataAddMenuItem text f\<rparr>)
     \<or> m = \<lparr>Type = pMESSAGE_ADD_MENU_SEPARATOR, Data = Nil\<rparr>
     \<or> (\<exists>info infoTitle. m = \<lparr>Type = pMESSAGE_SHOW_NOTIFICATION,
                                 Data = pDataShowNotification info infoTitle\<rparr>)"

definition public_op :: "handle \<Rightarrow> action list \<Rightarrow> bool" where
  "public_op h op \<longleftrightarrow>
     (\<exists>b. op = SetIconFromBytes h b) \<or> (\<exists>text. op = SetTip h text)
     \<or> (\<exists>text f. op = AddMenuItem h text f) \<or> op = AddMenuSeparator h
     \<or> (\<exists>info infoTitle. op = ShowNotification h info infoTitle)"

inductive client :: "handle \<Rightarrow> action list \<Rightarrow> bool" for h :: handle where
  finished: "client h []"
| call: "public_op h op \<Longrightarrow> client h p \<Longrightarrow> client h (op @ p)"
| close: "client h p \<Longrightarrow> client h (Close h @ p)"
| start: "client h q \<Longrightarrow> client h p \<Longrightarrow> client h (Go q # p)"




text \<open>
  The events that are calls of the platform, and the requests whose texts hold no
  NUL byte.
\<close>

fun native :: "event \<Rightarrow> bool" where
  "native (Ev_Shell_NotifyIcon m nid ok) = True"
| "native (Ev_AppendMenuW h fl i p ok) = True"
| "native (Ev_CreateTemp r) = True"
| "native (Ev_Copy n b) = True"
| "native (Ev_Remove n) = True"
| "native (Ev_LoadImage n h) = True"
| "native _ = False"

fun text_ok :: "data \<Rightarrow> bool" where
  "text_ok (String text) = (CHR 0x00 \<notin> set text)"
| "text_ok (pDataAddMenuItem text f) = (CHR 0x00 \<notin> set text)"
| "text_ok (pDataShowNotification info infoTitle) =
     (CHR 0x00 \<notin> set info \<and> CHR 0x00 \<notin> set infoTitle)"
| "text_ok _ = True"


text \<open>
  Auxiliary notions for the proofs: a stretch of platform calls, a request served
  with one receive and one reply, the places a caller goroutine can be in, and the
  invariant of the system before and after \<^verbatim>\<open>New\<close> has returned.
\<close>

definition calls_only :: "world \<Rightarrow> world \<Rightarrow> bool" where
  "calls_only w w' \<longleftrightarrow> (\<exists>evs. trace w' = trace w @ evs \<and> evs \<noteq> [] \<and> list_all native evs)"

definition served_once :: "pMessage \<Rightarrow> world \<Rightarrow> outcome \<Rightarrow> bool" where
  "served_once m w out \<longleftrightarrow>
     (\<exists>a' w' e evs. out = Returns 0 a' w'
        \<and> trace w' = trace w @ Ev_Recv_messageChan m # evs @ [Ev_Send_returnChan e]
        \<and> evs \<noteq> [] \<and> list_all native evs)"

inductive thread :: "handle \<Rightarrow> action list \<Rightarrow> bool" for h :: handle where
  idle: "client h p \<Longrightarrow> thread h p"
| posted: "public_request m \<Longrightarrow> client h p
           \<Longrightarrow> thread h (Send_messageChan m # Recv_returnChan # p)"
| awaiting: "client h p \<Longrightarrow> thread h (Recv_returnChan # p)"
| closing: "client h p \<Longrightarrow> thread h (Recv_closedChan # p)"




section \<open>Lemmas: decoding and encoding\<close>

lemma DecodeRuneInString_ascii:
  "s \<noteq> [] \<Longrightarrow> (of_char (s ! 0) :: nat) < 0x80 \<Longrightarrow> DecodeRuneInString s = (of_char (s ! 0), 1)"
  by (cases s) (simp_all add: DecodeRuneInString_def)

lemma DecodeRuneInString_invalid:
  "s \<noteq> [] \<Longrightarrow> 0x80 \<le> (of_char (s ! 0) :: nat)
    \<Longrightarrow> (of_char (s ! 0) :: nat) < 0xC2 \<or> 0xF4 < (of_char (s ! 0) :: nat)
    \<Longrightarrow> DecodeRuneInString s = (RuneError, 1)"
  by (cases s) (auto simp add: DecodeRuneInString_def)

lemma DecodeRuneInString_two:
  assumes "s \<noteq> []" "0xC2 \<le> (of_char (s ! 0) :: nat)" "(of_char (s ! 0) :: nat) < 0xE0"
  shows "DecodeRuneInString s =
     (if length s < 2 \<or> (of_char (s ! 1) :: nat) < 0x80 \<or> 0xBF < (of_char (s ! 1) :: nat)
      then (RuneError, 1)
      else ((of_char (s ! 0) mod 32) * 64 + of_char (s ! 1) mod 64, 2))"
proof -
  from assms have "\<not> (of_char (s ! 0) :: nat) < 0x80"
    "\<not> ((of_char (s ! 0) :: nat) < 0xC2 \<or> 0xF4 < (of_char (s ! 0) :: nat))"
    "(of_char (s ! 0) :: nat) \<noteq> 0xE0" "(of_char (s ! 0) :: nat) \<noteq> 0xF0"
    "(of_char (s ! 0) :: nat) \<noteq> 0xED" "(of_char (s ! 0) :: nat) \<noteq> 0xF4"
    by linarith+
  with assms(1,3) show ?thesis
    by (simp add: DecodeRuneInString_def Let_def first_size_def accept_lo_def accept_hi_def)
qed

lemma DecodeRuneInString_three:
  assumes "s \<noteq> []" "0xE0 \<le> (of_char (s ! 0) :: nat)" "(of_char (s ! 0) :: nat) < 0xF0"
  shows "DecodeRuneInString s =
     (if length s < 3
         \<or> (of_char (s ! 1) :: nat) < (if (of_char (s ! 0) :: nat) = 0xE0 then 0xA0 else 0x80)
         \<or> (if (of_char (s ! 0) :: nat) = 0xED then 0x9F else 0xBF) < (of_char (s ! 1) :: nat)
         \<or> (of_char (s ! 2) :: nat) < 0x80 \<or> 0xBF < (of_char (s ! 2) :: nat)
      then (RuneError, 1)
      else ((of_char (s ! 0) mod 16) * 4096 + (of_char (s ! 1) mod 64) * 64
              + of_char (s ! 2) mod 64, 3))"
proof -
  from assms have "\<not> (of_char (s ! 0) :: nat) < 0x80"
    "\<not> ((of_char (s ! 0) :: nat) < 0xC2 \<or> 0xF4 < (of_char (s ! 0) :: nat))"
    "\<not> (of_char (s ! 0) :: nat) < 0xE0"
    "(of_char (s ! 0) :: nat) \<noteq> 0xF0" "(of_char (s ! 0) :: nat) \<noteq> 0xF4"
    by linarith+
  with assms(1,3) show ?thesis
    by (simp add: DecodeRuneInString_def Let_def first_size_def accept_lo_def accept_hi_def)
qed

lemma DecodeRuneInString_four:
  assumes "s \<noteq> []" "0xF0 \<le> (of_char (s ! 0) :: nat)" "(of_char (s ! 0) :: nat) \<le> 0xF4"
  shows "DecodeRuneInString s =
     (if length s < 4
         \<or> (of_char (s ! 1) :: nat) < (if (of_char (s ! 0) :: nat) = 0xF0 then 0x90 else 0x80)
         \<or> (if (of_char (s ! 0) :: nat) = 0xF4 then 0x8F else 0xBF) < (of_char (s ! 1) :: nat)
         \<or> (of_char (s ! 2) :: nat) < 0x80 \<or> 0xBF < (of_char (s ! 2) :: nat)
         \<or> (of_char (s ! 3) :: nat) < 0x80 \<or> 0xBF < (of_char (s ! 3) :: nat)
      then (RuneError, 1)
      else ((of_char (s ! 0) mod 8) * 262144 + (of_char (s ! 1) mod 64) * 4096
              + (of_char (s ! 2) mod 64) * 64 + of_char (s ! 3) mod 64, 4))"
proof -
  from assms have "\<not> (of_char (s ! 0) :: nat) < 0x80"
    "\<not> ((of_char (s ! 0) :: nat) < 0xC2 \<or> 0xF4 < (of_char (s ! 0) :: nat))"
    "\<not> (of_char (s ! 0) :: nat) < 0xE0" "\<not> (of_char (s ! 0) :: nat) < 0xF0"
    "(of_char (s ! 0) :: nat) \<noteq> 0xE0" "(of_char (s ! 0) :: nat) \<noteq> 0xED"
    by linarith+
  with assms(1) show ?thesis
    by (simp add: DecodeRuneInString_def Let_def first_size_def accept_lo_def accept_hi_def)
qed

lemma first_byte_cases:
  fixes s0 :: nat
  obtains "s0 < 0x80" | "0x80 \<le> s0" "s0 < 0xC2 \<or> 0xF4 < s0" | "0xC2 \<le> s0" "s0 < 0xE0"
    | "0xE0 \<le> s0" "s0 < 0xF0" | "0xF0 \<le> s0" "s0 \<le> 0xF4"
  by linarith

lemma DecodeRuneInString_size:
  assumes "s \<noteq> []"
  shows "1 \<le> snd (DecodeRuneInString s) \<and> snd (DecodeRuneInString s) \<le> length s"
proof -
  from assms have len: "1 \<le> length s" by (cases s) simp_all
  show ?thesis
  proof (cases "of_char (s ! 0) :: nat" rule: first_byte_cases)
    case 1
    with assms len show ?thesis by (simp add: DecodeRuneInString_ascii)
  next
    case 2
    with assms len show ?thesis by (simp add: DecodeRuneInString_invalid)
  next
    case 3
    with assms len show ?thesis by (simp add: DecodeRuneInString_two)
  next
    case 4
    with assms len show ?thesis by (simp add: DecodeRuneInString_three)
  next
    case 5
    with assms len show ?thesis by (simp add: DecodeRuneInString_four)
  qed
qed

lemma mod_zero_in_range:
  fixes x :: nat
  shows "x mod 32 = 0 \<Longrightarrow> 0xC2 \<le> x \<Longrightarrow> x < 0xE0 \<Longrightarrow> False"
    and "x mod 16 = 0 \<Longrightarrow> 0xE0 \<le> x \<Longrightarrow> x < 0xF0 \<Longrightarrow> x = 0xE0"
    and "x mod 8 = 0 \<Longrightarrow> 0xF0 \<le> x \<Longrightarrow> x \<le> 0xF4 \<Longrightarrow> x = 0xF0"
    and "x mod 64 = 0 \<Longrightarrow> 0x90 \<le> x \<Longrightarrow> x \<le> 0xBF \<Longrightarrow> False"
  by (simp_all add: le_mod_geq)

lemma DecodeRuneInString_zero:
  assumes "s \<noteq> []" and z: "fst (DecodeRuneInString s) = 0"
  shows "(of_char (s ! 0) :: nat) = 0"
proof (cases "of_char (s ! 0) :: nat" rule: first_byte_cases)
  case 1
  with assms show ?thesis by (simp add: DecodeRuneInString_ascii)
next
  case 2
  with assms show ?thesis by (simp add: DecodeRuneInString_invalid RuneError_def)
next
  case 3
  with assms have "(of_char (s ! 0) :: nat) mod 32 = 0"
    by (simp add: DecodeRuneInString_two RuneError_def split: if_split_asm)
  from this 3 have False by (rule mod_zero_in_range(1))
  then show ?thesis ..
next
  case 4
  with assms have a: "(of_char (s ! 0) :: nat) mod 16 = 0" "(of_char (s ! 1) :: nat) mod 64 = 0"
    and b: "(if (of_char (s ! 0) :: nat) = 0xE0 then 0xA0 else 0x80) \<le> (of_char (s ! 1) :: nat)"
    and c: "(of_char (s ! 1) :: nat) \<le> 0xBF"
    by (simp_all add: DecodeRuneInString_three RuneError_def split: if_split_asm)
  from a(1) 4 have "(of_char (s ! 0) :: nat) = 0xE0" by (rule mod_zero_in_range(2))
  with b have "0x90 \<le> (of_char (s ! 1) :: nat)" by simp
  from a(2) this c have False by (rule mod_zero_in_range(4))
  then show ?thesis ..
next
  case 5
  with assms have a: "(of_char (s ! 0) :: nat) mod 8 = 0" "(of_char (s ! 1) :: nat) mod 64 = 0"
    and b: "(if (of_char (s ! 0) :: nat) = 0xF0 then 0x90 else 0x80) \<le> (of_char (s ! 1) :: nat)"
    and c: "(of_char (s ! 1) :: nat) \<le> 0xBF"
    by (simp_all add: DecodeRuneInString_four RuneError_def split: if_split_asm)
  from a(1) 5 have "(of_char (s ! 0) :: nat) = 0xF0" by (rule mod_zero_in_range(3))
  with b have "0x90 \<le> (of_char (s ! 1) :: nat)" by simp
  from a(2) this c have False by (rule mod_zero_in_range(4))
  then show ?thesis ..
qed

lemma of_char_eq_0: "(of_char c :: nat) = 0 \<longleftrightarrow> c = CHR 0x00"
  using of_char_eq_iff [of c "CHR 0x00", where ?'a = nat] by simp

lemma u16_of_nat_nonzero: "0 < n \<Longrightarrow> n < 65536 \<Longrightarrow> (of_nat n :: u16) \<noteq> 0"
  by (simp add: word_of_nat_eq_0_iff nat_dvd_not_less)

lemma AppendRune_nonzero: "r \<noteq> 0 \<Longrightarrow> 0 \<notin> set (AppendRune r)"
proof -
  assume r: "r \<noteq> 0"
  have a: "(of_nat (0xD800 + x mod 1024) :: u16) \<noteq> 0" for x :: nat
    by (rule u16_of_nat_nonzero) (simp, simp add: less_le_trans [OF add_strict_left_mono [OF mod_less_divisor]])
  have b: "(of_nat (0xDC00 + x mod 1024) :: u16) \<noteq> 0" for x :: nat
    by (rule u16_of_nat_nonzero) (simp, simp add: less_le_trans [OF add_strict_left_mono [OF mod_less_divisor]])
  show ?thesis
    unfolding AppendRune_def using r a b
    by (auto simp add: u16_of_nat_nonzero simp del: of_nat_add of_nat_numeral)
qed

lemma wtf8_surrogate_unit_nonzero:
  assumes "wtf8_surrogate s"
  shows "(of_nat ((of_char (s ! 0) mod 16) * 4096 + (of_char (s ! 1) mod 64) * 64
                  + of_char (s ! 2) mod 64) :: u16) \<noteq> 0"
proof (rule u16_of_nat_nonzero)
  from assms have s0: "(of_char (s ! 0) :: nat) = 0xED" by (simp add: wtf8_surrogate_def)
  then show "0 < (of_char (s ! 0) mod 16) * 4096 + (of_char (s ! 1) mod 64) * 64
                  + (of_char (s ! 2) mod 64 :: nat)" by simp
  have "(of_char (s ! 1) mod 64 :: nat) \<le> 63" "(of_char (s ! 2) mod 64 :: nat) \<le> 63"
    by (simp_all add: less_Suc_eq_le [symmetric])
  with s0 show "(of_char (s ! 0) mod 16) * 4096 + (of_char (s ! 1) mod 64) * 64
                  + (of_char (s ! 2) mod 64 :: nat) < 65536" by simp
qed

lemma encodeWTF16_nonzero: "CHR 0x00 \<notin> set s \<Longrightarrow> 0 \<notin> set (encodeWTF16 s)"
proof (induction s rule: encodeWTF16.induct)
  case (1 s)
  show ?case
  proof (cases "s = []")
    case True
    then show ?thesis by (simp add: encodeWTF16.simps)
  next
    case False
    from "1.prems" have dropped: "CHR 0x00 \<notin> set (drop n s)" for n
      using set_drop_subset [of n s] by blast
    from False "1.prems" have "s ! 0 \<noteq> CHR 0x00"
      by (cases s) auto
    with False have r: "fst (DecodeRuneInString s) \<noteq> 0"
      using DecodeRuneInString_zero [of s] by (auto simp: of_char_eq_0)
    show ?thesis
    proof (cases "fst (DecodeRuneInString s) = RuneError \<and> wtf8_surrogate s")
      case True
      with False "1.IH"(1) dropped have "0 \<notin> set (encodeWTF16 (drop 3 s))" by simp
      with True False show ?thesis
        using wtf8_surrogate_unit_nonzero [of s]
        by (subst encodeWTF16.simps) (simp del: of_nat_add of_nat_mult)
    next
      case nosurr: False
      with False "1.IH"(2) dropped
      have "0 \<notin> set (encodeWTF16 (drop (snd (DecodeRuneInString s)) s))" by simp
      with nosurr False r show ?thesis
        using AppendRune_nonzero [of "fst (DecodeRuneInString s)"]
        by (subst encodeWTF16.simps) auto
    qed
  qed
qed

lemma encodeWTF16_ascii:
  "\<forall>c \<in> set s. (of_char c :: nat) < 0x80 \<Longrightarrow> encodeWTF16 s = map (\<lambda>c. of_nat (of_char c)) s"
proof (induction s)
  case Nil
  then show ?case by (simp add: encodeWTF16.simps)
next
  case (Cons c s)
  then have "DecodeRuneInString (c # s) = (of_char c, 1)"
    using DecodeRuneInString_ascii [of "c # s"] by simp
  with Cons show ?case
    by (subst encodeWTF16.simps) (simp add: RuneError_def AppendRune_def)
qed

lemma encodeWTF16_replicate_a:
  "encodeWTF16 (replicate n (CHR ''a'')) = replicate n 0x61"
  by (simp add: encodeWTF16_ascii map_replicate)

section \<open>Lemmas: the bounded copy\<close>

lemma copy_range_fits:
  "i + length units \<le> length vBuff \<Longrightarrow>
     copy_range i units vBuff = Inr (take i vBuff @ units @ drop (i + length units) vBuff)"
proof (induction units arbitrary: i vBuff)
  case Nil
  then show ?case by simp
next
  case (Cons v vs)
  then have i: "i < length vBuff" by simp
  have "take i vBuff @ v # vs @ drop (Suc (i + length vs)) vBuff
      = take (Suc i) (vBuff[i := v]) @ vs @ drop (Suc i + length vs) (vBuff[i := v])"
    using i by (simp add: take_Suc_conv_app_nth)
  with Cons i show ?case
    by (simp add: Index_Set_def)
qed

lemma copy_range_truncates:
  "length vBuff < i + length units \<Longrightarrow> i \<le> length vBuff \<Longrightarrow> 1 \<le> length vBuff \<Longrightarrow>
     copy_range i units vBuff
       = Inr (take (length vBuff - 1) (take i vBuff @ units) @ [0])"
proof (induction units arbitrary: i vBuff)
  case Nil
  then show ?case by simp
next
  case (Cons v vs)
  show ?case
  proof (cases "i = length vBuff")
    case True
    with Cons.prems have "vBuff[length vBuff - 1 := 0] = take (length vBuff - 1) vBuff @ [0]"
      by (cases vBuff rule: rev_cases) simp_all
    moreover from Cons.prems have "vBuff \<noteq> []" by auto
    ultimately show ?thesis using True Cons.prems
      by (simp add: Index_Set_def nat_diff_distrib')
  next
    case False
    with Cons.prems have i: "i < length vBuff" by simp
    have "take (Suc i) (vBuff[i := v]) = take i vBuff @ [v]"
      using i by (simp add: take_Suc_conv_app_nth)
    with Cons.IH [of "vBuff[i := v]" "Suc i"] Cons.prems i False show ?thesis
      by (simp add: Index_Set_def)
  qed
qed

lemma cstring_append_NUL:
  "0 \<notin> set us \<Longrightarrow> cstring (us @ 0 # rest) = us"
  by (induction us) (simp_all add: cstring_def)

lemma copyToUint16Buffer_result:
  assumes "CHR 0x00 \<notin> set text" and "1 \<le> length buff"
  shows "copyToUint16Buffer buff text =
     Inr (if length (encodeWTF16 text) < length buff
          then encodeWTF16 text @ 0 # drop (Suc (length (encodeWTF16 text))) buff
          else take (length buff - 1) (encodeWTF16 text) @ [0])"
proof (cases "length (encodeWTF16 text) < length buff")
  case True
  then have "copy_range 0 (encodeWTF16 text @ [0]) buff
      = Inr (take 0 buff @ (encodeWTF16 text @ [0])
               @ drop (0 + length (encodeWTF16 text @ [0])) buff)"
    by (intro copy_range_fits) simp
  with True assms show ?thesis
    by (simp add: copyToUint16Buffer_def mustUTF16FromString_def UTF16FromString_def)
next
  case False
  with assms(2) have "copy_range 0 (encodeWTF16 text @ [0]) buff
      = Inr (take (length buff - 1) (take 0 buff @ (encodeWTF16 text @ [0])) @ [0])"
    by (intro copy_range_truncates) simp_all
  with False assms show ?thesis
    by (simp add: copyToUint16Buffer_def mustUTF16FromString_def UTF16FromString_def)
qed

lemma copyToUint16Buffer_props:
  assumes "CHR 0x00 \<notin> set text" and "1 \<le> length buff"
  shows "\<exists>buff'. copyToUint16Buffer buff text = Inr buff'
           \<and> length buff' = length buff
           \<and> cstring buff' = take (length buff - 1) (encodeWTF16 text)
           \<and> length (cstring buff') < length buff
           \<and> buff' ! length (cstring buff') = 0
           \<and> drop (Suc (length (cstring buff'))) buff' = drop (Suc (length (cstring buff'))) buff
           \<and> (length buff < length (encodeWTF16 text) + 1
                \<longrightarrow> length (cstring buff') = length buff - 1)"
proof (cases "length (encodeWTF16 text) < length buff")
  case True
  define u where "u = encodeWTF16 text"
  define buff' where "buff' = u @ 0 # drop (Suc (length u)) buff"
  from assms(1) have nz: "0 \<notin> set u" unfolding u_def by (rule encodeWTF16_nonzero)
  have r: "copyToUint16Buffer buff text = Inr buff'"
    using True assms by (simp add: copyToUint16Buffer_result buff'_def u_def)
  have c: "cstring buff' = u"
    unfolding buff'_def using nz by (rule cstring_append_NUL)
  have len: "length u < length buff" using True by (simp add: u_def)
  have t: "take (length buff - 1) (encodeWTF16 text) = u"
    using len by (simp add: u_def)
  have "length buff' = length buff" using len by (simp add: buff'_def)
  moreover have "buff' ! length u = 0" by (simp add: buff'_def)
  moreover have "drop (Suc (length u)) buff' = drop (Suc (length u)) buff"
    by (simp add: buff'_def)
  ultimately show ?thesis
    using r c len t True by (intro exI [of _ buff']) (simp add: u_def)
next
  case False
  define u where "u = take (length buff - 1) (encodeWTF16 text)"
  define buff' where "buff' = u @ [0]"
  from assms(1) have "0 \<notin> set (encodeWTF16 text)" by (rule encodeWTF16_nonzero)
  then have nz: "0 \<notin> set u" unfolding u_def by (auto dest: in_set_takeD)
  have r: "copyToUint16Buffer buff text = Inr buff'"
    using False assms by (simp add: copyToUint16Buffer_result buff'_def u_def)
  have c: "cstring buff' = u"
    unfolding buff'_def using nz by (rule cstring_append_NUL)
  have l: "length u = length buff - 1" using False by (simp add: u_def)
  have "length buff' = length buff" using l assms(2) by (simp add: buff'_def)
  moreover have "buff' ! length u = 0" by (simp add: buff'_def)
  moreover have "drop (Suc (length u)) buff' = drop (Suc (length u)) buff"
    using l assms(2) by (simp add: buff'_def)
  moreover have "length u < length buff" using l assms(2) by simp
  ultimately show ?thesis
    using r c l by (intro exI [of _ buff']) (simp add: u_def)
qed

section \<open>Lemmas: the native calls\<close>

lemma new_events_Shell_NotifyIcon:
  "new_events w (snd (Shell_NotifyIcon env m nid w))
     = [Ev_Shell_NotifyIcon m nid (fst (Shell_NotifyIcon env m nid w))]"
  by (simp add: Shell_NotifyIcon_def new_events_def log_def Let_def)

lemma Shell_NotifyIcon_MODIFY_tip:
  assumes "fst (Shell_NotifyIcon env NIM_MODIFY nid w)" and "UFlags nid AND NIF_TIP \<noteq> 0"
  shows "\<exists>ti. tray (snd (Shell_NotifyIcon env NIM_MODIFY nid w)) (HWnd nid, UID nid) = Some ti
              \<and> ti_tip ti = cstring (SzTip nid)"
  using assms
  by (simp add: Shell_NotifyIcon_def Let_def log_def apply_flags_def NIM_MODIFY_def NIM_ADD_def
      NIM_DELETE_def)

lemma Shell_NotifyIcon_MODIFY_ok:
  "fst (Shell_NotifyIcon env NIM_MODIFY nid w)
     = (notify_ok env NIM_MODIFY \<and> tray w (HWnd nid, UID nid) \<noteq> None)"
  by (simp add: Shell_NotifyIcon_def Let_def NIM_MODIFY_def NIM_ADD_def)

lemma Shell_NotifyIcon_MODIFY_info:
  assumes "fst (Shell_NotifyIcon env NIM_MODIFY nid w)" and "UFlags nid AND NIF_INFO \<noteq> 0"
  shows "balloons (snd (Shell_NotifyIcon env NIM_MODIFY nid w))
           = balloons w @ [(cstring (SzInfo nid), cstring (SzInfoTitle nid))]"
  using assms
  by (simp add: Shell_NotifyIcon_def Let_def log_def NIM_MODIFY_def NIM_ADD_def NIM_DELETE_def)

lemma setTip_marshal:
  assumes "CHR 0x00 \<notin> set text"
  shows "\<exists>nid ok w'.
           setTip env hwnd uid text w
             = (Inr (if ok then None else Some (ErrorString ''unable to change tooltip'')), w')
         \<and> new_events w w' = [Ev_Shell_NotifyIcon NIM_MODIFY nid ok]
         \<and> ok = (notify_ok env NIM_MODIFY \<and> tray w (hwnd, uid) \<noteq> None)
         \<and> length (SzTip nid) = 128
         \<and> cstring (SzTip nid) = take 127 (encodeWTF16 text)
         \<and> nid\<lparr>SzTip := replicate 128 0\<rparr>
             = zero_NOTIFYICONDATA\<lparr>CbSize := sizeof_NOTIFYICONDATA, HWnd := hwnd, UID := uid,
                                    UFlags := NIF_TIP OR NIF_SHOWTIP\<rparr>
         \<and> (ok \<longrightarrow> (\<exists>ti. tray w' (hwnd, uid) = Some ti
                          \<and> ti_tip ti = take 127 (encodeWTF16 text)))"
proof -
  define nid0 where "nid0 = zero_NOTIFYICONDATA\<lparr>CbSize := sizeof_NOTIFYICONDATA, HWnd := hwnd,
                  UID := uid, UFlags := NIF_TIP OR NIF_SHOWTIP\<rparr>"
  have z: "SzTip nid0 = replicate 128 0" by (simp add: nid0_def zero_NOTIFYICONDATA_def)
  from copyToUint16Buffer_props [OF assms, of "replicate 128 0"]
  obtain tip where tip: "copyToUint16Buffer (replicate 128 0) text = Inr tip"
    "length tip = 128" "cstring tip = take 127 (encodeWTF16 text)"
    by auto
  define nid where "nid = nid0\<lparr>SzTip := tip\<rparr>"
  define r where "r = Shell_NotifyIcon env NIM_MODIFY nid w"
  have s: "setTip env hwnd uid text w
      = (Inr (if fst r then None else Some (ErrorString ''unable to change tooltip'')), snd r)"
    using tip(1) z
    by (simp add: setTip_def Let_def nid0_def [symmetric] nid_def [symmetric] r_def [symmetric]
        split: prod.split)
  have ev: "new_events w (snd r) = [Ev_Shell_NotifyIcon NIM_MODIFY nid (fst r)]"
    unfolding r_def by (rule new_events_Shell_NotifyIcon)
  have rest: "nid\<lparr>SzTip := replicate 128 0\<rparr> = nid0"
    by (simp add: nid_def nid0_def zero_NOTIFYICONDATA_def)
  have tipf: "SzTip nid = tip" by (simp add: nid_def)
  have key: "HWnd nid = hwnd" "UID nid = uid" "UFlags nid AND NIF_TIP \<noteq> 0"
    by (simp_all add: nid_def nid0_def NIF_TIP_def NIF_SHOWTIP_def)
  have shown: "fst r \<longrightarrow> (\<exists>ti. tray (snd r) (hwnd, uid) = Some ti
                          \<and> ti_tip ti = take 127 (encodeWTF16 text))"
    using Shell_NotifyIcon_MODIFY_tip [of env nid w] key tipf tip(3) by (auto simp: r_def)
  have okc: "fst r = (notify_ok env NIM_MODIFY \<and> tray w (hwnd, uid) \<noteq> None)"
    using key(1,2) by (simp add: r_def Shell_NotifyIcon_MODIFY_ok)
  show ?thesis
    using s ev rest tipf tip(2,3) shown okc unfolding nid0_def
    by (intro exI [of _ nid] exI [of _ "fst r"] exI [of _ "snd r"]) simp
qed

lemma showNotification_marshal:
  assumes "CHR 0x00 \<notin> set info" and "CHR 0x00 \<notin> set infoTitle"
  shows "\<exists>nid ok w'.
           showNotification env hwnd uid info infoTitle w
             = (Inr (if ok then None else Some (ErrorString ''unable to display notification'')), w')
         \<and> new_events w w' = [Ev_Shell_NotifyIcon NIM_MODIFY nid ok]
         \<and> ok = (notify_ok env NIM_MODIFY \<and> tray w (hwnd, uid) \<noteq> None)
         \<and> length (SzInfo nid) = 256
         \<and> cstring (SzInfo nid) = take 255 (encodeWTF16 info)
         \<and> length (SzInfoTitle nid) = 64
         \<and> cstring (SzInfoTitle nid) = take 63 (encodeWTF16 infoTitle)
         \<and> nid\<lparr>SzInfo := replicate 256 0, SzInfoTitle := replicate 64 0\<rparr>
             = zero_NOTIFYICONDATA\<lparr>CbSize := sizeof_NOTIFYICONDATA, HWnd := hwnd, UID := uid,
                                    UFlags := NIF_INFO\<rparr>
         \<and> (ok \<longrightarrow> balloons w'
               = balloons w @ [(take 255 (encodeWTF16 info), take 63 (encodeWTF16 infoTitle))])"
proof -
  define nid0 where "nid0 = zero_NOTIFYICONDATA\<lparr>CbSize := sizeof_NOTIFYICONDATA, HWnd := hwnd,
                  UID := uid, UFlags := NIF_INFO\<rparr>"
  have z: "SzInfo nid0 = replicate 256 0" "SzInfoTitle nid0 = replicate 64 0"
    by (simp_all add: nid0_def zero_NOTIFYICONDATA_def)
  from copyToUint16Buffer_props [OF assms(1), of "replicate 256 0"]
  obtain szInfo where i: "copyToUint16Buffer (replicate 256 0) info = Inr szInfo"
    "length szInfo = 256" "cstring szInfo = take 255 (encodeWTF16 info)"
    by auto
  from copyToUint16Buffer_props [OF assms(2), of "replicate 64 0"]
  obtain szInfoTitle where t: "copyToUint16Buffer (replicate 64 0) infoTitle = Inr szInfoTitle"
    "length szInfoTitle = 64" "cstring szInfoTitle = take 63 (encodeWTF16 infoTitle)"
    by auto
  define nid where "nid = nid0\<lparr>SzInfo := szInfo, SzInfoTitle := szInfoTitle\<rparr>"
  define r where "r = Shell_NotifyIcon env NIM_MODIFY nid w"
  have s: "showNotification env hwnd uid info infoTitle w
      = (Inr (if fst r then None else Some (ErrorString ''unable to display notification'')), snd r)"
    using i(1) t(1) z
    by (simp add: showNotification_def Let_def nid0_def [symmetric] nid_def [symmetric]
        r_def [symmetric] split: prod.split)
  have ev: "new_events w (snd r) = [Ev_Shell_NotifyIcon NIM_MODIFY nid (fst r)]"
    unfolding r_def by (rule new_events_Shell_NotifyIcon)
  have rest: "nid\<lparr>SzInfo := replicate 256 0, SzInfoTitle := replicate 64 0\<rparr> = nid0"
    by (simp add: nid_def nid0_def zero_NOTIFYICONDATA_def)
  have f: "SzInfo nid = szInfo" "SzInfoTitle nid = szInfoTitle" by (simp_all add: nid_def)
  have key: "HWnd nid = hwnd" "UID nid = uid" "UFlags nid AND NIF_INFO \<noteq> 0"
    by (simp_all add: nid_def nid0_def NIF_INFO_def)
  have shown: "fst r \<longrightarrow> balloons (snd r)
               = balloons w @ [(take 255 (encodeWTF16 info), take 63 (encodeWTF16 infoTitle))]"
    using Shell_NotifyIcon_MODIFY_info [of env nid w] key f i(3) t(3) by (auto simp: r_def)
  have okc: "fst r = (notify_ok env NIM_MODIFY \<and> tray w (hwnd, uid) \<noteq> None)"
    using key(1,2) by (simp add: r_def Shell_NotifyIcon_MODIFY_ok)
  show ?thesis
    using s ev rest f i(2,3) t(2,3) shown okc unfolding nid0_def
    by (intro exI [of _ nid] exI [of _ "fst r"] exI [of _ "snd r"]) simp
qed

section \<open>Lemmas: the window procedure\<close>

lemmas msg_consts = pWMAPP_MESSAGE_def pWMAPP_NOTIFYCALLBACK_def WM_APP_def WM_CREATE_def
  WM_QUIT_def WM_RBUTTONUP_def

lemmas type_consts = pMESSAGE_SET_ICON_FROM_BYTES_def pMESSAGE_SET_TIP_def
  pMESSAGE_ADD_MENU_ITEM_def pMESSAGE_ADD_MENU_SEPARATOR_def pMESSAGE_SHOW_NOTIFICATION_def

lemma wndProc_SET_ICON:
  "wndProc env (Some \<lparr>Type = pMESSAGE_SET_ICON_FROM_BYTES, Data = Bytes b\<rparr>) hwnd
       pWMAPP_MESSAGE wp lp a w
     = send_returnChan a (setIcon env hwnd (iconId a) b
         (log (Ev_Recv_messageChan \<lparr>Type = pMESSAGE_SET_ICON_FROM_BYTES, Data = Bytes b\<rparr>) w))"
  by (simp add: wndProc_def msg_consts type_consts)

lemma wndProc_SET_TIP:
  "wndProc env (Some \<lparr>Type = pMESSAGE_SET_TIP, Data = String text\<rparr>) hwnd
       pWMAPP_MESSAGE wp lp a w
     = send_returnChan a (setTip env hwnd (iconId a) text
         (log (Ev_Recv_messageChan \<lparr>Type = pMESSAGE_SET_TIP, Data = String text\<rparr>) w))"
  by (simp add: wndProc_def msg_consts type_consts)

lemma wndProc_ADD_MENU_ITEM:
  "wndProc env (Some \<lparr>Type = pMESSAGE_ADD_MENU_ITEM, Data = pDataAddMenuItem text f\<rparr>) hwnd
       pWMAPP_MESSAGE wp lp a w
     = send_returnChan (a\<lparr>menuIds := menuIds a + 1, menuFns := (menuFns a)(menuIds a \<mapsto> f)\<rparr>)
         (addMenuItem env (hmenu a) (menuIds a) text
           (log (Ev_Recv_messageChan
                  \<lparr>Type = pMESSAGE_ADD_MENU_ITEM, Data = pDataAddMenuItem text f\<rparr>) w))"
  by (simp add: wndProc_def msg_consts type_consts newMenuId_def)

lemma wndProc_ADD_MENU_SEPARATOR:
  "wndProc env (Some \<lparr>Type = pMESSAGE_ADD_MENU_SEPARATOR, Data = d\<rparr>) hwnd
       pWMAPP_MESSAGE wp lp a w
     = send_returnChan a (addMenuSeparator env (hmenu a)
         (log (Ev_Recv_messageChan \<lparr>Type = pMESSAGE_ADD_MENU_SEPARATOR, Data = d\<rparr>) w))"
  by (simp add: wndProc_def msg_consts type_consts)

lemma wndProc_SHOW_NOTIFICATION:
  "wndProc env (Some \<lparr>Type = pMESSAGE_SHOW_NOTIFICATION,
                       Data = pDataShowNotification info infoTitle\<rparr>) hwnd
       pWMAPP_MESSAGE wp lp a w
     = send_returnChan a (showNotification env hwnd (iconId a) info infoTitle
         (log (Ev_Recv_messageChan \<lparr>Type = pMESSAGE_SHOW_NOTIFICATION,
                       Data = pDataShowNotification info infoTitle\<rparr>) w))"
  by (simp add: wndProc_def msg_consts type_consts)

lemma new_events_append: "trace w' = trace w @ evs \<Longrightarrow> new_events w w' = evs"
  by (simp add: new_events_def)

lemma temp_created_append [simp]: "temp_created (xs @ ys) = temp_created xs @ temp_created ys"
  by (induction xs rule: temp_created.induct) simp_all

lemma temp_removed_append [simp]: "temp_removed (xs @ ys) = temp_removed xs @ temp_removed ys"
  by (induction xs rule: temp_removed.induct) simp_all

lemma shell_calls_append [simp]: "shell_calls (xs @ ys) = shell_calls xs @ shell_calls ys"
  by (induction xs rule: shell_calls.induct) simp_all

lemma received_append [simp]: "received (xs @ ys) = received xs @ received ys"
  by (induction xs rule: received.induct) simp_all

lemma replies_append [simp]: "replies (xs @ ys) = replies xs @ replies ys"
  by (induction xs rule: replies.induct) simp_all

lemma spawned_append [simp]: "spawned (xs @ ys) = spawned xs @ spawned ys"
  by (induction xs rule: spawned.induct) simp_all

lemma appended_ids_append [simp]: "appended_ids (xs @ ys) = appended_ids xs @ appended_ids ys"
  by (induction xs rule: appended_ids.induct) simp_all

lemma setIcon_failure:
  assumes "image_of env b = 0 \<or> \<not> notify_ok env NIM_MODIFY"
  shows "\<exists>e w' evs. setIcon env hwnd uid b w = (Inr (Some e), w')
           \<and> trace w' = trace w @ evs
           \<and> replies evs = [] \<and> received evs = []
           \<and> tray w' = tray w
           \<and> (image_of env b = 0 \<longrightarrow> shell_calls evs = [])
           \<and> (\<forall>name. temp_name env = Inr name \<and> files w name = None \<and> CHR 0x00 \<notin> set name
                 \<longrightarrow> e = (if image_of env b = 0 then ErrorString ''unable to load icon''
                          else ErrorString ''unable to change icon''))"
  using assms
  by (auto simp: setIcon_def CreateTemp_def Copy_def Remove_def LoadImage_def Shell_NotifyIcon_def
      log_def Let_def mustUTF16PtrFromString_def UTF16FromString_def
      NIM_MODIFY_def NIM_ADD_def NIM_DELETE_def
      split: sum.splits prod.splits if_splits option.splits)

lemma request_of_simps [simp]:
  "request_of (SetIconFromBytes hwnd b)
     = Some \<lparr>Type = pMESSAGE_SET_ICON_FROM_BYTES, Data = Bytes b\<rparr>"
  "request_of (SetTip hwnd text) = Some \<lparr>Type = pMESSAGE_SET_TIP, Data = String text\<rparr>"
  "request_of (AddMenuItem hwnd text f)
     = Some \<lparr>Type = pMESSAGE_ADD_MENU_ITEM, Data = pDataAddMenuItem text f\<rparr>"
  "request_of (AddMenuSeparator hwnd) = Some \<lparr>Type = pMESSAGE_ADD_MENU_SEPARATOR, Data = Nil\<rparr>"
  "request_of (ShowNotification hwnd info infoTitle)
     = Some \<lparr>Type = pMESSAGE_SHOW_NOTIFICATION, Data = pDataShowNotification info infoTitle\<rparr>"
  by (simp_all add: SetIconFromBytes_def SetTip_def AddMenuItem_def AddMenuSeparator_def
      ShowNotification_def)

section \<open>Lemmas: menu entries and identifiers\<close>

lemma mustUTF16PtrFromString_NUL_free:
  "CHR 0x00 \<notin> set v \<Longrightarrow> mustUTF16PtrFromString v = Inr (encodeWTF16 v @ [0])"
  by (simp add: mustUTF16PtrFromString_def UTF16FromString_def)

lemma cstring_encodeWTF16:
  "CHR 0x00 \<notin> set v \<Longrightarrow> cstring (encodeWTF16 v @ [0]) = encodeWTF16 v"
  using cstring_append_NUL [OF encodeWTF16_nonzero, of v "[]"] by simp

lemma addMenuItem_eq:
  assumes "CHR 0x00 \<notin> set text"
  shows "addMenuItem env hm i text w =
     (Inr (if append_ok env \<and> menus w hm \<noteq> None then None else Some (Errno (last_error env))),
      log (Ev_AppendMenuW hm 0 i (Some (encodeWTF16 text @ [0]))
             (append_ok env \<and> menus w hm \<noteq> None))
        (if append_ok env \<and> menus w hm \<noteq> None
         then w\<lparr>menus := (menus w)(hm \<mapsto> the (menus w hm) @ [MenuItem i (encodeWTF16 text)])\<rparr>
         else w))"
  using assms
  by (simp add: addMenuItem_def mustUTF16PtrFromString_NUL_free AppendMenuW_def Let_def
      cstring_encodeWTF16 MF_SEPARATOR_def)

lemma addMenuSeparator_eq:
  "addMenuSeparator env hm w =
     (Inr (if append_ok env \<and> menus w hm \<noteq> None then None else Some (Errno (last_error env))),
      log (Ev_AppendMenuW hm MF_SEPARATOR 0 None (append_ok env \<and> menus w hm \<noteq> None))
        (if append_ok env \<and> menus w hm \<noteq> None
         then w\<lparr>menus := (menus w)(hm \<mapsto> the (menus w hm) @ [MenuSeparator])\<rparr>
         else w))"
  by (simp add: addMenuSeparator_def AppendMenuW_def Let_def MF_SEPARATOR_def)

lemma wndProc_AddMenuItem:
  assumes "CHR 0x00 \<notin> set text"
  shows "\<exists>w' ok. wndProc env (request_of (AddMenuItem h text f)) hwnd pWMAPP_MESSAGE wp lp a w
           = Returns 0 (a\<lparr>menuIds := menuIds a + 1, menuFns := (menuFns a)(menuIds a \<mapsto> f)\<rparr>) w'
         \<and> ok = (append_ok env \<and> menus w (hmenu a) \<noteq> None)
         \<and> trace w' = trace w @
              [Ev_Recv_messageChan \<lparr>Type = pMESSAGE_ADD_MENU_ITEM, Data = pDataAddMenuItem text f\<rparr>,
               Ev_AppendMenuW (hmenu a) 0 (menuIds a) (Some (encodeWTF16 text @ [0])) ok,
               Ev_Send_returnChan (if ok then None else Some (Errno (last_error env)))]
         \<and> menus w' = (if ok then (menus w)(hmenu a \<mapsto> the (menus w (hmenu a))
                                       @ [MenuItem (menuIds a) (encodeWTF16 text)])
                        else menus w)
         \<and> tray w' = tray w \<and> files w' = files w"
  using assms
  by (auto simp: wndProc_ADD_MENU_ITEM addMenuItem_eq send_returnChan_def log_def)

lemma wndProc_AddMenuSeparator:
  shows "\<exists>w' ok. wndProc env (request_of (AddMenuSeparator h)) hwnd pWMAPP_MESSAGE wp lp a w
           = Returns 0 a w'
         \<and> ok = (append_ok env \<and> menus w (hmenu a) \<noteq> None)
         \<and> trace w' = trace w @
              [Ev_Recv_messageChan \<lparr>Type = pMESSAGE_ADD_MENU_SEPARATOR, Data = Nil\<rparr>,
               Ev_AppendMenuW (hmenu a) MF_SEPARATOR 0 None ok,
               Ev_Send_returnChan (if ok then None else Some (Errno (last_error env)))]
         \<and> menus w' = (if ok then (menus w)(hmenu a \<mapsto> the (menus w (hmenu a)) @ [MenuSeparator])
                        else menus w)
         \<and> tray w' = tray w \<and> files w' = files w"
  by (auto simp: wndProc_ADD_MENU_SEPARATOR addMenuSeparator_eq send_returnChan_def log_def)

lemma Shell_NotifyIcon_frame:
  "menus (snd (Shell_NotifyIcon env m nid w)) = menus w"
  "files (snd (Shell_NotifyIcon env m nid w)) = files w"
  "trace (snd (Shell_NotifyIcon env m nid w))
     = trace w @ [Ev_Shell_NotifyIcon m nid (fst (Shell_NotifyIcon env m nid w))]"
  by (simp_all add: Shell_NotifyIcon_def Let_def log_def)

lemma wndProc_WM_CREATE:
  "\<exists>w' nid1 ok1 nid2 ok2.
     wndProc env mb hwnd WM_CREATE wp lp a w = Returns 0 a w'
     \<and> menus w' = menus w \<and> files w' = files w
     \<and> trace w' = trace w @ [Ev_Shell_NotifyIcon NIM_ADD nid1 ok1,
                               Ev_Shell_NotifyIcon NIM_SETVERSION nid2 ok2]"
  by (simp add: wndProc_def createTrayIcon_def setVersion_def Shell_NotifyIcon_frame)

lemma setIcon_menu_frame:
  "\<exists>r w' evs. setIcon env hwnd uid b w = (Inr r, w') \<and> trace w' = trace w @ evs
       \<and> menus w' = menus w \<and> appended_ids evs = []
       \<and> replies evs = [] \<and> received evs = []"
  by (auto simp: setIcon_def CreateTemp_def Copy_def Remove_def LoadImage_def Shell_NotifyIcon_def
      log_def Let_def mustUTF16PtrFromString_def UTF16FromString_def
      split: sum.splits prod.splits if_splits option.splits)

lemma setTip_menu_frame:
  assumes "CHR 0x00 \<notin> set tx"
  shows "\<exists>r w' evs. setTip env hwnd uid tx w = (Inr r, w') \<and> trace w' = trace w @ evs
       \<and> menus w' = menus w \<and> appended_ids evs = []
       \<and> replies evs = [] \<and> received evs = []"
proof -
  from setTip_marshal [OF assms, of env hwnd uid w] obtain r w' where
    r: "setTip env hwnd uid tx w = (Inr r, w')" by blast
  then have "\<exists>nid ok. trace w' = trace w @ [Ev_Shell_NotifyIcon NIM_MODIFY nid ok]
                \<and> menus w' = menus w"
    by (auto simp: setTip_def Let_def split_beta Shell_NotifyIcon_frame
        split: sum.splits if_splits)
  with r show ?thesis by auto
qed

lemma showNotification_menu_frame:
  assumes "CHR 0x00 \<notin> set i" and "CHR 0x00 \<notin> set t"
  shows "\<exists>r w' evs. showNotification env hwnd uid i t w = (Inr r, w') \<and> trace w' = trace w @ evs
       \<and> menus w' = menus w \<and> appended_ids evs = []
       \<and> replies evs = [] \<and> received evs = []"
proof -
  from showNotification_marshal [OF assms, of env hwnd uid w] obtain r w' where
    r: "showNotification env hwnd uid i t w = (Inr r, w')" by blast
  then have "\<exists>nid ok. trace w' = trace w @ [Ev_Shell_NotifyIcon NIM_MODIFY nid ok]
                \<and> menus w' = menus w"
    by (auto simp: showNotification_def Let_def split_beta Shell_NotifyIcon_frame
        split: sum.splits if_splits)
  with r show ?thesis by auto
qed

lemma send_returnChan_menu_frame:
  assumes "rw = (Inr r, w')" and "trace w' = trace (log (Ev_Recv_messageChan m) w) @ evs"
    and "menus w' = menus w" and "appended_ids evs = []" and "replies evs = []"
    and "received evs = []"
  shows "\<exists>w1 evs1. send_returnChan a rw = Returns 0 a w1 \<and> trace w1 = trace w @ evs1
       \<and> menus w1 = menus w \<and> appended_ids evs1 = []
       \<and> length (replies evs1) = 1 \<and> length (received evs1) = 1"
  using assms by (simp add: send_returnChan_def log_def)

lemma wndProc_Icon:
  "\<exists>w1 evs1. wndProc env (request_of (SetIconFromBytes h b)) hwnd pWMAPP_MESSAGE wp lp a w
         = Returns 0 a w1
       \<and> trace w1 = trace w @ evs1 \<and> menus w1 = menus w \<and> appended_ids evs1 = []
       \<and> length (replies evs1) = 1 \<and> length (received evs1) = 1"
proof -
  define m where "m = \<lparr>Type = pMESSAGE_SET_ICON_FROM_BYTES, Data = Bytes b\<rparr>"
  from setIcon_menu_frame [of env hwnd "iconId a" b "log (Ev_Recv_messageChan m) w"]
  obtain r w' evs where
    "setIcon env hwnd (iconId a) b (log (Ev_Recv_messageChan m) w) = (Inr r, w')"
    "trace w' = trace (log (Ev_Recv_messageChan m) w) @ evs"
    "menus w' = menus (log (Ev_Recv_messageChan m) w)"
    "appended_ids evs = []" "replies evs = []" "received evs = []"
    by blast
  then have "\<exists>w1 evs1. send_returnChan a (setIcon env hwnd (iconId a) b (log (Ev_Recv_messageChan m) w))
         = Returns 0 a w1
       \<and> trace w1 = trace w @ evs1 \<and> menus w1 = menus w \<and> appended_ids evs1 = []
       \<and> length (replies evs1) = 1 \<and> length (received evs1) = 1"
    by (intro send_returnChan_menu_frame [where m = m and r = r and w' = w' and evs = evs])
      (simp_all add: log_def)
  then show ?thesis
    by (simp add: wndProc_SET_ICON m_def)
qed

lemma wndProc_Tip:
  assumes "CHR 0x00 \<notin> set tx"
  shows "\<exists>w1 evs1. wndProc env (request_of (SetTip h tx)) hwnd pWMAPP_MESSAGE wp lp a w
         = Returns 0 a w1
       \<and> trace w1 = trace w @ evs1 \<and> menus w1 = menus w \<and> appended_ids evs1 = []
       \<and> length (replies evs1) = 1 \<and> length (received evs1) = 1"
proof -
  define m where "m = \<lparr>Type = pMESSAGE_SET_TIP, Data = String tx\<rparr>"
  from setTip_menu_frame [OF assms, of env hwnd "iconId a" "log (Ev_Recv_messageChan m) w"]
  obtain r w' evs where
    "setTip env hwnd (iconId a) tx (log (Ev_Recv_messageChan m) w) = (Inr r, w')"
    "trace w' = trace (log (Ev_Recv_messageChan m) w) @ evs"
    "menus w' = menus (log (Ev_Recv_messageChan m) w)"
    "appended_ids evs = []" "replies evs = []" "received evs = []"
    by blast
  then have "\<exists>w1 evs1. send_returnChan a (setTip env hwnd (iconId a) tx (log (Ev_Recv_messageChan m) w))
         = Returns 0 a w1
       \<and> trace w1 = trace w @ evs1 \<and> menus w1 = menus w \<and> appended_ids evs1 = []
       \<and> length (replies evs1) = 1 \<and> length (received evs1) = 1"
    by (intro send_returnChan_menu_frame [where m = m and r = r and w' = w' and evs = evs])
      (simp_all add: log_def)
  then show ?thesis
    by (simp add: wndProc_SET_TIP m_def)
qed

lemma wndProc_Balloon:
  assumes "CHR 0x00 \<notin> set i" and "CHR 0x00 \<notin> set t"
  shows "\<exists>w1 evs1. wndProc env (request_of (ShowNotification h i t)) hwnd pWMAPP_MESSAGE wp lp a w
         = Returns 0 a w1
       \<and> trace w1 = trace w @ evs1 \<and> menus w1 = menus w \<and> appended_ids evs1 = []
       \<and> length (replies evs1) = 1 \<and> length (received evs1) = 1"
proof -
  define m where "m = \<lparr>Type = pMESSAGE_SHOW_NOTIFICATION, Data = pDataShowNotification i t\<rparr>"
  from showNotification_menu_frame [OF assms, of env hwnd "iconId a"
      "log (Ev_Recv_messageChan m) w"]
  obtain r w' evs where
    "showNotification env hwnd (iconId a) i t (log (Ev_Recv_messageChan m) w) = (Inr r, w')"
    "trace w' = trace (log (Ev_Recv_messageChan m) w) @ evs"
    "menus w' = menus (log (Ev_Recv_messageChan m) w)"
    "appended_ids evs = []" "replies evs = []" "received evs = []"
    by blast
  then have "\<exists>w1 evs1. send_returnChan a (showNotification env hwnd (iconId a) i t (log (Ev_Recv_messageChan m) w))
         = Returns 0 a w1
       \<and> trace w1 = trace w @ evs1 \<and> menus w1 = menus w \<and> appended_ids evs1 = []
       \<and> length (replies evs1) = 1 \<and> length (received evs1) = 1"
    by (intro send_returnChan_menu_frame [where m = m and r = r and w' = w' and evs = evs])
      (simp_all add: log_def)
  then show ?thesis
    by (simp add: wndProc_SHOW_NOTIFICATION m_def)
qed

lemma wndProc_Platform:
  assumes "msg \<noteq> WM_QUIT" and "msg \<noteq> pWMAPP_MESSAGE"
  shows "\<exists>r w1 evs1. wndProc env mb hwnd msg wp lp a w = Returns r a w1
       \<and> trace w1 = trace w @ evs1 \<and> menus w1 = menus w \<and> appended_ids evs1 = []
       \<and> replies evs1 = [] \<and> received evs1 = []"
proof -
  consider (create) "msg = WM_CREATE"
    | (notify) "msg \<noteq> WM_CREATE" "msg = pWMAPP_NOTIFYCALLBACK"
    | (other) "msg \<noteq> WM_CREATE" "msg \<noteq> pWMAPP_NOTIFYCALLBACK"
    by blast
  then show ?thesis
  proof cases
    case create
    from wndProc_WM_CREATE [of env mb hwnd wp lp a w] show ?thesis
      unfolding create by auto
  next
    case notify
    with assms show ?thesis
      by (auto simp: wndProc_def showMenu_def DefWindowProc_def Let_def log_def
          split: option.splits)
  next
    case other
    with assms show ?thesis
      by (simp add: wndProc_def DefWindowProc_def log_def)
  qed
qed

lemma queue_of_Cons: "queue_of hwnd (c # calls) = queue_of hwnd [c] @ queue_of hwnd calls"
  by (cases "(hwnd, c # calls)" rule: queue_of.cases) simp_all

lemma menu_in_call_order_Cons:
  "menu_in_call_order k (c # calls)
     = menu_in_call_order k [c] @ menu_in_call_order (k + items [c]) calls"
  by (cases "(k, c # calls)" rule: menu_in_call_order.cases) simp_all

lemma items_Cons: "items (c # calls) = items [c] + items calls"
  by (cases "c # calls" rule: items.cases) simp_all

lemma requests_Cons: "requests (c # calls) = requests [c] + requests calls"
  by (cases "c # calls" rule: requests.cases) simp_all

lemma NUL_free_Cons: "NUL_free (c # calls) \<longleftrightarrow> NUL_free [c] \<and> NUL_free calls"
  by (cases "c # calls" rule: NUL_free.cases) simp_all

lemma not_ended_Cons: "not_ended hwnd (c # calls) \<longleftrightarrow> not_ended hwnd [c] \<and> not_ended hwnd calls"
  by (cases "(hwnd, c # calls)" rule: not_ended.cases) simp_all

lemma pump_wake_up:
  assumes "hwnd \<noteq> 0"
    and "wndProc env mb hwnd pWMAPP_MESSAGE 0 0 a w = Returns r a1 w1"
  shows "pump hwnd ((\<lparr>Hwnd = hwnd, message = pWMAPP_MESSAGE, wParam = 0, lParam = 0\<rparr>, env, mb) # q)
           a w = pump hwnd q a1 w1"
  using assms by (simp add: GetMessage_def TRUE_def DispatchMessage_def msg_consts)

lemma pump_call:
  assumes "NUL_free [c]" and "not_ended hwnd [c]" and "hwnd \<noteq> 0"
    and "menus w (hmenu a) = Some es" and "menuIds a = of_nat k"
  shows "\<exists>a1 w1 evs. pump hwnd (queue_of hwnd [c] @ q) a w = pump hwnd q a1 w1
           \<and> trace w1 = trace w @ evs
           \<and> menus w1 (hmenu a) = Some (es @ menu_in_call_order k [c])
           \<and> appended_ids evs = map of_nat [k ..< k + items [c]]
           \<and> length (replies evs) = requests [c]
           \<and> length (received evs) = requests [c]
           \<and> hmenu a1 = hmenu a \<and> iconId a1 = iconId a
           \<and> menuIds a1 = of_nat (k + items [c])"
proof -
  obtain env tc where c: "c = (env, tc)" by (cases c)
  show ?thesis
  proof (cases tc)
    case (Item tx f)
    with assms(1) c have nz: "CHR 0x00 \<notin> set tx" by simp
    define a1 where "a1 = a\<lparr>menuIds := menuIds a + 1, menuFns := (menuFns a)(menuIds a \<mapsto> f)\<rparr>"
    from wndProc_AddMenuItem [OF nz, of env hwnd f hwnd 0 0 a w]
    obtain w1 ok where
      r: "wndProc env (request_of (AddMenuItem hwnd tx f)) hwnd pWMAPP_MESSAGE 0 0 a w
           = Returns 0 a1 w1"
      and ok: "ok = (append_ok env \<and> menus w (hmenu a) \<noteq> None)"
      and tr: "trace w1 = trace w @
              [Ev_Recv_messageChan \<lparr>Type = pMESSAGE_ADD_MENU_ITEM, Data = pDataAddMenuItem tx f\<rparr>,
               Ev_AppendMenuW (hmenu a) 0 (menuIds a) (Some (encodeWTF16 tx @ [0])) ok,
               Ev_Send_returnChan (if ok then None else Some (Errno (last_error env)))]"
      and m: "menus w1 = (if ok then (menus w)(hmenu a \<mapsto> the (menus w (hmenu a))
                                       @ [MenuItem (menuIds a) (encodeWTF16 tx)])
                        else menus w)"
      unfolding a1_def by blast
    have q: "queue_of hwnd [c] @ q
        = (\<lparr>Hwnd = hwnd, message = pWMAPP_MESSAGE, wParam = 0, lParam = 0\<rparr>, env,
           request_of (AddMenuItem hwnd tx f)) # q"
      by (simp add: c Item) (simp add: AddMenuItem_def)
    have 1: "pump hwnd (queue_of hwnd [c] @ q) a w = pump hwnd q a1 w1"
      unfolding q using assms(3) r by (rule pump_wake_up)
    have 2: "menus w1 (hmenu a) = Some (es @ menu_in_call_order k [c])"
      using m ok assms(4,5) by (simp add: c Item)
    have 3: "appended_ids [Ev_Recv_messageChan \<lparr>Type = pMESSAGE_ADD_MENU_ITEM, Data = pDataAddMenuItem tx f\<rparr>,
               Ev_AppendMenuW (hmenu a) 0 (menuIds a) (Some (encodeWTF16 tx @ [0])) ok,
               Ev_Send_returnChan (if ok then None else Some (Errno (last_error env)))]
             = map of_nat [k ..< k + items [c]]"
      using assms(5) by (simp add: c Item)
    have 4: "menuIds a1 = of_nat (k + items [c])" using assms(5) by (simp add: a1_def c Item)
    show ?thesis
      using 1 tr 2 3 4
      by (intro exI [of _ a1] exI [of _ w1] exI [of _ "[Ev_Recv_messageChan \<lparr>Type = pMESSAGE_ADD_MENU_ITEM, Data = pDataAddMenuItem tx f\<rparr>,
               Ev_AppendMenuW (hmenu a) 0 (menuIds a) (Some (encodeWTF16 tx @ [0])) ok,
               Ev_Send_returnChan (if ok then None else Some (Errno (last_error env)))]"])
        (simp add: a1_def c Item)
  next
    case Separator
    from wndProc_AddMenuSeparator [of env hwnd hwnd 0 0 a w]
    obtain w1 ok where
      r: "wndProc env (request_of (AddMenuSeparator hwnd)) hwnd pWMAPP_MESSAGE 0 0 a w
           = Returns 0 a w1"
      and ok: "ok = (append_ok env \<and> menus w (hmenu a) \<noteq> None)"
      and tr: "trace w1 = trace w @
              [Ev_Recv_messageChan \<lparr>Type = pMESSAGE_ADD_MENU_SEPARATOR, Data = Nil\<rparr>,
               Ev_AppendMenuW (hmenu a) MF_SEPARATOR 0 None ok,
               Ev_Send_returnChan (if ok then None else Some (Errno (last_error env)))]"
      and m: "menus w1 = (if ok then (menus w)(hmenu a \<mapsto> the (menus w (hmenu a))
                                       @ [MenuSeparator])
                        else menus w)"
      by blast
    have q: "queue_of hwnd [c] @ q
        = (\<lparr>Hwnd = hwnd, message = pWMAPP_MESSAGE, wParam = 0, lParam = 0\<rparr>, env,
           request_of (AddMenuSeparator hwnd)) # q"
      by (simp add: c Separator) (simp add: AddMenuSeparator_def)
    have 1: "pump hwnd (queue_of hwnd [c] @ q) a w = pump hwnd q a w1"
      unfolding q using assms(3) r by (rule pump_wake_up)
    have 2: "menus w1 (hmenu a) = Some (es @ menu_in_call_order k [c])"
      using m ok assms(4) by (simp add: c Separator)
    show ?thesis
      using 1 tr 2 assms(5)
      by (intro exI [of _ a] exI [of _ w1] exI [of _ "[Ev_Recv_messageChan \<lparr>Type = pMESSAGE_ADD_MENU_SEPARATOR, Data = Nil\<rparr>,
               Ev_AppendMenuW (hmenu a) MF_SEPARATOR 0 None ok,
               Ev_Send_returnChan (if ok then None else Some (Errno (last_error env)))]"])
        (simp add: c Separator)
  next
    case (Icon b)
    from wndProc_Icon [of env hwnd b hwnd 0 0 a w]
    obtain w1 evs1 where
      r: "wndProc env (request_of (SetIconFromBytes hwnd b)) hwnd pWMAPP_MESSAGE 0 0 a w
           = Returns 0 a w1"
      and f: "trace w1 = trace w @ evs1" "menus w1 = menus w" "appended_ids evs1 = []"
        "length (replies evs1) = 1" "length (received evs1) = 1"
      by blast
    have q: "queue_of hwnd [c] @ q
        = (\<lparr>Hwnd = hwnd, message = pWMAPP_MESSAGE, wParam = 0, lParam = 0\<rparr>, env,
           request_of (SetIconFromBytes hwnd b)) # q"
      by (simp add: c Icon) (simp add: SetIconFromBytes_def)
    have 1: "pump hwnd (queue_of hwnd [c] @ q) a w = pump hwnd q a w1"
      unfolding q using assms(3) r by (rule pump_wake_up)
    show ?thesis
      using 1 f assms(4,5)
      by (intro exI [of _ a] exI [of _ w1] exI [of _ evs1]) (simp add: c Icon)
  next
    case (Tip tx)
    with assms(1) c have nz: "CHR 0x00 \<notin> set tx" by simp
    from wndProc_Tip [OF nz, of env hwnd hwnd 0 0 a w]
    obtain w1 evs1 where
      r: "wndProc env (request_of (SetTip hwnd tx)) hwnd pWMAPP_MESSAGE 0 0 a w
           = Returns 0 a w1"
      and f: "trace w1 = trace w @ evs1" "menus w1 = menus w" "appended_ids evs1 = []"
        "length (replies evs1) = 1" "length (received evs1) = 1"
      by blast
    have q: "queue_of hwnd [c] @ q
        = (\<lparr>Hwnd = hwnd, message = pWMAPP_MESSAGE, wParam = 0, lParam = 0\<rparr>, env,
           request_of (SetTip hwnd tx)) # q"
      by (simp add: c Tip) (simp add: SetTip_def)
    have 1: "pump hwnd (queue_of hwnd [c] @ q) a w = pump hwnd q a w1"
      unfolding q using assms(3) r by (rule pump_wake_up)
    show ?thesis
      using 1 f assms(4,5)
      by (intro exI [of _ a] exI [of _ w1] exI [of _ evs1]) (simp add: c Tip)
  next
    case (Balloon i t)
    with assms(1) c have nz: "CHR 0x00 \<notin> set i" "CHR 0x00 \<notin> set t" by simp_all
    from wndProc_Balloon [OF nz, of env hwnd hwnd 0 0 a w]
    obtain w1 evs1 where
      r: "wndProc env (request_of (ShowNotification hwnd i t)) hwnd pWMAPP_MESSAGE 0 0 a w
           = Returns 0 a w1"
      and f: "trace w1 = trace w @ evs1" "menus w1 = menus w" "appended_ids evs1 = []"
        "length (replies evs1) = 1" "length (received evs1) = 1"
      by blast
    have q: "queue_of hwnd [c] @ q
        = (\<lparr>Hwnd = hwnd, message = pWMAPP_MESSAGE, wParam = 0, lParam = 0\<rparr>, env,
           request_of (ShowNotification hwnd i t)) # q"
      by (simp add: c Balloon) (simp add: ShowNotification_def)
    have 1: "pump hwnd (queue_of hwnd [c] @ q) a w = pump hwnd q a w1"
      unfolding q using assms(3) r by (rule pump_wake_up)
    show ?thesis
      using 1 f assms(4,5)
      by (intro exI [of _ a] exI [of _ w1] exI [of _ evs1]) (simp add: c Balloon)
  next
    case (Platform msg)
    with assms(2) c have nq: "message msg \<noteq> WM_QUIT"
      and nw: "message msg = pWMAPP_MESSAGE \<longrightarrow> Hwnd msg \<noteq> hwnd" by simp_all
    have "\<exists>r w1 evs1. DispatchMessage env None hwnd msg a w = Returns r a w1
       \<and> trace w1 = trace w @ evs1 \<and> menus w1 = menus w \<and> appended_ids evs1 = []
       \<and> replies evs1 = [] \<and> received evs1 = []"
    proof (cases "Hwnd msg \<noteq> 0 \<and> Hwnd msg = hwnd")
      case True
      with nw have "message msg \<noteq> pWMAPP_MESSAGE" by blast
      from wndProc_Platform [OF nq this, of env None hwnd "wParam msg" "lParam msg" a w] True
      show ?thesis by (simp add: DispatchMessage_def)
    next
      case False
      then show ?thesis by (auto simp: DispatchMessage_def)
    qed
    then obtain r w1 evs1 where
      d: "DispatchMessage env None hwnd msg a w = Returns r a w1"
      and f: "trace w1 = trace w @ evs1" "menus w1 = menus w" "appended_ids evs1 = []"
        "replies evs1 = []" "received evs1 = []"
      by blast
    have 1: "pump hwnd (queue_of hwnd [c] @ q) a w = pump hwnd q a w1"
      using d nq by (simp add: c Platform GetMessage_def TRUE_def)
    show ?thesis
      using 1 f assms(4,5)
      by (intro exI [of _ a] exI [of _ w1] exI [of _ evs1]) (simp add: c Platform)
  qed
qed

lemma pump_calls:
  assumes "NUL_free calls" and "not_ended hwnd calls" and "hwnd \<noteq> 0"
    and "menus w (hmenu a) = Some es" and "menuIds a = of_nat k"
  shows "\<exists>a' w' evs. pump hwnd (queue_of hwnd calls) a w = Waiting a' w'
           \<and> trace w' = trace w @ evs
           \<and> menus w' (hmenu a) = Some (es @ menu_in_call_order k calls)
           \<and> appended_ids evs = map of_nat [k ..< k + items calls]
           \<and> length (replies evs) = requests calls
           \<and> length (received evs) = requests calls
           \<and> hmenu a' = hmenu a \<and> iconId a' = iconId a
           \<and> menuIds a' = of_nat (k + items calls)"
  using assms
proof (induction calls arbitrary: a w es k)
  case Nil
  then show ?case by simp
next
  case (Cons c calls)
  from Cons.prems(1) have nf: "NUL_free [c]" "NUL_free calls"
    using NUL_free_Cons [of c calls] by simp_all
  from Cons.prems(2) have ne: "not_ended hwnd [c]" "not_ended hwnd calls"
    using not_ended_Cons [of hwnd c calls] by simp_all
  from pump_call [OF nf(1) ne(1) Cons.prems(3,4,5), of "queue_of hwnd calls"]
  obtain a1 w1 evs1 where
    p1: "pump hwnd (queue_of hwnd [c] @ queue_of hwnd calls) a w
           = pump hwnd (queue_of hwnd calls) a1 w1"
    and t1: "trace w1 = trace w @ evs1"
    and m1: "menus w1 (hmenu a) = Some (es @ menu_in_call_order k [c])"
    and i1: "appended_ids evs1 = map of_nat [k ..< k + items [c]]"
    and r1: "length (replies evs1) = requests [c]" "length (received evs1) = requests [c]"
    and a1: "hmenu a1 = hmenu a" "iconId a1 = iconId a" "menuIds a1 = of_nat (k + items [c])"
    by blast
  from m1 a1(1) have m1': "menus w1 (hmenu a1) = Some (es @ menu_in_call_order k [c])" by simp
  from Cons.IH [OF nf(2) ne(2) Cons.prems(3) m1' a1(3)]
  obtain a' w' evs where
    p: "pump hwnd (queue_of hwnd calls) a1 w1 = Waiting a' w'"
    and t: "trace w' = trace w1 @ evs"
    and m: "menus w' (hmenu a1)
              = Some ((es @ menu_in_call_order k [c]) @ menu_in_call_order (k + items [c]) calls)"
    and i: "appended_ids evs = map of_nat [k + items [c] ..< k + items [c] + items calls]"
    and r: "length (replies evs) = requests calls" "length (received evs) = requests calls"
    and a': "hmenu a' = hmenu a1" "iconId a' = iconId a1"
      "menuIds a' = of_nat (k + items [c] + items calls)"
    by blast
  have upt: "[k ..< k + items (c # calls)]
      = [k ..< k + items [c]] @ [k + items [c] ..< k + items [c] + items calls]"
  proof -
    have "k \<le> k + items [c]" by simp
    from upt_add_eq_append [OF this, of "items calls"] show ?thesis
      unfolding items_Cons [of c calls] by (simp only: add.assoc)
  qed
  have 1: "pump hwnd (queue_of hwnd (c # calls)) a w = Waiting a' w'"
    unfolding queue_of_Cons [of hwnd c calls] p1 p ..
  have 2: "trace w' = trace w @ (evs1 @ evs)" using t1 t by simp
  have 3: "menus w' (hmenu a) = Some (es @ menu_in_call_order k (c # calls))"
    using m a1(1) unfolding menu_in_call_order_Cons [of k c calls] by simp
  have 4: "appended_ids (evs1 @ evs) = map of_nat [k ..< k + items (c # calls)]"
    unfolding upt using i1 i by simp
  have 5: "length (replies (evs1 @ evs)) = requests (c # calls)"
    "length (received (evs1 @ evs)) = requests (c # calls)"
    unfolding requests_Cons [of c calls] using r1 r by simp_all
  have 6: "hmenu a' = hmenu a" "iconId a' = iconId a"
    "menuIds a' = of_nat (k + items (c # calls))"
    unfolding items_Cons [of c calls] using a' a1 by (simp_all add: add.assoc)
  from 1 2 3 4 5 6 show ?case by blast
qed

lemma run_head_first:
  assumes "wndclass w0 = None"
  shows "run_head su w0
     = (\<lparr>iconId = newIconId w0 + 1, hmenu = su_hmenu su, menuIds = 100, menuFns = Map.empty\<rparr>,
        None,
        (if su_hmenu su \<noteq> 0
         then w0\<lparr>newIconId := newIconId w0 + 1, menus := (menus w0)(su_hmenu su \<mapsto> [])\<rparr>
         else w0\<lparr>newIconId := newIconId w0 + 1\<rparr>)\<lparr>wndclass := Some (newIconId w0 + 1)\<rparr>)"
  using assms by (simp add: run_head_def RegisterClassEx_def Let_def)

lemma run_calls:
  assumes "NUL_free calls" and "not_ended (su_hwnd su) calls"
    and "wndclass w0 = None" and "su_hwnd su \<noteq> 0" and "su_hmenu su \<noteq> 0"
  shows "\<exists>a w. run su (queue_of (su_hwnd su) calls) w0 = Waiting a w
           \<and> menus w (su_hmenu su) = Some (menu_in_call_order 100 calls)
           \<and> appended_ids (new_events w0 w) = map of_nat [100 ..< 100 + items calls]
           \<and> length (replies (new_events w0 w)) = requests calls
           \<and> length (received (new_events w0 w)) = requests calls
           \<and> menuIds a = of_nat (100 + items calls)"
proof -
  define w3 where "w3 = w0\<lparr>newIconId := newIconId w0 + 1,
                          menus := (menus w0)(su_hmenu su \<mapsto> []),
                          wndclass := Some (newIconId w0 + 1)\<rparr>"
  define a0 where "a0 = \<lparr>iconId = newIconId w0 + 1, hmenu = su_hmenu su, menuIds = 100,
                        menuFns = Map.empty\<rparr>"
  have h: "run_head su w0 = (a0, None, w3)"
    using assms(5) by (simp add: run_head_first [OF assms(3)] a0_def w3_def)
  from wndProc_WM_CREATE [of "su_env su" None "su_hwnd su" 0 0 a0 w3]
  obtain w4 nid1 ok1 nid2 ok2 where
    c: "wndProc (su_env su) None (su_hwnd su) WM_CREATE 0 0 a0 w3 = Returns 0 a0 w4"
    and m4: "menus w4 = menus w3"
    and t4: "trace w4 = trace w3 @ [Ev_Shell_NotifyIcon NIM_ADD nid1 ok1,
                               Ev_Shell_NotifyIcon NIM_SETVERSION nid2 ok2]"
    by blast
  define w5 where "w5 = log Ev_Close_hwndChan (log (Ev_Send_hwndChan (su_hwnd su)) w4)"
  have m5: "menus w5 (hmenu a0) = Some []"
    by (simp add: w5_def log_def m4 w3_def a0_def)
  have k: "menuIds a0 = of_nat 100" by (simp add: a0_def)
  from pump_calls [OF assms(1,2,4) m5 k]
  obtain a w evs where
    p: "pump (su_hwnd su) (queue_of (su_hwnd su) calls) a0 w5 = Waiting a w"
    and tr: "trace w = trace w5 @ evs"
    and r: "menus w (hmenu a0) = Some ([] @ menu_in_call_order 100 calls)"
      "appended_ids evs = map of_nat [100 ..< 100 + items calls]"
      "length (replies evs) = requests calls" "length (received evs) = requests calls"
      "menuIds a = of_nat (100 + items calls)"
    by blast
  have run: "run su (queue_of (su_hwnd su) calls) w0 = Waiting a w"
    using assms(4) c p
    by (simp add: run_def h CreateWindowEx_def message_loop_def w5_def [symmetric])
  have "trace w = trace w0 @ ([Ev_Shell_NotifyIcon NIM_ADD nid1 ok1,
             Ev_Shell_NotifyIcon NIM_SETVERSION nid2 ok2,
             Ev_Send_hwndChan (su_hwnd su), Ev_Close_hwndChan] @ evs)"
    by (simp add: tr w5_def log_def t4 w3_def)
  then have ne: "new_events w0 w = [Ev_Shell_NotifyIcon NIM_ADD nid1 ok1,
             Ev_Shell_NotifyIcon NIM_SETVERSION nid2 ok2,
             Ev_Send_hwndChan (su_hwnd su), Ev_Close_hwndChan] @ evs"
    by (rule new_events_append)
  show ?thesis
    using run r by (intro exI [of _ a] exI [of _ w]) (simp add: ne a0_def)
qed

lemma queue_of_served:
  "no_messages calls \<Longrightarrow> queue_of hwnd calls = served (map (call_of hwnd) calls)"
  by (induction calls rule: no_messages.induct) simp_all

lemma no_messages_not_ended: "no_messages calls \<Longrightarrow> not_ended hwnd calls"
  by (induction calls rule: no_messages.induct) simp_all

lemma no_messages_requests: "no_messages calls \<Longrightarrow> requests calls = length calls"
  by (induction calls rule: no_messages.induct) simp_all

lemma no_messages_replicate_Item: "no_messages (replicate n (env, Item tx f))"
  by (induction n) simp_all

lemma no_messages_append [simp]:
  "no_messages (xs @ ys) \<longleftrightarrow> no_messages xs \<and> no_messages ys"
  by (induction xs rule: no_messages.induct) simp_all

lemma run_menu_calls:
  assumes "NUL_free calls" and "no_messages calls" and "wndclass w0 = None"
    and "su_hwnd su \<noteq> 0" and "su_hmenu su \<noteq> 0"
  shows "\<exists>a w. run su (served (map (call_of (su_hwnd su)) calls)) w0 = Waiting a w
           \<and> menus w (su_hmenu su) = Some (menu_in_call_order 100 calls)
           \<and> appended_ids (new_events w0 w) = map of_nat [100 ..< 100 + items calls]
           \<and> length (replies (new_events w0 w)) = length calls
           \<and> length (received (new_events w0 w)) = length calls
           \<and> menuIds a = of_nat (100 + items calls)"
  using run_calls [OF assms(1) no_messages_not_ended [OF assms(2)] assms(3,4,5)]
  unfolding queue_of_served [OF assms(2)] no_messages_requests [OF assms(2)] .

lemma unat_upto:
  assumes "k + n \<le> 2 ^ 32"
  shows "map unat (map of_nat [k ..< k + n] :: u32 list) = [k ..< k + n]"
proof (rule nth_equalityI)
  show "length (map unat (map of_nat [k ..< k + n] :: u32 list)) = length [k ..< k + n]"
    by simp
next
  fix i
  assume "i < length (map unat (map of_nat [k ..< k + n] :: u32 list))"
  then have i: "i < n" by simp
  with assms have "k + i < 2 ^ 32" by simp
  then have "unat (of_nat (k + i) :: u32) = k + i"
    by (simp add: unat_of_nat del: of_nat_add)
  with i show "map unat (map of_nat [k ..< k + n] :: u32 list) ! i = [k ..< k + n] ! i"
    by (simp del: of_nat_add)
qed

lemma word_list_increasing:
  assumes "map unat (xs :: u32 list) = [k ..< k + n]"
  shows "sorted_wrt (<) xs \<and> distinct xs"
proof -
  have "sorted_wrt (<) (map unat xs)" "distinct (map unat xs)"
    unfolding assms by simp_all
  then have "sorted_wrt (\<lambda>x y. unat x < unat y) xs" "distinct xs"
    by (simp_all add: sorted_wrt_map distinct_map)
  then show ?thesis
    by (simp add: word_less_nat_alt [abs_def])
qed

lemma NUL_free_replicate_Item:
  "CHR 0x00 \<notin> set tx \<Longrightarrow> NUL_free (replicate n (env, Item tx f))"
  by (induction n) simp_all

lemma items_replicate_Item: "items (replicate n (env, Item tx f)) = n"
  by (induction n) simp_all

lemma nth_ids: "i < n \<Longrightarrow> (map of_nat [k ..< k + n] :: u32 list) ! i = of_nat (k + i)"
  by (simp del: of_nat_add)

lemma word_successor_higher: "x \<noteq> - 1 \<Longrightarrow> x < x + 1" for x :: u32
  by (metis inc_less_eq_triv_imp linorder_less_linear word_le_less_eq)

lemma NUL_free_append [simp]: "NUL_free (xs @ ys) \<longleftrightarrow> NUL_free xs \<and> NUL_free ys"
  by (induction xs rule: NUL_free.induct) simp_all

lemma items_append [simp]: "items (xs @ ys) = items xs + items ys"
  by (induction xs rule: items.induct) simp_all

section \<open>Lemmas: what the message loop never does\<close>

lemma no_delete_simps [simp]:
  "no_delete []"
  "no_delete (xs @ ys) \<longleftrightarrow> no_delete xs \<and> no_delete ys"
  "no_delete (Ev_Shell_NotifyIcon m nid ok # evs) \<longleftrightarrow> m \<noteq> NIM_DELETE \<and> no_delete evs"
  "no_delete (Ev_AppendMenuW h fl i p ok' # evs) \<longleftrightarrow> no_delete evs"
  "no_delete (Ev_CreateTemp ct # evs) \<longleftrightarrow> no_delete evs"
  "no_delete (Ev_Copy n b # evs) \<longleftrightarrow> no_delete evs"
  "no_delete (Ev_Remove n # evs) \<longleftrightarrow> no_delete evs"
  "no_delete (Ev_LoadImage n h # evs) \<longleftrightarrow> no_delete evs"
  "no_delete (Ev_TrackPopupMenu h fl c # evs) \<longleftrightarrow> no_delete evs"
  "no_delete (Ev_DefWindowProc m # evs) \<longleftrightarrow> no_delete evs"
  "no_delete (Ev_Recv_messageChan pm # evs) \<longleftrightarrow> no_delete evs"
  "no_delete (Ev_Send_returnChan e # evs) \<longleftrightarrow> no_delete evs"
  "no_delete (Ev_Go f # evs) \<longleftrightarrow> no_delete evs"
  "no_delete (Ev_Call f # evs) \<longleftrightarrow> no_delete evs"
  "no_delete (Ev_Send_hwndChan h # evs) \<longleftrightarrow> no_delete evs"
  "no_delete (Ev_Close_hwndChan # evs) \<longleftrightarrow> no_delete evs"
  "no_delete (Ev_Close_closedChan # evs) \<longleftrightarrow> no_delete evs"
  by (auto simp: no_delete_def)

lemma extends_refl [simp]: "extends w w"
  by (simp add: extends_def)

lemma extends_trans: "extends w w1 \<Longrightarrow> extends w1 w2 \<Longrightarrow> extends w w2"
  by (auto simp: extends_def)

lemma extends_log:
  "extends w w' \<Longrightarrow> no_delete [e] \<Longrightarrow> extends w (log e w')"
  by (auto simp: extends_def log_def)

lemma extends_Shell:
  "m \<noteq> NIM_DELETE \<Longrightarrow> extends w (snd (Shell_NotifyIcon env m nid w))"
  by (simp add: extends_def Shell_NotifyIcon_frame)

lemma extends_setIcon: "extends w (snd (setIcon env hwnd uid b w))"
  by (auto simp: setIcon_def CreateTemp_def Copy_def Remove_def LoadImage_def Shell_NotifyIcon_def
      log_def Let_def extends_def NIM_MODIFY_def NIM_DELETE_def
      split: sum.splits prod.splits if_splits option.splits)

lemma extends_setTip: "extends w (snd (setTip env hwnd uid tx w))"
  by (simp add: setTip_def Let_def split_beta extends_Shell NIM_MODIFY_def NIM_DELETE_def
      split: sum.splits)

lemma extends_showNotification: "extends w (snd (showNotification env hwnd uid i t w))"
  by (simp add: showNotification_def Let_def split_beta extends_Shell NIM_MODIFY_def
      NIM_DELETE_def split: sum.splits)

lemma extends_addMenuItem: "extends w (snd (addMenuItem env hm i tx w))"
  by (simp add: addMenuItem_def AppendMenuW_def Let_def extends_def log_def split: sum.splits)

lemma extends_addMenuSeparator: "extends w (snd (addMenuSeparator env hm w))"
  by (simp add: addMenuSeparator_def AppendMenuW_def Let_def extends_def log_def)

lemma extends_after_recv:
  "extends (log (Ev_Recv_messageChan m) w) w' \<Longrightarrow> extends w w'"
  by (auto simp: extends_def log_def)

lemma outcome_extends_send:
  "extends (log (Ev_Recv_messageChan m) w) (snd rw) \<Longrightarrow> outcome_extends w (send_returnChan a rw)"
  by (cases rw) (auto simp: send_returnChan_def intro: extends_log extends_after_recv
      split: sum.splits)

lemma wndProc_extends:
  assumes "msg \<noteq> WM_QUIT"
  shows "outcome_extends w (wndProc env mb hwnd msg wp lp a w)"
proof -
  consider (create) "msg = WM_CREATE"
    | (notify) "msg \<noteq> WM_CREATE" "msg = pWMAPP_NOTIFYCALLBACK"
    | (message) "msg \<noteq> WM_CREATE" "msg \<noteq> pWMAPP_NOTIFYCALLBACK" "msg = pWMAPP_MESSAGE"
    | (other) "msg \<noteq> WM_CREATE" "msg \<noteq> pWMAPP_NOTIFYCALLBACK" "msg \<noteq> pWMAPP_MESSAGE"
    by blast
  then show ?thesis
  proof cases
    case create
    have "extends w (snd (Shell_NotifyIcon env NIM_ADD n1 w))" for n1
      by (rule extends_Shell) (simp add: NIM_ADD_def NIM_DELETE_def)
    moreover have "extends w1 (snd (Shell_NotifyIcon env NIM_SETVERSION n2 w1))" for n2 w1
      by (rule extends_Shell) (simp add: NIM_SETVERSION_def NIM_DELETE_def)
    ultimately show ?thesis
      using create
      by (auto simp: wndProc_def createTrayIcon_def setVersion_def intro: extends_trans)
  next
    case notify
    with assms show ?thesis
      by (auto simp: wndProc_def showMenu_def DefWindowProc_def Let_def extends_def log_def
          split: option.splits)
  next
    case message
    show ?thesis
    proof (cases mb)
      case None
      with message assms show ?thesis by (simp add: wndProc_def)
    next
      case (Some m)
      have r: "extends w (log (Ev_Recv_messageChan m) w)"
        by (simp add: extends_def log_def)
      show ?thesis
        using message assms Some r
        by (cases "Data m")
          (simp_all add: wndProc_def Let_def newMenuId_def type_consts outcome_extends_send [where m = m] extends_setIcon
            extends_setTip extends_showNotification extends_addMenuItem extends_addMenuSeparator)
    qed
  next
    case other
    with assms show ?thesis
      by (simp add: wndProc_def DefWindowProc_def extends_def log_def)
  qed
qed

lemma pump_extends: "extends w (final_world (pump hwnd queue a w))"
proof (induction queue arbitrary: a w)
  case Nil
  show ?case by simp
next
  case (Cons q queue)
  obtain msg env mb where q: "q = (msg, env, mb)" by (cases q)
  show ?case
  proof (cases "GetMessage msg = TRUE")
    case False
    then show ?thesis by (simp add: q)
  next
    case True
    then have nq: "message msg \<noteq> WM_QUIT"
      by (simp add: GetMessage_def TRUE_def split: if_splits)
    have d: "outcome_extends w (DispatchMessage env mb hwnd msg a w)"
      using wndProc_extends [OF nq] by (simp add: DispatchMessage_def)
    show ?thesis
    proof (cases "DispatchMessage env mb hwnd msg a w")
      case (Returns r a' w')
      with d Cons.IH [of w' a'] True show ?thesis
        by (auto simp: q intro: extends_trans)
    next
      case (Panics p w')
      with d True show ?thesis by (simp add: q)
    next
      case Blocks
      with True show ?thesis by (simp add: q)
    qed
  qed
qed

lemma pump_foreign_world: "final_world (pump_foreign hwnd queue a w) = w"
  by (induction queue arbitrary: a w) auto

lemma message_loop_extends: "extends w (final_world (message_loop hwnd foreign queue a w))"
  by (cases foreign) (simp_all add: message_loop_def pump_extends pump_foreign_world)

lemma CreateWindowEx_extends: "outcome_extends w (CreateWindowEx env hwnd foreign a w)"
proof (cases "hwnd = 0")
  case True
  then show ?thesis by (simp add: CreateWindowEx_def)
next
  case False
  show ?thesis
  proof (cases foreign)
    case None
    have "WM_CREATE \<noteq> WM_QUIT" by (simp add: WM_CREATE_def WM_QUIT_def)
    from wndProc_extends [OF this, of w env None hwnd 0 0 a] False None show ?thesis
      by (simp add: CreateWindowEx_def)
  next
    case (Some owner)
    have "extends w (snd (Shell_NotifyIcon env NIM_ADD n1 w))" for n1
      by (rule extends_Shell) (simp add: NIM_ADD_def NIM_DELETE_def)
    moreover have "extends w1 (snd (Shell_NotifyIcon env NIM_SETVERSION n2 w1))" for n2 w1
      by (rule extends_Shell) (simp add: NIM_SETVERSION_def NIM_DELETE_def)
    ultimately show ?thesis
      using False Some
      by (auto simp: CreateWindowEx_def createTrayIcon_def setVersion_def intro: extends_trans)
  qed
qed

lemma run_head_extends: "run_head su w0 = (a, foreign, w3) \<Longrightarrow> extends w0 w3"
  by (auto simp: run_head_def RegisterClassEx_def Let_def extends_def split: option.splits)

lemma run_extends: "extends w0 (final_world (run su queue w0))"
proof -
  obtain a foreign w3 where h: "run_head su w0 = (a, foreign, w3)"
    by (cases "run_head su w0") auto
  have e3: "extends w0 w3" using h by (rule run_head_extends)
  show ?thesis
  proof (cases "CreateWindowEx (su_env su) (su_hwnd su) foreign a w3")
    case (Returns r a' w4)
    with CreateWindowEx_extends [of w3 "su_env su" "su_hwnd su" foreign a]
    have e4: "extends w3 w4" by simp
    define w5 where "w5 = log Ev_Close_hwndChan (log (Ev_Send_hwndChan (su_hwnd su)) w4)"
    have e5: "extends w4 w5"
      by (simp add: w5_def extends_def log_def)
    have "extends w5 (final_world (message_loop (su_hwnd su) foreign queue a' w5))"
      by (rule message_loop_extends)
    then have "extends w5 (final_world
        (case message_loop (su_hwnd su) foreign queue a' w5 of
           LoopExit a'' w6 \<Rightarrow> LoopExit a'' (log Ev_Close_closedChan w6)
         | r \<Rightarrow> r))"
      by (auto split: pump_result.splits intro: extends_log)
    with e3 e4 e5 show ?thesis
      unfolding run_def h Let_def prod.case Returns outcome.case w5_def
      by (blast intro: extends_trans)
  next
    case (Panics p w')
    with CreateWindowEx_extends [of w3 "su_env su" "su_hwnd su" foreign a]
    have "extends w3 w'" by simp
    with e3 show ?thesis
      unfolding run_def h Let_def prod.case Panics outcome.case
      by (auto intro: extends_trans)
  next
    case Blocks
    with e3 show ?thesis
      unfolding run_def h Let_def prod.case Blocks outcome.case by simp
  qed
qed

lemmas run_eval = run_def run_head_def RegisterClassEx_def CreateWindowEx_def message_loop_def
  Let_def startup_ok_def startup_second_def world0_def platform_ok_def wndProc_def
  createTrayIcon_def setVersion_def Shell_NotifyIcon_def log_def GetMessage_def TRUE_def
  DispatchMessage_def NIM_ADD_def NIM_SETVERSION_def NIM_MODIFY_def NIM_DELETE_def WM_QUIT_def
  WM_CREATE_def WM_APP_def pWMAPP_MESSAGE_def pWMAPP_NOTIFYCALLBACK_def zero_NOTIFYICONDATA_def

section \<open>Lemmas: the callers and the actor together\<close>

lemma calls_only_Shell: "calls_only w (snd (Shell_NotifyIcon env m nid w))"
  by (simp add: calls_only_def Shell_NotifyIcon_frame)

lemma calls_only_setIcon:
  "\<exists>e. fst (setIcon env hwnd uid b w) = Inr e" "calls_only w (snd (setIcon env hwnd uid b w))"
  by (auto simp: setIcon_def CreateTemp_def Copy_def Remove_def LoadImage_def Shell_NotifyIcon_def
      log_def Let_def calls_only_def mustUTF16PtrFromString_def UTF16FromString_def
      split: sum.splits prod.splits if_splits option.splits)

lemma calls_only_setTip:
  "fst (setTip env hwnd uid tx w) = Inr e \<Longrightarrow> calls_only w (snd (setTip env hwnd uid tx w))"
  by (auto simp: setTip_def Let_def split_beta calls_only_Shell split: sum.splits)

lemma calls_only_showNotification:
  "fst (showNotification env hwnd uid i t w) = Inr e
   \<Longrightarrow> calls_only w (snd (showNotification env hwnd uid i t w))"
  by (auto simp: showNotification_def Let_def split_beta calls_only_Shell split: sum.splits)

lemma calls_only_addMenuItem:
  "fst (addMenuItem env hm i tx w) = Inr e \<Longrightarrow> calls_only w (snd (addMenuItem env hm i tx w))"
  by (auto simp: addMenuItem_def AppendMenuW_def Let_def calls_only_def log_def split: sum.splits)

lemma calls_only_addMenuSeparator:
  "\<exists>e. fst (addMenuSeparator env hm w) = Inr e" "calls_only w (snd (addMenuSeparator env hm w))"
  by (auto simp: addMenuSeparator_def AppendMenuW_def Let_def calls_only_def log_def)

lemma setTip_returns:
  "CHR 0x00 \<notin> set tx \<Longrightarrow> \<exists>e. fst (setTip env hwnd uid tx w) = Inr e"
  using setTip_marshal [of tx env hwnd uid w] by auto

lemma showNotification_returns:
  "CHR 0x00 \<notin> set i \<Longrightarrow> CHR 0x00 \<notin> set t
   \<Longrightarrow> \<exists>e. fst (showNotification env hwnd uid i t w) = Inr e"
  using showNotification_marshal [of i t env hwnd uid w] by auto

lemma addMenuItem_returns:
  "CHR 0x00 \<notin> set tx \<Longrightarrow> \<exists>e. fst (addMenuItem env hm i tx w) = Inr e"
  by (simp add: addMenuItem_def mustUTF16PtrFromString_NUL_free Let_def split_beta)

lemma send_returnChan_once:
  assumes "fst rw = Inr e" and "calls_only (log (Ev_Recv_messageChan m) w) (snd rw)"
  shows "served_once m w (send_returnChan a rw)"
  using assms
  by (cases rw) (auto simp: served_once_def send_returnChan_def calls_only_def log_def)



lemma wndProc_text_ok:
  assumes "public_request m" and "text_ok (Data m)"
  shows "served_once m w (wndProc env (Some m) hwnd pWMAPP_MESSAGE wp lp a w)"
proof -
  have k: "served_once m w (send_returnChan a' rw)"
    if "\<exists>e. fst rw = Inr e"
      and "\<And>e. fst rw = Inr e \<Longrightarrow> calls_only (log (Ev_Recv_messageChan m) w) (snd rw)"
    for a' rw
    using that send_returnChan_once by blast
  from assms(1) consider
      (icon) b where "m = \<lparr>Type = pMESSAGE_SET_ICON_FROM_BYTES, Data = Bytes b\<rparr>"
    | (tip) tx where "m = \<lparr>Type = pMESSAGE_SET_TIP, Data = String tx\<rparr>"
    | (item) tx f where "m = \<lparr>Type = pMESSAGE_ADD_MENU_ITEM, Data = pDataAddMenuItem tx f\<rparr>"
    | (sep) "m = \<lparr>Type = pMESSAGE_ADD_MENU_SEPARATOR, Data = Nil\<rparr>"
    | (balloon) i t where "m = \<lparr>Type = pMESSAGE_SHOW_NOTIFICATION, Data = pDataShowNotification i t\<rparr>"
    unfolding public_request_def by blast
  then show ?thesis
  proof cases
    case icon
    show ?thesis unfolding icon wndProc_SET_ICON
      by (rule k [unfolded icon]) (rule calls_only_setIcon)+
  next
    case tip
    with assms(2) have "CHR 0x00 \<notin> set tx" by simp
    then show ?thesis unfolding tip wndProc_SET_TIP
      by (intro k [unfolded tip] setTip_returns calls_only_setTip)
  next
    case item
    with assms(2) have "CHR 0x00 \<notin> set tx" by simp
    then show ?thesis unfolding item wndProc_ADD_MENU_ITEM
      by (intro k [unfolded item] addMenuItem_returns calls_only_addMenuItem)
  next
    case sep
    show ?thesis unfolding sep wndProc_ADD_MENU_SEPARATOR
      by (rule k [unfolded sep]) (rule calls_only_addMenuSeparator)+
  next
    case balloon
    with assms(2) have "CHR 0x00 \<notin> set i" "CHR 0x00 \<notin> set t" by simp_all
    then show ?thesis unfolding balloon wndProc_SHOW_NOTIFICATION
      by (intro k [unfolded balloon] showNotification_returns calls_only_showNotification)
  qed
qed

lemma replies_native: "list_all native evs \<Longrightarrow> replies evs = [] \<and> received evs = []"
  by (induction evs rule: replies.induct) simp_all

lemma served_once_replies:
  assumes "served_once m w (Returns r a' w')"
  shows "\<exists>e. replies (new_events w w') = [e]" "received (new_events w w') = [m]"
  using assms by (auto simp: served_once_def new_events_def replies_native)

lemma public_op_form:
  assumes "public_op h op"
  shows "\<exists>m. op = [PostMessage h pWMAPP_MESSAGE 0 0, Send_messageChan m, Recv_returnChan]
             \<and> public_request m"
  using assms unfolding public_op_def public_request_def
  by (auto simp: SetIconFromBytes_def SetTip_def AddMenuItem_def AddMenuSeparator_def
      ShowNotification_def)

lemma client_Cons:
  assumes "client h (x # r)"
  shows "(x = PostMessage h pWMAPP_MESSAGE 0 0
            \<and> (\<exists>m p. r = Send_messageChan m # Recv_returnChan # p \<and> public_request m \<and> client h p))
         \<or> (x = PostMessage h WM_QUIT 0 0 \<and> (\<exists>p. r = Recv_closedChan # p \<and> client h p))
         \<or> (\<exists>q. x = Go q \<and> client h q \<and> client h r)"
  using assms
proof (cases rule: client.cases)
  case (call op p)
  from public_op_form [OF call(2)] call(1) show ?thesis
    using call(3) by auto
next
  case (close p)
  then show ?thesis by (auto simp: Close_def)
next
  case start
  then show ?thesis by simp
qed


lemma thread_Go_run: "\<not> thread h (Go_run # r)"
  by (auto elim!: thread.cases dest: client_Cons)

lemma thread_Recv_hwndChan: "\<not> thread h (Recv_hwndChan # r)"
  by (auto elim!: thread.cases dest: client_Cons)




















lemma reaches_trans:
  assumes "reaches su w0 s1 s2" and "reaches su w0 s0 s1"
  shows "reaches su w0 s0 s2"
  using assms by (induction rule: reaches.induct) (auto intro: reaches.after)


lemma request_reaches_reply:
  assumes "public_request m" and "text_ok (Data m)" and "own_class su w0" and "su_hwnd su \<noteq> 0"
  shows "\<exists>e a' w'. reaches su w0
            \<lparr>callers = [PostMessage (su_hwnd su) pWMAPP_MESSAGE 0 0 # Send_messageChan m
                          # Recv_returnChan # p],
              w_hwnd = Some (su_hwnd su), msgq = [], actor_at = AtGetMessage a w\<rparr>
            \<lparr>callers = [Recv_returnChan # p], w_hwnd = Some (su_hwnd su), msgq = [],
              actor_at = AtReply 0 e a' w'\<rparr>"
proof -
  define wake_up where
    "wake_up = \<lparr>Hwnd = su_hwnd su, message = pWMAPP_MESSAGE, wParam = 0, lParam = 0\<rparr>"
  from wndProc_text_ok [OF assms(1,2), of w "su_env su" "su_hwnd su" 0 0 a]
  obtain a' w' where r: "wndProc (su_env su) (Some m) (su_hwnd su) pWMAPP_MESSAGE 0 0 a w
                           = Returns 0 a' w'"
    and so: "served_once m w (Returns 0 a' w')"
    unfolding served_once_def by metis
  from served_once_replies(1) [OF so] obtain e where e: "replies (new_events w w') = [e]" ..
  define s0 where "s0 = \<lparr>callers = [PostMessage (su_hwnd su) pWMAPP_MESSAGE 0 0
                            # Send_messageChan m # Recv_returnChan # p],
              w_hwnd = Some (su_hwnd su), msgq = [], actor_at = AtGetMessage a w\<rparr>"
  define s1 where "s1 = \<lparr>callers = [Send_messageChan m # Recv_returnChan # p],
              w_hwnd = Some (su_hwnd su), msgq = [wake_up], actor_at = AtGetMessage a w\<rparr>"
  define s2 where "s2 = \<lparr>callers = [Send_messageChan m # Recv_returnChan # p],
              w_hwnd = Some (su_hwnd su), msgq = [], actor_at = AtReceive wake_up a w\<rparr>"
  define s3 where "s3 = \<lparr>callers = [Recv_returnChan # p],
              w_hwnd = Some (su_hwnd su), msgq = [], actor_at = AtReply 0 e a' w'\<rparr>"
  have "step su w0 s0 s1"
    using step.post [of s0 0 "su_hwnd su" pWMAPP_MESSAGE 0 0
        "Send_messageChan m # Recv_returnChan # p" su w0] assms(4)
    by (simp add: s0_def s1_def wake_up_def window_exists_def)
  moreover have "step su w0 s1 s2"
    using step.wake [of s1 a w wake_up "[]" su w0] assms(3,4)
    by (simp add: s1_def s2_def wake_up_def GetMessage_def TRUE_def msg_consts for_window_def)
  moreover have "step su w0 s2 s3"
    using step.receive [of s2 wake_up a w 0 m "Recv_returnChan # p" "su_env su" su 0 a' w' e w0]
      r e
    by (simp add: s2_def s3_def wake_up_def)
  ultimately have "reaches su w0 s0 s3"
    by (blast intro: reaches.intros)
  then show ?thesis unfolding s0_def s3_def by blast
qed
















section \<open>The claims\<close>

text \<open>
  C9 (as amended). For every text without a NUL byte and every field of capacity at
  least 1, \<^verbatim>\<open>copyToUint16Buffer\<close> returns without a panic (every write is inside
  the array, whose length is unchanged), the field holds a NUL at the end of its
  string, the string before that NUL is the first \<open>capacity - 1\<close> code units of the
  UTF-16 encoding of the text, the units after the NUL are untouched, and when the
  encoding with its terminator is longer than the field exactly \<open>capacity - 1\<close> code
  units are kept.
\<close>

theorem copyToUint16Buffer_NUL_terminated:
  assumes "CHR 0x00 \<notin> set text" and "1 \<le> length buff"
  shows "\<exists>buff'. copyToUint16Buffer buff text = Inr buff'
           \<and> length buff' = length buff
           \<and> cstring buff' = take (length buff - 1) (encodeWTF16 text)
           \<and> length (cstring buff') < length buff
           \<and> buff' ! length (cstring buff') = 0
           \<and> drop (Suc (length (cstring buff'))) buff' = drop (Suc (length (cstring buff'))) buff
           \<and> (length buff < length (encodeWTF16 text) + 1
                \<longrightarrow> length (cstring buff') = length buff - 1)"
  using copyToUint16Buffer_props [OF assms] .

theorem copyToUint16Buffer_NUL_terminated_witness:
  "CHR 0x00 \<notin> set ''hello'' \<and> 1 \<le> length [7, 7, 7, 7 :: u16]
   \<and> (\<exists>buff'. copyToUint16Buffer [7, 7, 7, 7] ''hello'' = Inr buff'
           \<and> length buff' = 4
           \<and> cstring buff' = [0x68, 0x65, 0x6C]
           \<and> buff' ! 3 = 0)"
  using copyToUint16Buffer_NUL_terminated [of "''hello''" "[7, 7, 7, 7]"]
  by (auto simp: encodeWTF16_ascii numeral_3_eq_3)

text \<open>
  C9 as stated speaks of every input text. A text with a NUL byte makes
  \<^verbatim>\<open>mustUTF16FromString\<close> panic, so that nothing is copied and the function does
  not return.
\<close>

theorem copyToUint16Buffer_NUL_byte_panics:
  "copyToUint16Buffer [7, 7, 7, 7] [CHR ''a'', CHR 0x00, CHR ''b''] = Inl EINVAL"
  by (simp add: copyToUint16Buffer_def mustUTF16FromString_def UTF16FromString_def)

text \<open>
  C3 (as amended). For every text without a NUL byte, \<^verbatim>\<open>setTip\<close> and
  \<^verbatim>\<open>showNotification\<close> do not panic and hand the shell one
  \<^verbatim>\<open>NOTIFYICONDATA\<close> whose text field has its declared length (128, 256 and 64
  code units), holds the first 127, 255 and 63 code units of the UTF-16 encoding of
  the text before its terminator, and equals the text unmodified when the encoding
  is strictly shorter than the field; every other member of the structure is as the
  method set it. The methods fail only when the shell rejects the call.
\<close>

theorem text_fields_truncate:
  assumes "CHR 0x00 \<notin> set text" and "CHR 0x00 \<notin> set info" and "CHR 0x00 \<notin> set infoTitle"
  shows "(\<exists>nid ok w'.
            setTip env hwnd uid text w
              = (Inr (if ok then None else Some (ErrorString ''unable to change tooltip'')), w')
          \<and> new_events w w' = [Ev_Shell_NotifyIcon NIM_MODIFY nid ok]
          \<and> length (SzTip nid) = 128
          \<and> cstring (SzTip nid) = take 127 (encodeWTF16 text)
          \<and> (length (encodeWTF16 text) < 128 \<longrightarrow> cstring (SzTip nid) = encodeWTF16 text)
          \<and> nid\<lparr>SzTip := replicate 128 0\<rparr>
              = zero_NOTIFYICONDATA\<lparr>CbSize := sizeof_NOTIFYICONDATA, HWnd := hwnd, UID := uid,
                                     UFlags := NIF_TIP OR NIF_SHOWTIP\<rparr>
          \<and> (ok \<longrightarrow> (\<exists>ti. tray w' (hwnd, uid) = Some ti
                          \<and> ti_tip ti = take 127 (encodeWTF16 text))))
       \<and> (\<exists>nid ok w'.
            showNotification env hwnd uid info infoTitle w
              = (Inr (if ok then None else Some (ErrorString ''unable to display notification'')), w')
          \<and> new_events w w' = [Ev_Shell_NotifyIcon NIM_MODIFY nid ok]
          \<and> length (SzInfo nid) = 256
          \<and> cstring (SzInfo nid) = take 255 (encodeWTF16 info)
          \<and> (length (encodeWTF16 info) < 256 \<longrightarrow> cstring (SzInfo nid) = encodeWTF16 info)
          \<and> length (SzInfoTitle nid) = 64
          \<and> cstring (SzInfoTitle nid) = take 63 (encodeWTF16 infoTitle)
          \<and> (length (encodeWTF16 infoTitle) < 64
                \<longrightarrow> cstring (SzInfoTitle nid) = encodeWTF16 infoTitle)
          \<and> nid\<lparr>SzInfo := replicate 256 0, SzInfoTitle := replicate 64 0\<rparr>
              = zero_NOTIFYICONDATA\<lparr>CbSize := sizeof_NOTIFYICONDATA, HWnd := hwnd, UID := uid,
                                     UFlags := NIF_INFO\<rparr>
          \<and> (ok \<longrightarrow> balloons w'
                = balloons w @ [(take 255 (encodeWTF16 info), take 63 (encodeWTF16 infoTitle))]))"
proof (rule conjI)
  from setTip_marshal [OF assms(1), of env hwnd uid w]
  obtain nid ok w' where
    "setTip env hwnd uid text w
       = (Inr (if ok then None else Some (ErrorString ''unable to change tooltip'')), w')
     \<and> new_events w w' = [Ev_Shell_NotifyIcon NIM_MODIFY nid ok]
     \<and> ok = (notify_ok env NIM_MODIFY \<and> tray w (hwnd, uid) \<noteq> None)
     \<and> length (SzTip nid) = 128
     \<and> cstring (SzTip nid) = take 127 (encodeWTF16 text)
     \<and> nid\<lparr>SzTip := replicate 128 0\<rparr>
         = zero_NOTIFYICONDATA\<lparr>CbSize := sizeof_NOTIFYICONDATA, HWnd := hwnd, UID := uid,
                                UFlags := NIF_TIP OR NIF_SHOWTIP\<rparr>
     \<and> (ok \<longrightarrow> (\<exists>ti. tray w' (hwnd, uid) = Some ti
                      \<and> ti_tip ti = take 127 (encodeWTF16 text)))"
    by blast
  then show "\<exists>nid ok w'.
            setTip env hwnd uid text w
              = (Inr (if ok then None else Some (ErrorString ''unable to change tooltip'')), w')
          \<and> new_events w w' = [Ev_Shell_NotifyIcon NIM_MODIFY nid ok]
          \<and> length (SzTip nid) = 128
          \<and> cstring (SzTip nid) = take 127 (encodeWTF16 text)
          \<and> (length (encodeWTF16 text) < 128 \<longrightarrow> cstring (SzTip nid) = encodeWTF16 text)
          \<and> nid\<lparr>SzTip := replicate 128 0\<rparr>
              = zero_NOTIFYICONDATA\<lparr>CbSize := sizeof_NOTIFYICONDATA, HWnd := hwnd, UID := uid,
                                     UFlags := NIF_TIP OR NIF_SHOWTIP\<rparr>
          \<and> (ok \<longrightarrow> (\<exists>ti. tray w' (hwnd, uid) = Some ti
                          \<and> ti_tip ti = take 127 (encodeWTF16 text)))"
    by (intro exI [of _ nid] exI [of _ ok] exI [of _ w']) simp
next
  from showNotification_marshal [OF assms(2,3), of env hwnd uid w]
  obtain nid ok w' where
    "showNotification env hwnd uid info infoTitle w
       = (Inr (if ok then None else Some (ErrorString ''unable to display notification'')), w')
     \<and> new_events w w' = [Ev_Shell_NotifyIcon NIM_MODIFY nid ok]
     \<and> ok = (notify_ok env NIM_MODIFY \<and> tray w (hwnd, uid) \<noteq> None)
     \<and> length (SzInfo nid) = 256
     \<and> cstring (SzInfo nid) = take 255 (encodeWTF16 info)
     \<and> length (SzInfoTitle nid) = 64
     \<and> cstring (SzInfoTitle nid) = take 63 (encodeWTF16 infoTitle)
     \<and> nid\<lparr>SzInfo := replicate 256 0, SzInfoTitle := replicate 64 0\<rparr>
         = zero_NOTIFYICONDATA\<lparr>CbSize := sizeof_NOTIFYICONDATA, HWnd := hwnd, UID := uid,
                                UFlags := NIF_INFO\<rparr>
     \<and> (ok \<longrightarrow> balloons w'
           = balloons w @ [(take 255 (encodeWTF16 info), take 63 (encodeWTF16 infoTitle))])"
    by blast
  then show "\<exists>nid ok w'.
            showNotification env hwnd uid info infoTitle w
              = (Inr (if ok then None else Some (ErrorString ''unable to display notification'')), w')
          \<and> new_events w w' = [Ev_Shell_NotifyIcon NIM_MODIFY nid ok]
          \<and> length (SzInfo nid) = 256
          \<and> cstring (SzInfo nid) = take 255 (encodeWTF16 info)
          \<and> (length (encodeWTF16 info) < 256 \<longrightarrow> cstring (SzInfo nid) = encodeWTF16 info)
          \<and> length (SzInfoTitle nid) = 64
          \<and> cstring (SzInfoTitle nid) = take 63 (encodeWTF16 infoTitle)
          \<and> (length (encodeWTF16 infoTitle) < 64
                \<longrightarrow> cstring (SzInfoTitle nid) = encodeWTF16 infoTitle)
          \<and> nid\<lparr>SzInfo := replicate 256 0, SzInfoTitle := replicate 64 0\<rparr>
              = zero_NOTIFYICONDATA\<lparr>CbSize := sizeof_NOTIFYICONDATA, HWnd := hwnd, UID := uid,
                                     UFlags := NIF_INFO\<rparr>
          \<and> (ok \<longrightarrow> balloons w'
                = balloons w @ [(take 255 (encodeWTF16 info), take 63 (encodeWTF16 infoTitle))])"
    by (intro exI [of _ nid] exI [of _ ok] exI [of _ w']) simp
qed

theorem text_fields_truncate_witness:
  "CHR 0x00 \<notin> set ''ready'' \<and> CHR 0x00 \<notin> set ''done'' \<and> CHR 0x00 \<notin> set ''job''
   \<and> (\<exists>nid ok w'. setTip platform_ok 1 1 ''ready'' world0 = (Inr (if ok then None
                       else Some (ErrorString ''unable to change tooltip'')), w')
         \<and> cstring (SzTip nid) = take 127 (encodeWTF16 ''ready'')
         \<and> new_events world0 w' = [Ev_Shell_NotifyIcon NIM_MODIFY nid ok])"
proof -
  have h: "CHR 0x00 \<notin> set ''ready''" "CHR 0x00 \<notin> set ''done''" "CHR 0x00 \<notin> set ''job''"
    by simp_all
  from text_fields_truncate [OF h, of platform_ok 1 1 world0, THEN conjunct1]
  obtain nid ok w' where "setTip platform_ok 1 1 ''ready'' world0 = (Inr (if ok then None
                       else Some (ErrorString ''unable to change tooltip'')), w')"
    "cstring (SzTip nid) = take 127 (encodeWTF16 ''ready'')"
    "new_events world0 w' = [Ev_Shell_NotifyIcon NIM_MODIFY nid ok]"
    by blast
  then have "\<exists>nid ok w'. setTip platform_ok 1 1 ''ready'' world0 = (Inr (if ok then None
                       else Some (ErrorString ''unable to change tooltip'')), w')
         \<and> cstring (SzTip nid) = take 127 (encodeWTF16 ''ready'')
         \<and> new_events world0 w' = [Ev_Shell_NotifyIcon NIM_MODIFY nid ok]"
    by blast
  with h show ?thesis by blast
qed

text \<open>
  C3 as stated promises the round trip for a text whose length is at the capacity
  of the field. A tooltip of 128 code units is cut to 127: the terminator takes the
  last place of the field.
\<close>

theorem SetTip_at_capacity_is_cut:
  "length (encodeWTF16 (replicate 128 (CHR ''a''))) = 128
   \<and> ti_tip (the (tray (snd (setTip platform_ok 1 1 (replicate 128 (CHR ''a''))
                               (createTrayIcon platform_ok 1 1 world0))) (1, 1)))
       = encodeWTF16 (replicate 127 (CHR ''a''))
   \<and> encodeWTF16 (replicate 127 (CHR ''a'')) \<noteq> encodeWTF16 (replicate 128 (CHR ''a''))"
proof -
  define w1 where "w1 = createTrayIcon platform_ok 1 1 world0"
  have present: "tray w1 (1, 1) \<noteq> None"
    by (simp add: w1_def createTrayIcon_def Shell_NotifyIcon_def Let_def log_def platform_ok_def
        world0_def zero_NOTIFYICONDATA_def NIM_ADD_def)
  have nz: "CHR 0x00 \<notin> set (replicate 128 (CHR ''a''))" by simp
  from setTip_marshal [OF nz, of platform_ok 1 1 w1] present
  obtain ti where "tray (snd (setTip platform_ok 1 1 (replicate 128 (CHR ''a'')) w1)) (1, 1) = Some ti"
    "ti_tip ti = take 127 (encodeWTF16 (replicate 128 (CHR ''a'')))"
    by (auto simp: platform_ok_def)
  moreover have "take 127 (encodeWTF16 (replicate 128 (CHR ''a'')))
      = encodeWTF16 (replicate 127 (CHR ''a''))"
    by (simp add: encodeWTF16_replicate_a)
  moreover have "encodeWTF16 (replicate 127 (CHR ''a'')) \<noteq> encodeWTF16 (replicate 128 (CHR ''a''))"
    by (simp add: encodeWTF16_replicate_a replicate_eq_replicate)
  ultimately show ?thesis
    by (simp add: w1_def encodeWTF16_replicate_a)
qed

text \<open>
  C7. A call of \<^verbatim>\<open>setIcon\<close>, the worker of \<^verbatim>\<open>SetIconFromBytes\<close>, asks for one
  temporary file; when the platform creates it, that file and no other is created,
  and on every path out of the call (the icon does not load, the shell rejects the
  icon, success, panic) it is removed, the removal being the last step: the files
  after the call are the files before it.
\<close>

theorem setIcon_temp_file_removed:
  "files (snd (setIcon env hwnd uid b w)) = files w
   \<and> temp_created (new_events w (snd (setIcon env hwnd uid b w)))
        = (case fst (CreateTemp env w) of Inl e \<Rightarrow> [] | Inr name \<Rightarrow> [name])
   \<and> temp_removed (new_events w (snd (setIcon env hwnd uid b w)))
        = temp_created (new_events w (snd (setIcon env hwnd uid b w)))
   \<and> (\<forall>name. fst (CreateTemp env w) = Inr name
         \<longrightarrow> last (trace (snd (setIcon env hwnd uid b w))) = Ev_Remove name)"
  by (auto simp: setIcon_def CreateTemp_def Copy_def Remove_def LoadImage_def Shell_NotifyIcon_def
      log_def new_events_def Let_def mustUTF16PtrFromString_def UTF16FromString_def
      split: sum.splits prod.splits if_splits option.splits)

theorem setIcon_temp_file_removed_witness:
  "fst (CreateTemp platform_ok world0) = Inr ''tmp1.ico''
   \<and> last (trace (snd (setIcon platform_ok 1 1 ''icon'' world0))) = Ev_Remove ''tmp1.ico''
   \<and> files (snd (setIcon platform_ok 1 1 ''icon'' world0)) = files world0"
  using setIcon_temp_file_removed [of platform_ok 1 1 "''icon''" world0]
  by (simp add: CreateTemp_def platform_ok_def world0_def)

text \<open>
  C5. \<^verbatim>\<open>SetIconFromBytes\<close> returns what \<^verbatim>\<open>wndProc\<close> sends back for its request.
  When the platform cannot load the image of the bytes, or rejects the call that
  applies the loaded icon, the request is answered with one error and the icons of
  the shell are as before; when the image cannot be loaded the shell is not even
  called. With the temporary file created, the error is ``unable to load icon'' in
  the first case and ``unable to change icon'' in the second.
\<close>

theorem SetIconFromBytes_failure:
  assumes "request_of (SetIconFromBytes hwnd b) = Some m"
      and "image_of env b = 0 \<or> \<not> notify_ok env NIM_MODIFY"
  shows "\<exists>e w'. wndProc env (Some m) hwnd pWMAPP_MESSAGE wp lp a w = Returns 0 a w'
           \<and> replies (new_events w w') = [Some e]
           \<and> received (new_events w w') = [m]
           \<and> tray w' = tray w
           \<and> (image_of env b = 0 \<longrightarrow> shell_calls (new_events w w') = [])
           \<and> (\<forall>name. temp_name env = Inr name \<and> files w name = None \<and> CHR 0x00 \<notin> set name
                 \<longrightarrow> e = (if image_of env b = 0 then ErrorString ''unable to load icon''
                          else ErrorString ''unable to change icon''))"
proof -
  from assms(1) have m: "m = \<lparr>Type = pMESSAGE_SET_ICON_FROM_BYTES, Data = Bytes b\<rparr>" by simp
  define w1 where "w1 = log (Ev_Recv_messageChan m) w"
  from setIcon_failure [OF assms(2), of hwnd "iconId a" w1]
  obtain e w2 evs where s: "setIcon env hwnd (iconId a) b w1 = (Inr (Some e), w2)"
    and tr: "trace w2 = trace w1 @ evs"
    and evs: "replies evs = []" "received evs = []"
    and t: "tray w2 = tray w1"
    and sh: "image_of env b = 0 \<longrightarrow> shell_calls evs = []"
    and e: "\<forall>name. temp_name env = Inr name \<and> files w1 name = None \<and> CHR 0x00 \<notin> set name
                 \<longrightarrow> e = (if image_of env b = 0 then ErrorString ''unable to load icon''
                          else ErrorString ''unable to change icon'')"
    by (elim exE conjE)
  define w' where "w' = log (Ev_Send_returnChan (Some e)) w2"
  have r: "wndProc env (Some m) hwnd pWMAPP_MESSAGE wp lp a w = Returns 0 a w'"
    unfolding m wndProc_SET_ICON using s by (simp add: send_returnChan_def w1_def m w'_def)
  have "trace w' = trace w @ (Ev_Recv_messageChan m # evs @ [Ev_Send_returnChan (Some e)])"
    by (simp add: w'_def w1_def log_def tr)
  then have ne: "new_events w w' = Ev_Recv_messageChan m # evs @ [Ev_Send_returnChan (Some e)]"
    by (rule new_events_append)
  have "tray w' = tray w" using t by (simp add: w'_def w1_def log_def)
  moreover have "files w1 = files w" by (simp add: w1_def log_def)
  ultimately show ?thesis
    using r ne evs sh e by (intro exI [of _ e] exI [of _ w']) simp
qed

theorem SetIconFromBytes_failure_witness:
  "request_of (SetIconFromBytes 1 [])
     = Some \<lparr>Type = pMESSAGE_SET_ICON_FROM_BYTES, Data = Bytes []\<rparr>
   \<and> image_of platform_ok [] = 0
   \<and> (\<exists>w'. wndProc platform_ok (Some \<lparr>Type = pMESSAGE_SET_ICON_FROM_BYTES, Data = Bytes []\<rparr>)
              1 pWMAPP_MESSAGE 0 0
              \<lparr>iconId = 1, hmenu = 2, menuIds = 100, menuFns = Map.empty\<rparr> world0
            = Returns 0 \<lparr>iconId = 1, hmenu = 2, menuIds = 100, menuFns = Map.empty\<rparr> w'
          \<and> replies (new_events world0 w') = [Some (ErrorString ''unable to load icon'')]
          \<and> tray w' = tray world0)"
proof -
  have h: "request_of (SetIconFromBytes 1 [])
     = Some \<lparr>Type = pMESSAGE_SET_ICON_FROM_BYTES, Data = Bytes []\<rparr>"
    "image_of platform_ok [] = 0 \<or> \<not> notify_ok platform_ok NIM_MODIFY"
    by (simp_all add: platform_ok_def)
  from SetIconFromBytes_failure [OF h, where wp = 0 and lp = 0 and w = world0
      and a = "\<lparr>iconId = 1, hmenu = 2, menuIds = 100, menuFns = Map.empty\<rparr>"]
  show ?thesis
    by (auto simp: platform_ok_def world0_def)
qed

text \<open>
  C1 (as amended). A tray is started by \<^verbatim>\<open>run\<close> as the only tray of its process,
  so that the window class holds its own window procedure, and its window and its
  popup menu are created. It then serves a session: calls of \<^verbatim>\<open>AddMenuItem\<close> and
  \<^verbatim>\<open>AddMenuSeparator\<close>, between them any calls of \<^verbatim>\<open>SetIconFromBytes\<close>,
  \<^verbatim>\<open>SetTip\<close> and \<^verbatim>\<open>ShowNotification\<close> and any messages that the platform queues
  for the thread (the notifications of the icon among them; not \<^verbatim>\<open>WM_QUIT\<close>, which
  ends the session, and not the wake-up message, which is private to the
  application), the calls made one after the other, no text holding a NUL byte, with
  at most \<open>2^32 - 100\<close> calls of \<^verbatim>\<open>AddMenuItem\<close>.
  Every call is answered, the menu holds the accepted entries in call order, the
  identifiers given to the \<^verbatim>\<open>AddMenuItem\<close> calls are 100, 101, ... in call order,
  hence strictly increasing and pairwise different, and neither a separator nor any
  other call or message takes an identifier.
\<close>

theorem menu_ids_in_call_order:
  assumes "NUL_free calls" and "not_ended (su_hwnd su) calls"
    and "wndclass w0 = None" and "su_hwnd su \<noteq> 0" and "su_hmenu su \<noteq> 0"
    and "100 + items calls \<le> 2 ^ 32"
  shows "\<exists>a w. run su (queue_of (su_hwnd su) calls) w0 = Waiting a w
           \<and> menus w (su_hmenu su) = Some (menu_in_call_order 100 calls)
           \<and> map unat (appended_ids (new_events w0 w)) = [100 ..< 100 + items calls]
           \<and> sorted_wrt (<) (appended_ids (new_events w0 w))
           \<and> distinct (appended_ids (new_events w0 w))
           \<and> length (replies (new_events w0 w)) = requests calls
           \<and> length (received (new_events w0 w)) = requests calls"
proof -
  from run_calls [OF assms(1,2,3,4,5)]
  obtain a w where r: "run su (queue_of (su_hwnd su) calls) w0 = Waiting a w"
    "menus w (su_hmenu su) = Some (menu_in_call_order 100 calls)"
    "appended_ids (new_events w0 w) = map of_nat [100 ..< 100 + items calls]"
    "length (replies (new_events w0 w)) = requests calls"
    "length (received (new_events w0 w)) = requests calls"
    by blast
  from r(3) assms(6) have u: "map unat (appended_ids (new_events w0 w)) = [100 ..< 100 + items calls]"
    by (simp only: unat_upto)
  from word_list_increasing [OF u] r u show ?thesis by blast
qed

theorem menu_ids_in_call_order_witness:
  "\<exists>a w. run startup_ok (queue_of 1
          [(platform_ok, Icon ''ico''), (platform_ok, Tip ''Printer''),
           (platform_ok, Item ''Print'' (Fn 1 True)),
           (platform_pick_100, Platform \<lparr>Hwnd = 1, message = pWMAPP_NOTIFYCALLBACK, wParam = 0,
                                             lParam = ucast WM_RBUTTONUP\<rparr>),
           (platform_ok, Item ''Quit'' (Fn 2 True)), (platform_ok, Separator),
           (platform_ok, Balloon ''Done'' ''Printer''),
           (platform_ok, Item ''About'' (Fn 3 True))]) world0
        = Waiting a w
      \<and> menus w 2 = Some [MenuItem 100 (encodeWTF16 ''Print''), MenuItem 101 (encodeWTF16 ''Quit''),
                           MenuSeparator, MenuItem 102 (encodeWTF16 ''About'')]
      \<and> map unat (appended_ids (new_events world0 w)) = [100, 101, 102]
      \<and> length (replies (new_events world0 w)) = 7"
proof -
  define calls where "calls =
          [(platform_ok, Icon ''ico''), (platform_ok, Tip ''Printer''),
           (platform_ok, Item ''Print'' (Fn 1 True)),
           (platform_pick_100, Platform \<lparr>Hwnd = 1, message = pWMAPP_NOTIFYCALLBACK, wParam = 0,
                                             lParam = ucast WM_RBUTTONUP\<rparr>),
           (platform_ok, Item ''Quit'' (Fn 2 True)), (platform_ok, Separator),
           (platform_ok, Balloon ''Done'' ''Printer''),
           (platform_ok, Item ''About'' (Fn 3 True))]"
  have h: "NUL_free calls" "not_ended (su_hwnd startup_ok) calls" "wndclass world0 = None"
    "su_hwnd startup_ok \<noteq> 0" "su_hmenu startup_ok \<noteq> 0" "100 + items calls \<le> 2 ^ 32"
    by (simp_all add: calls_def startup_ok_def world0_def msg_consts)
  have p: "append_ok platform_ok" by (simp add: platform_ok_def)
  have u: "[100 ..< 103] = [100, 101, 102 :: nat]" by (simp add: upt_rec)
  have m: "menu_in_call_order 100 calls
      = [MenuItem 100 (encodeWTF16 ''Print''), MenuItem 101 (encodeWTF16 ''Quit''),
         MenuSeparator, MenuItem 102 (encodeWTF16 ''About'')]"
    by (simp add: calls_def p)
  have i: "items calls = 3" "requests calls = 7" by (simp_all add: calls_def)
  have su: "su_hwnd startup_ok = 1" "su_hmenu startup_ok = 2" by (simp_all add: startup_ok_def)
  from menu_ids_in_call_order [OF h] obtain a w where
    "run startup_ok (queue_of 1 calls) world0 = Waiting a w"
    "menus w 2 = Some (menu_in_call_order 100 calls)"
    "map unat (appended_ids (new_events world0 w)) = [100 ..< 100 + items calls]"
    "length (replies (new_events world0 w)) = requests calls"
    unfolding su by blast
  then show ?thesis
    unfolding calls_def [symmetric] m i by (intro exI [of _ a] exI [of _ w]) (simp add: u)
qed

text \<open>
  C1 as stated speaks of every sequence of calls on a tray; the conditions of the
  amended claim cannot be dropped. The counter \<^verbatim>\<open>menuIds\<close> is a \<^verbatim>\<open>uint32\<close>: after \<open>2^32\<close>
  calls of \<^verbatim>\<open>AddMenuItem\<close> it is 100 again, and the next call receives an
  identifier that is already in use. A text with a NUL byte makes the actor panic:
  neither that call nor a later one is answered and the menu stays empty. When
  \<^verbatim>\<open>CreatePopupMenu\<close> has answered 0 the call is answered with an error and no
  menu holds the entry, though the platform refuses nothing. A second tray of the
  process finds the class \<^verbatim>\<open>"WndClass"\<close> registered with the procedure of the
  first (the result of \<^verbatim>\<open>RegisterClassEx\<close> is dropped): its window is served by
  that procedure, the icon is added under the identifier 1 of the first tray, and
  the request of its \<^verbatim>\<open>AddMenuItem\<close> is never received. Without a window no request
  is received, and after \<^verbatim>\<open>WM_QUIT\<close> none is.
\<close>

theorem menu_calls_outside_the_amended_claim:
  "\<not> distinct (appended_ids (trace (final_world (run startup_ok
        (served (map (call_of (su_hwnd startup_ok)) many_items)) world0))))
   \<and> menus (final_world (run startup_ok
        (queue_of 1 [(platform_ok, Item [CHR ''a'', CHR 0x00] (Fn 1 True)),
                     (platform_ok, Item ''b'' (Fn 2 True))]) world0)) 2 = Some []
   \<and> replies (trace (final_world (run startup_ok
        (queue_of 1 [(platform_ok, Item [CHR ''a'', CHR 0x00] (Fn 1 True)),
                     (platform_ok, Item ''b'' (Fn 2 True))]) world0))) = []
   \<and> menus (final_world (run (startup_ok\<lparr>su_hmenu := 0\<rparr>)
        (queue_of 1 [(platform_ok, Item ''Quit'' (Fn 1 True))]) world0)) 0 = None
   \<and> replies (trace (final_world (run (startup_ok\<lparr>su_hmenu := 0\<rparr>)
        (queue_of 1 [(platform_ok, Item ''Quit'' (Fn 1 True))]) world0))) = [Some (Errno 0)]
   \<and> received (trace (final_world (run startup_second
        (queue_of 3 [(platform_ok, Item ''Quit'' (Fn 1 True))]) after_first_tray))) = []
   \<and> menus (final_world (run startup_second
        (queue_of 3 [(platform_ok, Item ''Quit'' (Fn 1 True))]) after_first_tray)) 4 = Some []
   \<and> tray (final_world (run startup_second
        (queue_of 3 [(platform_ok, Item ''Quit'' (Fn 1 True))]) after_first_tray)) (3, 1) \<noteq> None
   \<and> tray (final_world (run startup_second
        (queue_of 3 [(platform_ok, Item ''Quit'' (Fn 1 True))]) after_first_tray)) (3, 2) = None
   \<and> received (trace (final_world (run (startup_ok\<lparr>su_hwnd := 0\<rparr>)
        (queue_of 0 [(platform_ok, Item ''Quit'' (Fn 1 True))]) world0))) = []
   \<and> menus (final_world (run startup_ok
        (queue_of 1 [(platform_ok, Platform \<lparr>Hwnd = 1, message = WM_QUIT, wParam = 0,
                                              lParam = 0\<rparr>),
                     (platform_ok, Item ''Quit'' (Fn 1 True))]) world0)) 2 = Some []"
proof (intro conjI)
  show "\<not> distinct (appended_ids (trace (final_world (run startup_ok
        (served (map (call_of (su_hwnd startup_ok)) many_items)) world0))))"
  proof -
    have nf: "NUL_free many_items"
      unfolding many_items_def by (rule NUL_free_replicate_Item) simp
    have nm: "no_messages many_items"
      unfolding many_items_def by (rule no_messages_replicate_Item)
    have n: "items many_items = 2 ^ 32 + 1"
      unfolding many_items_def by (rule items_replicate_Item)
    have su: "wndclass world0 = None" "su_hwnd startup_ok \<noteq> 0" "su_hmenu startup_ok \<noteq> 0"
      by (simp_all add: startup_ok_def world0_def)
    from run_menu_calls [OF nf nm su]
    obtain a w where
      r: "run startup_ok (served (map (call_of (su_hwnd startup_ok)) many_items)) world0
            = Waiting a w"
      and ids: "appended_ids (new_events world0 w) = map of_nat [100 ..< 100 + items many_items]"
      by blast
    have tr: "new_events world0 w = trace w" by (simp add: new_events_def world0_def)
    define ids where "ids = (map of_nat [100 ..< 100 + items many_items] :: u32 list)"
    have len: "length ids = items many_items" by (simp add: ids_def)
    have i0: "0 < items many_items" and i1: "2 ^ 32 < items many_items"
      and ne: "(0::nat) \<noteq> 2 ^ 32"
      unfolding n by simp_all
    have first: "ids ! 0 = of_nat (100 + 0)"
      unfolding ids_def using i0 by (rule nth_ids)
    have last: "ids ! (2 ^ 32) = of_nat (100 + 2 ^ 32)"
      unfolding ids_def using i1 by (rule nth_ids)
    have same: "(of_nat (100 + 0) :: u32) = of_nat (100 + 2 ^ 32)"
      by simp
    have "\<not> distinct ids"
    proof
      assume "distinct ids"
      then have "(ids ! 0 = ids ! (2 ^ 32)) = (0 = (2 ^ 32 :: nat))"
        using i0 i1 unfolding len [symmetric] by (rule nth_eq_iff_index_eq)
      with first last same ne show False by simp
    qed
    then show ?thesis
      unfolding r final_world.simps tr [symmetric] ids ids_def .
  qed
qed (simp_all add: after_first_tray_def run_eval AddMenuItem_def type_consts newMenuId_def
      addMenuItem_def mustUTF16PtrFromString_def UTF16FromString_def AppendMenuW_def
      send_returnChan_def)

text \<open>
  C10 (as amended). When \<^verbatim>\<open>AppendMenuW\<close> refuses the entry, \<^verbatim>\<open>AddMenuItem\<close> is
  answered with the error and the menu is unchanged, but the identifier is used up
  and the callback stays registered under it: the next \<^verbatim>\<open>AddMenuItem\<close> receives
  the successor of the identifier in 32-bit arithmetic, which is the next higher
  identifier unless the refused call had received the last one, \<open>2^32 - 1\<close>. (The
  texts hold no NUL byte.)
\<close>

theorem AddMenuItem_failure_not_rolled_back:
  assumes "CHR 0x00 \<notin> set text1" and "CHR 0x00 \<notin> set text2" and "\<not> append_ok env"
  shows "\<exists>a1 w1. wndProc env (request_of (AddMenuItem hwnd text1 f1)) hwnd pWMAPP_MESSAGE wp lp a w
                   = Returns 0 a1 w1
           \<and> replies (new_events w w1) = [Some (Errno (last_error env))]
           \<and> menus w1 = menus w
           \<and> menuIds a1 = menuIds a + 1
           \<and> menuFns a1 (menuIds a) = Some f1
           \<and> (\<exists>a2 w2. wndProc env2 (request_of (AddMenuItem hwnd text2 f2)) hwnd pWMAPP_MESSAGE
                          wp2 lp2 a1 w1 = Returns 0 a2 w2
                  \<and> appended_ids (new_events w1 w2) = [menuIds a + 1]
                  \<and> menuFns a2 (menuIds a + 1) = Some f2
                  \<and> menuFns a2 (menuIds a) = Some f1
                  \<and> (menuIds a \<noteq> - 1 \<longrightarrow> menuIds a < menuIds a + 1))"
proof -
  define a1 where "a1 = a\<lparr>menuIds := menuIds a + 1, menuFns := (menuFns a)(menuIds a \<mapsto> f1)\<rparr>"
  from wndProc_AddMenuItem [OF assms(1), of env hwnd f1 hwnd wp lp a w] assms(3)
  obtain w1 where
    r1: "wndProc env (request_of (AddMenuItem hwnd text1 f1)) hwnd pWMAPP_MESSAGE wp lp a w
           = Returns 0 a1 w1"
    and t1: "trace w1 = trace w @
              [Ev_Recv_messageChan \<lparr>Type = pMESSAGE_ADD_MENU_ITEM, Data = pDataAddMenuItem text1 f1\<rparr>,
               Ev_AppendMenuW (hmenu a) 0 (menuIds a) (Some (encodeWTF16 text1 @ [0])) False,
               Ev_Send_returnChan (Some (Errno (last_error env)))]"
    and m1: "menus w1 = menus w"
    unfolding a1_def by auto
  define a2 where "a2 = a1\<lparr>menuIds := menuIds a1 + 1,
                            menuFns := (menuFns a1)(menuIds a1 \<mapsto> f2)\<rparr>"
  from wndProc_AddMenuItem [OF assms(2), of env2 hwnd f2 hwnd wp2 lp2 a1 w1]
  obtain w2 ok2 where
    r2: "wndProc env2 (request_of (AddMenuItem hwnd text2 f2)) hwnd pWMAPP_MESSAGE wp2 lp2 a1 w1
           = Returns 0 a2 w2"
    and t2: "trace w2 = trace w1 @
              [Ev_Recv_messageChan \<lparr>Type = pMESSAGE_ADD_MENU_ITEM, Data = pDataAddMenuItem text2 f2\<rparr>,
               Ev_AppendMenuW (hmenu a1) 0 (menuIds a1) (Some (encodeWTF16 text2 @ [0])) ok2,
               Ev_Send_returnChan (if ok2 then None else Some (Errno (last_error env2)))]"
    unfolding a2_def by blast
  have n1: "replies (new_events w w1) = [Some (Errno (last_error env))]"
    using new_events_append [OF t1] by simp
  have n2: "appended_ids (new_events w1 w2) = [menuIds a + 1]"
    using new_events_append [OF t2] by (simp add: a1_def)
  have f: "menuIds a1 = menuIds a + 1" "menuFns a1 (menuIds a) = Some f1"
    "menuFns a2 (menuIds a + 1) = Some f2" "menuFns a2 (menuIds a) = Some f1"
    by (simp_all add: a1_def a2_def)
  have h: "menuIds a \<noteq> - 1 \<longrightarrow> menuIds a < menuIds a + 1"
    by (simp add: word_successor_higher)
  show ?thesis
    using r1 n1 m1 f r2 n2 h by blast
qed

theorem AddMenuItem_failure_not_rolled_back_witness:
  "CHR 0x00 \<notin> set ''Print'' \<and> CHR 0x00 \<notin> set ''Quit'' \<and> \<not> append_ok platform_refuses
   \<and> (100 :: u32) \<noteq> - 1
   \<and> (\<exists>a1 w1. wndProc platform_refuses (request_of (AddMenuItem 1 ''Print'' (Fn 1 True))) 1
                  pWMAPP_MESSAGE 0 0
                  \<lparr>iconId = 1, hmenu = 2, menuIds = 100, menuFns = Map.empty\<rparr> world0
                = Returns 0 a1 w1
          \<and> replies (new_events world0 w1) = [Some (Errno 8)]
          \<and> menuFns a1 100 = Some (Fn 1 True)
          \<and> (\<exists>a2 w2. wndProc platform_ok (request_of (AddMenuItem 1 ''Quit'' (Fn 2 True))) 1
                  pWMAPP_MESSAGE 0 0 a1 w1 = Returns 0 a2 w2
                \<and> appended_ids (new_events w1 w2) = [101]
                \<and> (100 :: u32) < 101))"
proof -
  have h: "CHR 0x00 \<notin> set ''Print''" "CHR 0x00 \<notin> set ''Quit''" "\<not> append_ok platform_refuses"
    by (simp_all add: platform_refuses_def)
  have e: "last_error platform_refuses = 8" by (simp add: platform_refuses_def)
  from AddMenuItem_failure_not_rolled_back [OF h, where hwnd = 1 and wp = 0 and lp = 0
      and ?wp2.0 = 0 and ?lp2.0 = 0 and ?f1.0 = "Fn 1 True" and ?f2.0 = "Fn 2 True"
      and ?env2.0 = platform_ok and w = world0
      and a = "\<lparr>iconId = 1, hmenu = 2, menuIds = 100, menuFns = Map.empty\<rparr>"]
  show ?thesis
    using h e by (auto simp: platform_ok_def)
qed

text \<open>
  C10 as stated promises the next higher identifier. When the refused call has
  received \<open>2^32 - 1\<close>, the identifier of the call after it is 0.
\<close>

theorem next_identifier_after_the_last_is_0:
  "drop (2 ^ 32 - 101) (appended_ids (trace (final_world (run startup_ok
        (served (map (call_of (su_hwnd startup_ok)) calls_up_to_the_last_id)) world0))))
     = [0xFFFFFFFF, 0]"
proof -
  define n where "n = (2 ^ 32 - 101 :: nat)"
  have nf: "NUL_free calls_up_to_the_last_id"
    unfolding calls_up_to_the_last_id_def
    by (simp add: NUL_free_replicate_Item)
  have it: "items calls_up_to_the_last_id = n + 2"
    unfolding calls_up_to_the_last_id_def n_def [symmetric]
    by (simp add: items_replicate_Item)
  have nm: "no_messages calls_up_to_the_last_id"
    unfolding calls_up_to_the_last_id_def
    by (simp add: no_messages_replicate_Item)
  have su: "wndclass world0 = None" "su_hwnd startup_ok \<noteq> 0" "su_hmenu startup_ok \<noteq> 0"
    by (simp_all add: startup_ok_def world0_def)
  from run_menu_calls [OF nf nm su]
  obtain a w where r: "run startup_ok
        (served (map (call_of (su_hwnd startup_ok)) calls_up_to_the_last_id)) world0 = Waiting a w"
    and ids: "appended_ids (new_events world0 w)
                = map of_nat [100 ..< 100 + items calls_up_to_the_last_id]"
    by blast
  have tr: "new_events world0 w = trace w" by (simp add: new_events_def world0_def)
  have "drop n (map of_nat [100 ..< 100 + (n + 2)] :: u32 list)
      = map of_nat [100 + n ..< 100 + n + 2]"
    by (simp add: drop_map add.commute add.left_commute)
  also have "[100 + n ..< 100 + n + 2] = [100 + n, 100 + n + 1]"
    by (simp add: upt_rec)
  also have "map of_nat [100 + n, 100 + n + 1] = [0xFFFFFFFF, 0 :: u32]"
    by (simp add: n_def)
  finally show ?thesis
    unfolding r final_world.simps tr [symmetric] ids it n_def .
qed

text \<open>
  C2 (the code does not do what the claim says). \<^verbatim>\<open>Close\<close> posts \<^verbatim>\<open>WM_QUIT\<close>.
  \<^verbatim>\<open>GetMessage\<close> answers 0 for it, the loop of \<^verbatim>\<open>run\<close> is left without a
  dispatch, and the case \<^verbatim>\<open>WM_QUIT\<close> of \<^verbatim>\<open>wndProc\<close>, the only caller of
  \<^verbatim>\<open>destroyTrayIcon\<close>, is never reached (\<open>run_extends\<close>: no run of the actor
  calls \<^verbatim>\<open>Shell_NotifyIcon\<close> with \<^verbatim>\<open>NIM_DELETE\<close>). After \<^verbatim>\<open>New\<close> and
  \<^verbatim>\<open>Close\<close> the loop is left and \<^verbatim>\<open>closedChan\<close> is closed, so \<^verbatim>\<open>Close\<close>
  returns, but the icon is still in the shell.
\<close>

theorem Close_does_not_remove_the_icon:
  "\<exists>a w. run startup_ok (served [(platform_ok, Close (su_hwnd startup_ok))]) world0 = LoopExit a w
         \<and> tray w (su_hwnd startup_ok, iconId a) \<noteq> None
         \<and> map fst (shell_calls (trace w)) = [NIM_ADD, NIM_SETVERSION]
         \<and> last (trace w) = Ev_Close_closedChan"
  by (simp add: run_eval Close_def)

text \<open>
  C6 (the code of \<^verbatim>\<open>wintray.go\<close> does not do what the claim says). A menu entry is
  added with a callback that never returns, the user chooses it, and a further
  request is made. The window procedure of \<^verbatim>\<open>wintray.go\<close> calls the callback
  itself and never returns: the actor is stuck and the further request is never
  received. The window procedure of the other file starts the callback with
  \<^verbatim>\<open>go\<close> and serves the further request.
\<close>

theorem wintray_go_callback_stalls_the_actor:
  "(\<exists>a w. pump_wintray 1
        (served [(platform_ok, AddMenuItem_wintray 1 ''Wait'' (Fn 1 False))]
         @ [(\<lparr>Hwnd = 1, message = pWMAPP_NOTIFYCALLBACK_wintray, wParam = 0,
              lParam = ucast WM_CONTEXTMENU\<rparr>, platform_pick_100, None)]
         @ served [(platform_ok, SetTip_wintray 1 ''later'')])
        actor0 world_with_menu = Stuck a w
      \<and> menuFns a 100 = Some (Fn 1 False)
      \<and> length (received (trace w)) = 1)
   \<and> (\<exists>a w. pump 1
        (served [(platform_ok, AddMenuItem 1 ''Wait'' (Fn 1 False))]
         @ [(\<lparr>Hwnd = 1, message = pWMAPP_NOTIFYCALLBACK, wParam = 0,
              lParam = ucast WM_RBUTTONUP\<rparr>, platform_pick_100, None)]
         @ served [(platform_ok, SetTip 1 ''later'')])
        actor0 world_with_menu = Waiting a w
      \<and> spawned (trace w) = [Fn 1 False]
      \<and> length (received (trace w)) = 2
      \<and> length (replies (trace w)) = 2)"
proof (rule conjI)
  show "\<exists>a w. pump_wintray 1
        (served [(platform_ok, AddMenuItem_wintray 1 ''Wait'' (Fn 1 False))]
         @ [(\<lparr>Hwnd = 1, message = pWMAPP_NOTIFYCALLBACK_wintray, wParam = 0,
              lParam = ucast WM_CONTEXTMENU\<rparr>, platform_pick_100, None)]
         @ served [(platform_ok, SetTip_wintray 1 ''later'')])
        actor0 world_with_menu = Stuck a w
      \<and> menuFns a 100 = Some (Fn 1 False)
      \<and> length (received (trace w)) = 1"
    by (simp add: AddMenuItem_wintray_def SetTip_wintray_def GetMessage_def TRUE_def
        DispatchMessage_wintray_def wndProc_wintray_def pWMAPP_MESSAGE_wintray_def
        pWMAPP_NOTIFYCALLBACK_wintray_def WM_APP_def WM_QUIT_def WM_CREATE_def WM_CONTEXTMENU_def
        pMESSAGE_ADD_MENU_ITEM_wintray_def pMESSAGE_SET_TIP_wintray_def newMenuId_def
        addMenuItem_wintray_def mustUTF16PtrFromString_NUL_free AppendMenuW_def Let_def log_def
        showMenu_wintray_def LOWORD_def actor0_def world_with_menu_def world0_def
        platform_pick_100_def platform_ok_def)
next
  show "\<exists>a w. pump 1
        (served [(platform_ok, AddMenuItem 1 ''Wait'' (Fn 1 False))]
         @ [(\<lparr>Hwnd = 1, message = pWMAPP_NOTIFYCALLBACK, wParam = 0,
              lParam = ucast WM_RBUTTONUP\<rparr>, platform_pick_100, None)]
         @ served [(platform_ok, SetTip 1 ''later'')])
        actor0 world_with_menu = Waiting a w
      \<and> spawned (trace w) = [Fn 1 False]
      \<and> length (received (trace w)) = 2
      \<and> length (replies (trace w)) = 2"
    by (simp add: AddMenuItem_def SetTip_def GetMessage_def TRUE_def
        DispatchMessage_def wndProc_def pWMAPP_MESSAGE_def
        pWMAPP_NOTIFYCALLBACK_def WM_APP_def WM_QUIT_def WM_CREATE_def WM_RBUTTONUP_def
        type_consts newMenuId_def send_returnChan_def
        addMenuItem_def mustUTF16PtrFromString_NUL_free AppendMenuW_def Let_def log_def
        showMenu_def LOWORD_def actor0_def world_with_menu_def world0_def
        setTip_def copyToUint16Buffer_result zero_NOTIFYICONDATA_def encodeWTF16_ascii
        Shell_NotifyIcon_def
        platform_pick_100_def platform_ok_def)
qed






end
